theory Spec2Isabelle
  imports Main "HOL-Library.Char_ord" "HOL-Library.List_Lexorder"
begin

section \<open>The executor of the OpenStack machine driver\<close>

text \<open>
  A shallow embedding of \<^verbatim>\<open>pkg/driver/executor/executor.go\<close>. The executor talks to the
  platform through three Go interfaces (Compute, Network, Storage). Each interface is a
  record of operations over an arbitrary platform state \<open>'s\<close>; every operation takes the
  state and returns its reply with the new state. The theorems hold for every
  implementation of the three interfaces.

  Field names carry the name of their Go struct in front (\<open>srv_ID\<close> is
  \<^verbatim>\<open>servers.Server.ID\<close>), since several structs share field names. The fields of the
  configuration keep their Go names.
\<close>

subsection \<open>Errors\<close>

text \<open>
  A Go \<^verbatim>\<open>error\<close> is \<open>error option\<close>, \<open>None\<close> being \<^verbatim>\<open>nil\<close>.
  \<open>Err404\<close> is a reply of the platform that \<^verbatim>\<open>client.IsNotFoundError\<close> recognises,
  \<open>ErrPlatform\<close> any other failure of a platform call. \<open>ErrNotFound\<close> and
  \<open>ErrMultipleFound\<close> are the two sentinel errors of the executor package, and
  \<open>ErrWaitTimeout\<close> the one of \<^verbatim>\<open>wait.Poll\<close>.
  \<open>Errorf fmt args\<close> is \<^verbatim>\<open>fmt.Errorf(fmt, args...)\<close> with no \<^verbatim>\<open>%w\<close> verb: a new error that
  only prints its arguments. \<open>ErrorfW fmt args e\<close> is \<^verbatim>\<open>fmt.Errorf\<close> whose last verb is
  \<^verbatim>\<open>%w\<close>: it prints \<open>args\<close> and \<open>e\<close>, and wraps \<open>e\<close>.
\<close>

type_synonym Fault = string

datatype error =
    Err404 string
  | ErrPlatform string
  | ErrNotFound
  | ErrMultipleFound
  | ErrWaitTimeout
  | Errorf string "fmtarg list"
  | ErrorfW string "fmtarg list" error
and fmtarg =
    S string
  | E "error option"
  | F Fault

text \<open>\<^verbatim>\<open>errors.Is\<close> of the Go standard library: the target is looked for along the chain
  of wrapped errors.\<close>

fun errors_Is :: "error \<Rightarrow> error \<Rightarrow> bool" where
  "errors_Is (ErrorfW fmt args e) target = (ErrorfW fmt args e = target \<or> errors_Is e target)"
| "errors_Is e target = (e = target)"

text \<open>Modelled from the spec: \<^verbatim>\<open>client.IsNotFoundError\<close> is declared outside the given
  sources. The spec's taxonomy has "not-found (resource absent)" as the class of a
  platform reply; the test holds of that reply and of nothing else, and \<^verbatim>\<open>nil\<close> is no
  error at all.\<close>

fun IsNotFoundError :: "error option \<Rightarrow> bool" where
  "IsNotFoundError (Some (Err404 msg)) = True"
| "IsNotFoundError err = False"

text \<open>Modelled from the spec: \<^verbatim>\<open>strSliceContains\<close> is declared outside the given
  sources; the spec reads it as membership ("current status \<open>\<in>\<close> target").\<close>

definition strSliceContains :: "string list \<Rightarrow> string \<Rightarrow> bool" where
  "strSliceContains haystack needle = (needle \<in> set haystack)"

text \<open>Modelled from the spec: the status constants of package \<^verbatim>\<open>client\<close> are declared
  outside the given sources. The spec names the states: instance
  \{building, active, error, deleted\}, volume \{creating, downloading, available, error,
  deleting\}. Only their being different strings matters below.\<close>

definition ServerStatusBuild :: string where "ServerStatusBuild = ''BUILD''"
definition ServerStatusActive :: string where "ServerStatusActive = ''ACTIVE''"
definition ServerStatusError :: string where "ServerStatusError = ''ERROR''"
definition ServerStatusDeleted :: string where "ServerStatusDeleted = ''DELETED''"
definition VolumeStatusCreating :: string where "VolumeStatusCreating = ''creating''"
definition VolumeStatusDownloading :: string where "VolumeStatusDownloading = ''downloading''"
definition VolumeStatusAvailable :: string where "VolumeStatusAvailable = ''available''"
definition VolumeStatusError :: string where "VolumeStatusError = ''error''"
definition VolumeStatusDeleting :: string where "VolumeStatusDeleting = ''deleting''"

text \<open>The fault details that the message of an error prints: the fault arguments of its
  format, and those of the errors printed or wrapped in it.\<close>

fun fault_details :: "error \<Rightarrow> Fault list"
  and fault_details_arg :: "fmtarg \<Rightarrow> Fault list" where
  "fault_details (Errorf fmt args) = concat (map fault_details_arg args)"
| "fault_details (ErrorfW fmt args err) = concat (map fault_details_arg args) @ fault_details err"
| "fault_details err = []"
| "fault_details_arg (F fault) = [fault]"
| "fault_details_arg (E (Some err)) = fault_details err"
| "fault_details_arg arg = []"

subsection \<open>Strings\<close>

text \<open>\<^verbatim>\<open>strings.Contains\<close>: the second string occurs in the first as a contiguous run.\<close>

primrec strings_Contains :: "string \<Rightarrow> string \<Rightarrow> bool" where
  "strings_Contains [] substr = (substr = [])"
| "strings_Contains (c # cs) substr =
     (take (length substr) (c # cs) = substr \<or> strings_Contains cs substr)"

text \<open>\<^verbatim>\<open>strings.Split(s, ",")\<close>, the separator being one character: the pieces between the
  separators, at least one piece.\<close>

primrec strings_Split :: "string \<Rightarrow> char \<Rightarrow> string list" where
  "strings_Split [] sep = [[]]"
| "strings_Split (c # cs) sep =
     (if c = sep then [] # strings_Split cs sep
      else (case strings_Split cs sep of
              [] \<Rightarrow> [[c]]
            | p # ps \<Rightarrow> (c # p) # ps))"

subsection \<open>Data\<close>

record Server =
  srv_ID :: string
  srv_Name :: string
  srv_Status :: string
  srv_Metadata :: "(string \<times> string) list"
  srv_Fault :: Fault

record Volume =
  vol_ID :: string
  vol_Name :: string
  vol_Status :: string

text \<open>\<^verbatim>\<open>volumes.Volume{}\<close>, the zero value.\<close>

definition Volume_zero :: Volume where
  "Volume_zero = \<lparr>vol_ID = '''', vol_Name = '''', vol_Status = ''''\<rparr>"

text \<open>A port; \<open>port_AllowedAddressPairs\<close> holds the \<^verbatim>\<open>IPAddress\<close> of each pair.\<close>

record Port =
  port_ID :: string
  port_Name :: string
  port_NetworkID :: string
  port_DeviceID :: string
  port_AllowedAddressPairs :: "string list"

text \<open>\<^verbatim>\<open>servers.Network\<close>: what a server is attached to.\<close>

record ServerNetwork =
  net_UUID :: string
  net_Port :: string

text \<open>\<^verbatim>\<open>api.OpenStackNetwork\<close>: an entry of the configuration's list of named networks.\<close>

record OpenStackNetwork =
  osn_Id :: string
  osn_Name :: string
  osn_PodNetwork :: bool

record BlockDevice =
  bd_SourceType :: string
  bd_UUID :: string
  bd_BootIndex :: int
  bd_DeleteOnTermination :: bool
  bd_DestinationType :: string
  bd_VolumeSize :: int

text \<open>The creation options of a server. Go layers \<^verbatim>\<open>keypairs.CreateOptsExt\<close>,
  \<^verbatim>\<open>schedulerhints.CreateOptsExt\<close> and \<^verbatim>\<open>bootfromvolume.CreateOptsExt\<close> around
  \<^verbatim>\<open>servers.CreateOpts\<close>; the record holds the fields of all layers, a layer that is
  absent being \<open>None\<close>.\<close>

record ServerCreateOpts =
  co_Name :: string
  co_FlavorRef :: string
  co_ImageRef :: string
  co_Networks :: "ServerNetwork list"
  co_SecurityGroups :: "string list"
  co_Metadata :: "(string \<times> string) list"
  co_UserData :: string
  co_AvailabilityZone :: string
  co_ConfigDrive :: "bool option"
  co_KeyName :: string
  co_SchedulerHints :: "string option"
  co_BlockDevice :: "BlockDevice list option"

record VolumeCreateOpts =
  vco_Size :: int
  vco_AvailabilityZone :: string
  vco_Name :: string
  vco_ImageID :: string
  vco_VolumeType :: string

record PortCreateOpts =
  pco_Name :: string
  pco_NetworkID :: string
  pco_FixedIPs :: "string list"
  pco_AllowedAddressPairs :: "string list"
  pco_SecurityGroups :: "string list"

text \<open>\<^verbatim>\<open>api.MachineProviderConfigSpec\<close>. \<open>Tags\<close> is a Go map; it is kept as the list of its
  entries in the order in which a \<^verbatim>\<open>range\<close> loop visits them, which Go leaves open.\<close>

record MachineProviderConfigSpec =
  Region :: string
  AvailabilityZone :: string
  ImageID :: string
  ImageName :: string
  FlavorName :: string
  KeyName :: string
  SecurityGroups :: "string list"
  Tags :: "(string \<times> string) list"
  NetworkID :: string
  SubnetID :: "string option"
  SubnetIDs :: "string list"
  PodNetworkCidr :: string
  RootDiskSize :: int
  UseConfigDrive :: "bool option"
  ServerGroupID :: "string option"
  Networks :: "OpenStackNetwork list"
  VolumeType :: "string option"

subsection \<open>The capability interfaces\<close>

text \<open>An operation that returns \<^verbatim>\<open>(value, error)\<close> returns a sum, \<open>Inl\<close> the error, where
  every caller reads the value only after a \<^verbatim>\<open>nil\<close> error. \<open>ListVolumes\<close> returns the
  pair as Go does, since \<open>checkBootVolume\<close> reads the list whatever the error is.\<close>

record 's Compute =
  GetServer :: "string \<Rightarrow> 's \<Rightarrow> (error + Server) \<times> 's"
  ListServers :: "string \<Rightarrow> 's \<Rightarrow> (error + Server list) \<times> 's"
  CreateServer :: "ServerCreateOpts \<Rightarrow> 's \<Rightarrow> (error + Server) \<times> 's"
  BootFromVolume :: "ServerCreateOpts \<Rightarrow> 's \<Rightarrow> (error + Server) \<times> 's"
  DeleteServer :: "string \<Rightarrow> 's \<Rightarrow> error option \<times> 's"
  ImageIDFromName :: "string \<Rightarrow> 's \<Rightarrow> (error + string) \<times> 's"
  FlavorIDFromName :: "string \<Rightarrow> 's \<Rightarrow> (error + string) \<times> 's"

record 's Network =
  GetSubnet :: "string \<Rightarrow> 's \<Rightarrow> error option \<times> 's"
  PortIDFromName :: "string \<Rightarrow> 's \<Rightarrow> (error + string) \<times> 's"
  CreatePort :: "PortCreateOpts \<Rightarrow> 's \<Rightarrow> (error + Port) \<times> 's"
  DeletePort :: "string \<Rightarrow> 's \<Rightarrow> error option \<times> 's"
  ListPorts :: "string \<Rightarrow> 's \<Rightarrow> (error + Port list) \<times> 's"
  UpdatePort :: "string \<Rightarrow> string list \<Rightarrow> 's \<Rightarrow> error option \<times> 's"
  NetworkIDFromName :: "string \<Rightarrow> 's \<Rightarrow> (error + string) \<times> 's"
  GroupIDFromName :: "string \<Rightarrow> 's \<Rightarrow> (error + string) \<times> 's"

record 's Storage =
  ListVolumes :: "string \<Rightarrow> 's \<Rightarrow> (Volume list \<times> error option) \<times> 's"
  GetVolume :: "string \<Rightarrow> 's \<Rightarrow> (error + Volume) \<times> 's"
  CreateVolume :: "VolumeCreateOpts \<Rightarrow> 's \<Rightarrow> (error + Volume) \<times> 's"
  DeleteVolume :: "string \<Rightarrow> bool \<Rightarrow> 's \<Rightarrow> error option \<times> 's"

record 's Executor =
  Storage :: "'s Storage"
  Compute :: "'s Compute"
  Network :: "'s Network"
  Config :: MachineProviderConfigSpec

text \<open>The declarations of this repository that \<^verbatim>\<open>executor.go\<close> uses and the given sources
  do not contain, taken as parameters: the helper \<^verbatim>\<open>isEmptyString\<close> (on a \<^verbatim>\<open>*string\<close>,
  \<open>None\<close> being \<^verbatim>\<open>nil\<close>), the provider-ID codec, and the two tag markers of package
  \<^verbatim>\<open>cloudprovider\<close>.\<close>

record Decls =
  isEmptyString :: "string option \<Rightarrow> bool"
  encodeProviderID :: "string \<Rightarrow> string \<Rightarrow> string"
  decodeProviderID :: "string \<Rightarrow> string"
  ServerTagClusterPrefix :: string
  ServerTagRolePrefix :: string

subsection \<open>Requests\<close>

text \<open>The requests the executor sends, with their arguments. The executor runs in a
  \<open>world\<close>: the state of the platform and the list of the requests sent so far, oldest
  first. The executor never reads that list; the theorems use it to say which requests a
  run sends and in which order.\<close>

datatype call =
    GetServer_call string
  | ListServers_call string
  | CreateServer_call ServerCreateOpts
  | BootFromVolume_call ServerCreateOpts
  | DeleteServer_call string
  | ImageIDFromName_call string
  | FlavorIDFromName_call string
  | GetSubnet_call string
  | PortIDFromName_call string
  | CreatePort_call PortCreateOpts
  | DeletePort_call string
  | ListPorts_call string
  | UpdatePort_call string "string list"
  | NetworkIDFromName_call string
  | GroupIDFromName_call string
  | ListVolumes_call string
  | GetVolume_call string
  | CreateVolume_call VolumeCreateOpts
  | DeleteVolume_call string bool

record 's world =
  cloud :: 's
  calls :: "call list"

definition request :: "call \<Rightarrow> ('s \<Rightarrow> 'r \<times> 's) \<Rightarrow> 's world \<Rightarrow> 'r \<times> 's world" where
  "request c op w =
     (case op (cloud w) of (r, s) \<Rightarrow> (r, \<lparr>cloud = s, calls = calls w @ [c]\<rparr>))"

subsection \<open>Bounded polling\<close>

text \<open>\<^verbatim>\<open>wait.Poll(interval, timeout, condition)\<close> belongs to the Kubernetes library and
  is not part of the source. It runs the condition at every tick of the interval and once
  more when the timeout fires: an error of the condition ends the wait with that error,
  \<^verbatim>\<open>done\<close> ends it with \<^verbatim>\<open>nil\<close>, and when the run at the timeout is over without
  \<^verbatim>\<open>done\<close> the wait ends with \<open>ErrWaitTimeout\<close>. Time is not part of the model, a poll
  takes none: the loop runs the condition at most once for each interval that fits into
  the timeout and once for the timeout, so at least once, and 121 times at most for 600
  seconds. (The library reads a timeout of 0 as no deadline; the executor waits 600 and
  300 seconds, and the model is for a timeout above 0.)\<close>

fun wait_Poll_loop ::
  "nat \<Rightarrow> ('w \<Rightarrow> (bool \<times> error option) \<times> 'w) \<Rightarrow> 'w \<Rightarrow> error option \<times> 'w" where
  "wait_Poll_loop 0 condition w = (Some ErrWaitTimeout, w)"
| "wait_Poll_loop (Suc n) condition w =
     (case condition w of
        ((done, Some err), w1) \<Rightarrow> (Some err, w1)
      | ((done, None), w1) \<Rightarrow> if done then (None, w1) else wait_Poll_loop n condition w1)"

definition wait_Poll ::
  "int \<Rightarrow> int \<Rightarrow> ('w \<Rightarrow> (bool \<times> error option) \<times> 'w) \<Rightarrow> 'w \<Rightarrow> error option \<times> 'w" where
  "wait_Poll interval timeout condition =
     wait_Poll_loop (Suc (nat (timeout div interval))) condition"

text \<open>The condition of \<open>waitForStatus\<close>: the function literal it hands to \<^verbatim>\<open>wait.Poll\<close>.\<close>

definition waitForStatus_condition ::
  "'s Executor \<Rightarrow> string \<Rightarrow> string list \<Rightarrow> string list \<Rightarrow> 's world
     \<Rightarrow> (bool \<times> error option) \<times> 's world" where
  "waitForStatus_condition ex serverID pending target w =
     (case request (GetServer_call serverID) (GetServer (Compute ex) serverID) w of
        (Inl err, w1) \<Rightarrow>
          if IsNotFoundError (Some err) \<and> strSliceContains target ServerStatusDeleted
          then ((True, None), w1)
          else ((False, Some err), w1)
      | (Inr current, w1) \<Rightarrow>
          if strSliceContains target (srv_Status current) then ((True, None), w1)
          else if length pending = 0 \<or> strSliceContains pending (srv_Status current)
          then ((False, None), w1)
          else
            (let retErr = Errorf ''server [ID=%q] reached unexpected status %q''
                            [S serverID, S (srv_Status current)]
             in if srv_Status current = ServerStatusError
                then ((False, Some (Errorf ''%s, fault: %+v''
                                      [E (Some retErr), F (srv_Fault current)])), w1)
                else ((False, Some retErr), w1)))"

definition waitForStatus ::
  "'s Executor \<Rightarrow> string \<Rightarrow> string list \<Rightarrow> string list \<Rightarrow> int \<Rightarrow> 's world
     \<Rightarrow> error option \<times> 's world" where
  "waitForStatus ex serverID pending target secs =
     wait_Poll 5 secs (waitForStatus_condition ex serverID pending target)"

definition waitForVolumeStatus_condition ::
  "'s Executor \<Rightarrow> string \<Rightarrow> string list \<Rightarrow> string list \<Rightarrow> 's world
     \<Rightarrow> (bool \<times> error option) \<times> 's world" where
  "waitForVolumeStatus_condition ex volumeID pending target w =
     (case request (GetVolume_call volumeID) (GetVolume (Storage ex) volumeID) w of
        (Inl err, w1) \<Rightarrow>
          if IsNotFoundError (Some err) \<and> strSliceContains target VolumeStatusDeleting
          then ((True, None), w1)
          else ((False, Some err), w1)
      | (Inr current, w1) \<Rightarrow>
          if strSliceContains target (vol_Status current) then ((True, None), w1)
          else if length pending = 0 \<or> strSliceContains pending (vol_Status current)
          then ((False, None), w1)
          else
            (let retErr = Errorf ''volume [ID=%q] reached unexpected status %q''
                            [S volumeID, S (vol_Status current)]
             in if vol_Status current = VolumeStatusError
                then ((False, Some (Errorf ''%s'' [E (Some retErr)])), w1)
                else ((False, Some retErr), w1)))"

definition waitForVolumeStatus ::
  "'s Executor \<Rightarrow> string \<Rightarrow> string list \<Rightarrow> string list \<Rightarrow> int \<Rightarrow> 's world
     \<Rightarrow> error option \<times> 's world" where
  "waitForVolumeStatus ex volumeID pending target secs =
     wait_Poll 5 secs (waitForVolumeStatus_condition ex volumeID pending target)"

subsection \<open>Network resolution\<close>

text \<open>\<^verbatim>\<open>sets.NewString(subnetList...).List()\<close> is the sorted list of the distinct
  elements.\<close>

definition getSubnetIDs :: "'s Executor \<Rightarrow> string list" where
  "getSubnetIDs ex =
     sort (remdups (SubnetIDs (Config ex) @
                    (case SubnetID (Config ex) of None \<Rightarrow> [] | Some subnetID \<Rightarrow> [subnetID])))"

definition isUserManagedNetwork :: "Decls \<Rightarrow> 's Executor \<Rightarrow> bool" where
  "isUserManagedNetwork d ex =
     (\<not> isEmptyString d (Some (NetworkID (Config ex))) \<and> length (getSubnetIDs ex) \<noteq> 0)"

text \<open>The loop of \<open>getOrCreatePort\<close> over the security groups.\<close>

fun getOrCreatePort_groups ::
  "'s Executor \<Rightarrow> string list \<Rightarrow> string list \<Rightarrow> 's world \<Rightarrow> (error + string list) \<times> 's world" where
  "getOrCreatePort_groups ex [] securityGroupIDs w = (Inr securityGroupIDs, w)"
| "getOrCreatePort_groups ex (securityGroup # rest) securityGroupIDs w =
     (case request (GroupIDFromName_call securityGroup)
             (GroupIDFromName (Network ex) securityGroup) w of
        (Inl err, w1) \<Rightarrow> (Inl err, w1)
      | (Inr securityGroupID, w1) \<Rightarrow>
          getOrCreatePort_groups ex rest (securityGroupIDs @ [securityGroupID]) w1)"

definition getOrCreatePort ::
  "'s Executor \<Rightarrow> string \<Rightarrow> 's world \<Rightarrow> (error + string) \<times> 's world" where
  "getOrCreatePort ex machineName w =
     (case request (PortIDFromName_call machineName)
             (PortIDFromName (Network ex) machineName) w of
        (Inr portID, w1) \<Rightarrow> (Inr portID, w1)
      | (Inl err, w1) \<Rightarrow>
          if \<not> IsNotFoundError (Some err)
          then (Inl (Errorf ''error fetching port [Name=%q]: %s'' [S machineName, E (Some err)]), w1)
          else
            (case getOrCreatePort_groups ex (SecurityGroups (Config ex)) [] w1 of
               (Inl err, w2) \<Rightarrow> (Inl err, w2)
             | (Inr securityGroupIDs, w2) \<Rightarrow>
                 (let opts = \<lparr>pco_Name = machineName,
                              pco_NetworkID = NetworkID (Config ex),
                              pco_FixedIPs = getSubnetIDs ex,
                              pco_AllowedAddressPairs =
                                strings_Split (PodNetworkCidr (Config ex)) CHR '','',
                              pco_SecurityGroups = securityGroupIDs\<rparr>
                  in case request (CreatePort_call opts) (CreatePort (Network ex) opts) w2 of
                       (Inl err, w3) \<Rightarrow> (Inl err, w3)
                     | (Inr port, w3) \<Rightarrow> (Inr (port_ID port), w3))))"

definition deletePort :: "'s Executor \<Rightarrow> string \<Rightarrow> 's world \<Rightarrow> error option \<times> 's world" where
  "deletePort ex machineName w =
     (case request (PortIDFromName_call machineName)
             (PortIDFromName (Network ex) machineName) w of
        (Inl err, w1) \<Rightarrow>
          if IsNotFoundError (Some err) then (None, w1)
          else (Some (Errorf ''error deleting port [Name=%q]: %s''
                        [S machineName, E (Some err)]), w1)
      | (Inr portID, w1) \<Rightarrow>
          request (DeletePort_call portID) (DeletePort (Network ex) portID) w1)"

text \<open>The loop of \<open>resolveServerNetworks\<close> that checks that the subnets exist.\<close>

fun resolveServerNetworks_subnets ::
  "'s Executor \<Rightarrow> string list \<Rightarrow> 's world \<Rightarrow> error option \<times> 's world" where
  "resolveServerNetworks_subnets ex [] w = (None, w)"
| "resolveServerNetworks_subnets ex (subnetID # rest) w =
     (case request (GetSubnet_call subnetID) (GetSubnet (Network ex) subnetID) w of
        (Some err, w1) \<Rightarrow> (Some err, w1)
      | (None, w1) \<Rightarrow> resolveServerNetworks_subnets ex rest w1)"

text \<open>The loop of \<open>resolveServerNetworks\<close> over the named networks.\<close>

fun resolveServerNetworks_networks ::
  "Decls \<Rightarrow> 's Executor \<Rightarrow> OpenStackNetwork list \<Rightarrow> ServerNetwork list \<Rightarrow> 's world
     \<Rightarrow> (error + ServerNetwork list) \<times> 's world" where
  "resolveServerNetworks_networks d ex [] serverNetworks w = (Inr serverNetworks, w)"
| "resolveServerNetworks_networks d ex (network # rest) serverNetworks w =
     (if isEmptyString d (Some (osn_Id network))
      then (case request (NetworkIDFromName_call (osn_Name network))
                    (NetworkIDFromName (Network ex) (osn_Name network)) w of
              (Inl err, w1) \<Rightarrow> (Inl err, w1)
            | (Inr resolvedNetworkID, w1) \<Rightarrow>
                resolveServerNetworks_networks d ex rest
                  (serverNetworks @ [\<lparr>net_UUID = resolvedNetworkID, net_Port = ''''\<rparr>]) w1)
      else resolveServerNetworks_networks d ex rest
             (serverNetworks @ [\<lparr>net_UUID = osn_Id network, net_Port = ''''\<rparr>]) w)"

definition resolveServerNetworks ::
  "Decls \<Rightarrow> 's Executor \<Rightarrow> string \<Rightarrow> 's world \<Rightarrow> (error + ServerNetwork list) \<times> 's world" where
  "resolveServerNetworks d ex machineName w =
     (if isUserManagedNetwork d ex
      then (case resolveServerNetworks_subnets ex (getSubnetIDs ex) w of
              (Some err, w1) \<Rightarrow> (Inl err, w1)
            | (None, w1) \<Rightarrow>
                (case getOrCreatePort ex machineName w1 of
                   (Inl err, w2) \<Rightarrow> (Inl err, w2)
                 | (Inr portID, w2) \<Rightarrow>
                     (Inr [\<lparr>net_UUID = NetworkID (Config ex), net_Port = portID\<rparr>], w2)))
      else if \<not> isEmptyString d (Some (NetworkID (Config ex)))
      then (Inr [\<lparr>net_UUID = NetworkID (Config ex), net_Port = ''''\<rparr>], w)
      else resolveServerNetworks_networks d ex (Networks (Config ex)) [] w)"

subsection \<open>Boot volume and deployment\<close>

definition createBootVolume ::
  "'s Executor \<Rightarrow> int \<Rightarrow> string \<Rightarrow> string \<Rightarrow> string \<Rightarrow> string \<Rightarrow> 's world
     \<Rightarrow> (Volume \<times> error option) \<times> 's world" where
  "createBootVolume ex size' volumeType zone imageRef name w =
     (let createOpts = \<lparr>vco_Size = size', vco_AvailabilityZone = zone, vco_Name = name,
                        vco_ImageID = imageRef, vco_VolumeType = volumeType\<rparr>
      in case request (CreateVolume_call createOpts) (CreateVolume (Storage ex) createOpts) w of
           (Inl err, w1) \<Rightarrow> ((Volume_zero, Some err), w1)
         | (Inr volume, w1) \<Rightarrow> ((volume, None), w1))"

text \<open>The loop of \<open>checkBootVolume\<close> over the listed volumes: the first one of the name,
  the zero volume when there is none. The error of the listing is not read.\<close>

fun checkBootVolume_find :: "Volume list \<Rightarrow> string \<Rightarrow> Volume \<times> error option" where
  "checkBootVolume_find [] name = (Volume_zero, None)"
| "checkBootVolume_find (vol # rest) name =
     (if vol_Name vol = name then (vol, None) else checkBootVolume_find rest name)"

definition checkBootVolume ::
  "'s Executor \<Rightarrow> string \<Rightarrow> 's world \<Rightarrow> (Volume \<times> error option) \<times> 's world" where
  "checkBootVolume ex name w =
     (case request (ListVolumes_call name) (ListVolumes (Storage ex) name) w of
        ((volume, err), w1) \<Rightarrow> (checkBootVolume_find volume name, w1))"

definition resourceInstanceBlockDevicesV2 ::
  "int \<Rightarrow> string \<Rightarrow> string option \<Rightarrow> BlockDevice list \<times> error option" where
  "resourceInstanceBlockDevicesV2 rootDiskSize imageID volumeID =
     (case volumeID of
        Some volID \<Rightarrow>
          ([\<lparr>bd_SourceType = ''volume'', bd_UUID = volID, bd_BootIndex = 0,
             bd_DeleteOnTermination = True, bd_DestinationType = ''volume'',
             bd_VolumeSize = 0\<rparr>], None)
      | None \<Rightarrow>
          ([\<lparr>bd_SourceType = ''image'', bd_UUID = imageID, bd_BootIndex = 0,
             bd_DeleteOnTermination = True, bd_DestinationType = ''volume'',
             bd_VolumeSize = rootDiskSize\<rparr>], None))"

text \<open>The first part of \<open>deployServer\<close>: the image reference, the explicit ID first.\<close>

definition deployServer_imageRef ::
  "'s Executor \<Rightarrow> 's world \<Rightarrow> (error + string) \<times> 's world" where
  "deployServer_imageRef ex w =
     (if ImageID (Config ex) \<noteq> '''' then (Inr (ImageID (Config ex)), w)
      else (case request (ImageIDFromName_call (ImageName (Config ex)))
                    (ImageIDFromName (Compute ex) (ImageName (Config ex))) w of
              (Inl err, w1) \<Rightarrow>
                (Inl (Errorf ''error resolving image ID from image name %q: %v''
                        [S (ImageName (Config ex)), E (Some err)]), w1)
            | (Inr imageRef, w1) \<Rightarrow> (Inr imageRef, w1)))"

text \<open>The creation options \<open>deployServer\<close> assembles before it looks at the root disk.\<close>

definition deployServer_createOpts ::
  "'s Executor \<Rightarrow> string \<Rightarrow> string \<Rightarrow> ServerNetwork list \<Rightarrow> string \<Rightarrow> string
     \<Rightarrow> ServerCreateOpts" where
  "deployServer_createOpts ex machineName userData nws flavorRef imageRef =
     \<lparr>co_Name = machineName,
      co_FlavorRef = flavorRef,
      co_ImageRef = imageRef,
      co_Networks = nws,
      co_SecurityGroups = SecurityGroups (Config ex),
      co_Metadata = Tags (Config ex),
      co_UserData = userData,
      co_AvailabilityZone = AvailabilityZone (Config ex),
      co_ConfigDrive = UseConfigDrive (Config ex),
      co_KeyName = KeyName (Config ex),
      co_SchedulerHints = ServerGroupID (Config ex),
      co_BlockDevice = None\<rparr>"

text \<open>The branch of \<open>deployServer\<close> for a root disk size above 0 and a volume type that is
  not \<^verbatim>\<open>nil\<close>: the block devices of the boot volume, or the error the branch returns.\<close>

definition deployServer_volume ::
  "'s Executor \<Rightarrow> string \<Rightarrow> string \<Rightarrow> string \<Rightarrow> 's world
     \<Rightarrow> (error + BlockDevice list) \<times> 's world" where
  "deployServer_volume ex machineName imageRef volumeType w =
     (case checkBootVolume ex machineName w of
        ((volume, Some err), w1) \<Rightarrow> (Inl err, w1)
      | ((volume, None), w1) \<Rightarrow>
          (case (if vol_ID volume = ''''
                 then createBootVolume ex (RootDiskSize (Config ex)) volumeType
                        (AvailabilityZone (Config ex)) imageRef machineName w1
                 else ((volume, None), w1)) of
             ((volume, Some err), w2) \<Rightarrow>
               (case request (DeleteVolume_call (vol_ID volume) True)
                       (DeleteVolume (Storage ex) (vol_ID volume) True) w2 of
                  (volerr, w3) \<Rightarrow>
                    (Inl (Errorf ''error volume creation, %s and deletion %s''
                            [E (Some err), E volerr]), w3))
           | ((volume, None), w2) \<Rightarrow>
               (case waitForVolumeStatus ex (vol_ID volume)
                       [VolumeStatusDownloading, VolumeStatusCreating]
                       [VolumeStatusAvailable] 600 w2 of
                  (Some err, w3) \<Rightarrow>
                    (case request (DeleteVolume_call (vol_ID volume) True)
                            (DeleteVolume (Storage ex) (vol_ID volume) True) w3 of
                       (volerr, w4) \<Rightarrow>
                         (Inl (Errorf ''error waiting for volume, %s and deletion %s''
                                 [E (Some err), E volerr]), w4))
                | (None, w3) \<Rightarrow>
                    (case resourceInstanceBlockDevicesV2 (RootDiskSize (Config ex)) imageRef
                            (Some (vol_ID volume)) of
                       (blockDevices, Some err) \<Rightarrow>
                         (case request (DeleteVolume_call (vol_ID volume) True)
                                 (DeleteVolume (Storage ex) (vol_ID volume) True) w3 of
                            (volerr, w4) \<Rightarrow>
                              (Inl (Errorf ''error blockdevice creation, %s and deletion %s''
                                      [E (Some err), E volerr]), w4))
                     | (blockDevices, None) \<Rightarrow> (Inr blockDevices, w3)))))"

definition deployServer ::
  "'s Executor \<Rightarrow> string \<Rightarrow> string \<Rightarrow> ServerNetwork list \<Rightarrow> 's world
     \<Rightarrow> (error + Server) \<times> 's world" where
  "deployServer ex machineName userData nws w =
     (case deployServer_imageRef ex w of
        (Inl err, w1) \<Rightarrow> (Inl err, w1)
      | (Inr imageRef, w1) \<Rightarrow>
          (case request (FlavorIDFromName_call (FlavorName (Config ex)))
                  (FlavorIDFromName (Compute ex) (FlavorName (Config ex))) w1 of
             (Inl err, w2) \<Rightarrow>
               (Inl (Errorf ''error resolving flavor ID from flavor name %q: %v''
                       [S (ImageName (Config ex)), E (Some err)]), w2)
           | (Inr flavorRef, w2) \<Rightarrow>
               (let createOpts = deployServer_createOpts ex machineName userData nws
                                   flavorRef imageRef
                in if RootDiskSize (Config ex) > 0
                   then (case (case VolumeType (Config ex) of
                                 None \<Rightarrow>
                                   (case resourceInstanceBlockDevicesV2
                                           (RootDiskSize (Config ex)) imageRef None of
                                      (blockDevices, Some err) \<Rightarrow> (Inl err, w2)
                                    | (blockDevices, None) \<Rightarrow> (Inr blockDevices, w2))
                               | Some volumeType \<Rightarrow>
                                   deployServer_volume ex machineName imageRef volumeType w2) of
                           (Inl err, w3) \<Rightarrow> (Inl err, w3)
                         | (Inr blockDevices, w3) \<Rightarrow>
                             request
                               (BootFromVolume_call
                                  (createOpts\<lparr>co_BlockDevice := Some blockDevices\<rparr>))
                               (BootFromVolume (Compute ex)
                                  (createOpts\<lparr>co_BlockDevice := Some blockDevices\<rparr>)) w3)
                   else request (CreateServer_call createOpts)
                          (CreateServer (Compute ex) createOpts) w2)))"

subsection \<open>The pod-network patch\<close>

text \<open>The loop of \<open>resolveNetworkIDsForPodNetwork\<close> over the named networks.\<close>

fun resolveNetworkIDsForPodNetwork_networks ::
  "Decls \<Rightarrow> 's Executor \<Rightarrow> OpenStackNetwork list \<Rightarrow> string set \<Rightarrow> 's world
     \<Rightarrow> (error + string set) \<times> 's world" where
  "resolveNetworkIDsForPodNetwork_networks d ex [] podNetworkIDs w = (Inr podNetworkIDs, w)"
| "resolveNetworkIDsForPodNetwork_networks d ex (network # rest) podNetworkIDs w =
     (case (if isEmptyString d (Some (osn_Id network))
            then request (NetworkIDFromName_call (osn_Name network))
                   (NetworkIDFromName (Network ex) (osn_Name network)) w
            else (Inr (osn_Id network), w)) of
        (Inl err, w1) \<Rightarrow> (Inl err, w1)
      | (Inr resolvedNetworkID, w1) \<Rightarrow>
          resolveNetworkIDsForPodNetwork_networks d ex rest
            (if osn_PodNetwork network then insert resolvedNetworkID podNetworkIDs
             else podNetworkIDs) w1)"

definition resolveNetworkIDsForPodNetwork ::
  "Decls \<Rightarrow> 's Executor \<Rightarrow> 's world \<Rightarrow> (error + string set) \<times> 's world" where
  "resolveNetworkIDsForPodNetwork d ex w =
     (if \<not> isEmptyString d (Some (NetworkID (Config ex)))
      then (Inr {NetworkID (Config ex)}, w)
      else resolveNetworkIDsForPodNetwork_networks d ex (Networks (Config ex)) {} w)"

text \<open>The two inner loops of \<open>patchServerPortsForPodNetwork\<close>: some address pair of the
  port equals some configured pod CIDR.\<close>

definition addressPairFound :: "'s Executor \<Rightarrow> Port \<Rightarrow> bool" where
  "addressPairFound ex port =
     list_ex (\<lambda>pair. list_ex (\<lambda>podCidr. pair = podCidr)
                       (strings_Split (PodNetworkCidr (Config ex)) CHR '',''))
       (port_AllowedAddressPairs port)"

text \<open>The outer loop of \<open>patchServerPortsForPodNetwork\<close> over the ports.\<close>

fun patchServerPortsForPodNetwork_ports ::
  "'s Executor \<Rightarrow> string set \<Rightarrow> Port list \<Rightarrow> 's world \<Rightarrow> error option \<times> 's world" where
  "patchServerPortsForPodNetwork_ports ex podNetworkIDs [] w = (None, w)"
| "patchServerPortsForPodNetwork_ports ex podNetworkIDs (port # rest) w =
     (if port_NetworkID port \<in> podNetworkIDs
      then (if addressPairFound ex port
            then patchServerPortsForPodNetwork_ports ex podNetworkIDs rest w
            else (case request
                         (UpdatePort_call (port_ID port)
                            (strings_Split (PodNetworkCidr (Config ex)) CHR '',''))
                         (UpdatePort (Network ex) (port_ID port)
                            (strings_Split (PodNetworkCidr (Config ex)) CHR '','')) w of
                    (Some err, w1) \<Rightarrow>
                      (Some (Errorf ''failed to update allowed address pair for port [ID=%q]: %v''
                               [S (port_ID port), E (Some err)]), w1)
                  | (None, w1) \<Rightarrow>
                      patchServerPortsForPodNetwork_ports ex podNetworkIDs rest w1))
      else patchServerPortsForPodNetwork_ports ex podNetworkIDs rest w)"

definition patchServerPortsForPodNetwork ::
  "Decls \<Rightarrow> 's Executor \<Rightarrow> string \<Rightarrow> 's world \<Rightarrow> error option \<times> 's world" where
  "patchServerPortsForPodNetwork d ex serverID w =
     (case request (ListPorts_call serverID) (ListPorts (Network ex) serverID) w of
        (Inl err, w1) \<Rightarrow> (Some (Errorf ''failed to get ports: %v'' [E (Some err)]), w1)
      | (Inr allPorts, w1) \<Rightarrow>
          if length allPorts = 0
          then (Some (Errorf ''got an empty port list for server %q'' [S serverID]), w1)
          else (case resolveNetworkIDsForPodNetwork d ex w1 of
                  (Inl err, w2) \<Rightarrow>
                    (Some (Errorf ''failed to resolve network IDs for the pod network %v''
                             [E (Some err)]), w2)
                | (Inr podNetworkIDs, w2) \<Rightarrow>
                    patchServerPortsForPodNetwork_ports ex podNetworkIDs allPorts w2))"

subsection \<open>Finding machines\<close>

text \<open>The loop \<^verbatim>\<open>for key := range ex.Config.Spec.Tags\<close> that \<open>getMachineByID\<close>,
  \<open>getMachineByName\<close> and \<open>listServers\<close> each start with: the pair
  \<open>(searchClusterName, searchNodeRole)\<close> after the keys were visited in the order of the
  list, both being the empty string before.\<close>

definition searchTags :: "Decls \<Rightarrow> (string \<times> string) list \<Rightarrow> string \<times> string" where
  "searchTags d tags =
     foldl (\<lambda>(searchClusterName, searchNodeRole) key.
              if strings_Contains key (ServerTagClusterPrefix d) then (key, searchNodeRole)
              else if strings_Contains key (ServerTagRolePrefix d) then (searchClusterName, key)
              else (searchClusterName, searchNodeRole))
       ('''', '''') (map fst tags)"

text \<open>\<^verbatim>\<open>_, ok := server.Metadata[key]\<close>: the metadata has the key.\<close>

definition hasKey :: "(string \<times> string) list \<Rightarrow> string \<Rightarrow> bool" where
  "hasKey metadata key = (map_of metadata key \<noteq> None)"

definition getMachineByID ::
  "Decls \<Rightarrow> 's Executor \<Rightarrow> string \<Rightarrow> 's world \<Rightarrow> (error + Server) \<times> 's world" where
  "getMachineByID d ex serverID w =
     (case request (GetServer_call serverID) (GetServer (Compute ex) serverID) w of
        (Inl err, w1) \<Rightarrow>
          if IsNotFoundError (Some err)
          then (Inl (ErrorfW ''could not find server [ID=%q]: %w'' [S serverID] ErrNotFound), w1)
          else (Inl err, w1)
      | (Inr server, w1) \<Rightarrow>
          (case searchTags d (Tags (Config ex)) of
             (searchClusterName, searchNodeRole) \<Rightarrow>
               if hasKey (srv_Metadata server) searchClusterName
                  \<and> hasKey (srv_Metadata server) searchNodeRole
               then (Inr server, w1)
               else (Inl (ErrorfW ''could not find server [ID=%q]: %w'' [S serverID]
                            ErrNotFound), w1)))"

definition getMachineByName ::
  "Decls \<Rightarrow> 's Executor \<Rightarrow> string \<Rightarrow> 's world \<Rightarrow> (error + Server) \<times> 's world" where
  "getMachineByName d ex machineName w =
     (case searchTags d (Tags (Config ex)) of
        (searchClusterName, searchNodeRole) \<Rightarrow>
          if searchClusterName = '''' \<or> searchNodeRole = ''''
          then (Inl (Errorf
                  ''getMachineByName operation can not proceed: cluster/role tags are missing for machine [Name=%q]''
                  [S machineName]), w)
          else
            (case request (ListServers_call machineName)
                    (ListServers (Compute ex) machineName) w of
               (Inl err, w1) \<Rightarrow> (Inl err, w1)
             | (Inr listedServers, w1) \<Rightarrow>
                 (let matchingServers =
                        filter (\<lambda>server. srv_Name server = machineName
                                  \<and> hasKey (srv_Metadata server) searchClusterName
                                  \<and> hasKey (srv_Metadata server) searchNodeRole)
                          listedServers
                  in if length matchingServers > 1
                     then (Inl (ErrorfW ''failed to find server [Name=%q]: %w''
                                  [S machineName] ErrMultipleFound), w1)
                     else if length matchingServers = 0
                     then (Inl (ErrorfW ''failed to find server [Name=%q]: %w''
                                  [S machineName] ErrNotFound), w1)
                     else (Inr (matchingServers ! 0), w1))))"

subsection \<open>List\<close>

definition listServers ::
  "Decls \<Rightarrow> 's Executor \<Rightarrow> 's world \<Rightarrow> (error + Server list) \<times> 's world" where
  "listServers d ex w =
     (case searchTags d (Tags (Config ex)) of
        (searchClusterName, searchNodeRole) \<Rightarrow>
          if searchClusterName = '''' \<or> searchNodeRole = ''''
          then (Inl (Errorf ''operation can not proceed: cluster/role tags are missing'' []), w)
          else
            (case request (ListServers_call '''') (ListServers (Compute ex) '''') w of
               (Inl err, w1) \<Rightarrow> (Inl err, w1)
             | (Inr allServers, w1) \<Rightarrow>
                 (Inr (filter (\<lambda>server. hasKey (srv_Metadata server) searchClusterName
                                 \<and> hasKey (srv_Metadata server) searchNodeRole)
                         allServers), w1)))"

text \<open>The result of \<open>ListMachines\<close> is a Go map from provider ID to name: a later server
  of the list overwrites the entry of an earlier one with the same provider ID.\<close>

definition ListMachines ::
  "Decls \<Rightarrow> 's Executor \<Rightarrow> 's world \<Rightarrow> (error + (string \<rightharpoonup> string)) \<times> 's world" where
  "ListMachines d ex w =
     (case listServers d ex w of
        (Inl err, w1) \<Rightarrow> (Inl err, w1)
      | (Inr allServers, w1) \<Rightarrow>
          (Inr (foldl (\<lambda>result server.
                         result(encodeProviderID d (Region (Config ex)) (srv_ID server)
                                  \<mapsto> srv_Name server))
                  Map.empty allServers), w1))"

subsection \<open>Delete\<close>

text \<open>The volume step of \<open>DeleteMachine\<close>: \<open>Some\<close> is the error the step returns with,
  \<open>None\<close> means that \<open>DeleteMachine\<close> goes on to the port step.\<close>

definition DeleteMachine_volume ::
  "Decls \<Rightarrow> 's Executor \<Rightarrow> string \<Rightarrow> 's world \<Rightarrow> error option \<times> 's world" where
  "DeleteMachine_volume d ex machineName w =
     (if \<not> isEmptyString d (VolumeType (Config ex))
      then (case checkBootVolume ex machineName w of
              ((volume, err), w1) \<Rightarrow>
                if err \<noteq> None \<and> \<not> IsNotFoundError err
                then (Some (Errorf ''error checking volume [ID=%q]: %v''
                              [S machineName, E err]), w1)
                else if IsNotFoundError err
                then (case request (DeleteVolume_call (vol_ID volume) True)
                              (DeleteVolume (Storage ex) (vol_ID volume) True) w1 of
                        (Some err, w2) \<Rightarrow>
                          (Some (Errorf ''error deleting volume [ID=%q]: %v''
                                   [S machineName, E (Some err)]), w2)
                      | (None, w2) \<Rightarrow> (None, w2))
                else (None, w1))
      else (None, w))"

text \<open>What \<open>DeleteMachine\<close> does after the server is gone or was not found.\<close>

definition DeleteMachine_cleanup ::
  "Decls \<Rightarrow> 's Executor \<Rightarrow> string \<Rightarrow> 's world \<Rightarrow> error option \<times> 's world" where
  "DeleteMachine_cleanup d ex machineName w =
     (case DeleteMachine_volume d ex machineName w of
        (Some err, w1) \<Rightarrow> (Some err, w1)
      | (None, w1) \<Rightarrow>
          if isUserManagedNetwork d ex then deletePort ex machineName w1 else (None, w1))"

definition DeleteMachine ::
  "Decls \<Rightarrow> 's Executor \<Rightarrow> string \<Rightarrow> string \<Rightarrow> 's world \<Rightarrow> error option \<times> 's world" where
  "DeleteMachine d ex machineName providerID w =
     (case (if \<not> isEmptyString d (Some providerID)
            then getMachineByID d ex (decodeProviderID d providerID) w
            else getMachineByName d ex machineName w) of
        (Inr server, w1) \<Rightarrow>
          (case request (DeleteServer_call (srv_ID server))
                  (DeleteServer (Compute ex) (srv_ID server)) w1 of
             (Some err, w2) \<Rightarrow> (Some err, w2)
           | (None, w2) \<Rightarrow>
               (case waitForStatus ex (srv_ID server) [] [ServerStatusDeleted] 300 w2 of
                  (Some err, w3) \<Rightarrow>
                    (Some (Errorf ''error while waiting for server [ID=%q] to be deleted: %v''
                             [S (srv_ID server), E (Some err)]), w3)
                | (None, w3) \<Rightarrow> DeleteMachine_cleanup d ex machineName w3))
      | (Inl err, w1) \<Rightarrow>
          if \<not> errors_Is err ErrNotFound then (Some err, w1)
          else DeleteMachine_cleanup d ex machineName w1)"

subsection \<open>Create\<close>

text \<open>The volume step of \<open>deleteOnFail\<close>, run after \<open>DeleteMachine\<close> returned \<^verbatim>\<open>nil\<close>:
  the error \<open>deleteOnFail\<close> returns.\<close>

definition deleteOnFail_volume ::
  "Decls \<Rightarrow> 's Executor \<Rightarrow> string \<Rightarrow> error \<Rightarrow> 's world \<Rightarrow> error \<times> 's world" where
  "deleteOnFail_volume d ex machineName err w =
     (if \<not> isEmptyString d (VolumeType (Config ex))
      then (case checkBootVolume ex machineName w of
              ((volume, errChk), w1) \<Rightarrow>
                if errChk \<noteq> None \<and> \<not> IsNotFoundError errChk
                then (Errorf ''error checking volume [ID=%q]: %v. Original error: %v''
                        [S machineName, E errChk, E (Some err)], w1)
                else if \<not> IsNotFoundError errChk
                then (case request (DeleteVolume_call (vol_ID volume) True)
                              (DeleteVolume (Storage ex) (vol_ID volume) True) w1 of
                        (Some errDel, w2) \<Rightarrow>
                          (Errorf ''error deleting volume [ID=%q]: %v. Original error: %v''
                             [S machineName, E (Some errDel), E (Some err)], w2)
                      | (None, w2) \<Rightarrow> (err, w2))
                else (err, w1))
      else (err, w))"

text \<open>The function literal \<open>deleteOnFail\<close> of \<open>CreateMachine\<close>.\<close>

definition deleteOnFail ::
  "Decls \<Rightarrow> 's Executor \<Rightarrow> string \<Rightarrow> error \<Rightarrow> 's world \<Rightarrow> error \<times> 's world" where
  "deleteOnFail d ex machineName err w =
     (case DeleteMachine d ex machineName '''' w of
        (Some errIn, w1) \<Rightarrow>
          (ErrorfW
             ''error deleting server [Name=%q] after unsuccessful creation attempt: %v. Original error: %w''
             [S machineName, E (Some errIn)] err, w1)
      | (None, w1) \<Rightarrow> deleteOnFail_volume d ex machineName err w1)"

text \<open>What \<open>CreateMachine\<close> does once it holds a server, found or deployed: wait for it
  to be active, patch its ports, return the provider ID.\<close>

definition CreateMachine_converge ::
  "Decls \<Rightarrow> 's Executor \<Rightarrow> string \<Rightarrow> Server \<Rightarrow> 's world \<Rightarrow> (error + string) \<times> 's world" where
  "CreateMachine_converge d ex machineName server w =
     (case waitForStatus ex (srv_ID server) [ServerStatusBuild] [ServerStatusActive] 600 w of
        (Some err, w1) \<Rightarrow>
          (case deleteOnFail d ex machineName
                  (ErrorfW ''error waiting for server [ID=%q] to reach target status: %w''
                     [S (srv_ID server)] err) w1 of
             (e, w2) \<Rightarrow> (Inl e, w2))
      | (None, w1) \<Rightarrow>
          (case patchServerPortsForPodNetwork d ex (srv_ID server) w1 of
             (Some err, w2) \<Rightarrow>
               (case deleteOnFail d ex machineName
                       (Errorf ''failed to patch server [ID=%q] ports: %s''
                          [S (srv_ID server), E (Some err)]) w2 of
                  (e, w3) \<Rightarrow> (Inl e, w3))
           | (None, w2) \<Rightarrow>
               (Inr (encodeProviderID d (Region (Config ex)) (srv_ID server)), w2)))"

definition CreateMachine ::
  "Decls \<Rightarrow> 's Executor \<Rightarrow> string \<Rightarrow> string \<Rightarrow> 's world \<Rightarrow> (error + string) \<times> 's world" where
  "CreateMachine d ex machineName userData w =
     (case getMachineByName d ex machineName w of
        (Inr server, w1) \<Rightarrow> CreateMachine_converge d ex machineName server w1
      | (Inl err, w1) \<Rightarrow>
          if \<not> errors_Is err ErrNotFound then (Inl err, w1)
          else
            (case resolveServerNetworks d ex machineName w1 of
               (Inl err, w2) \<Rightarrow>
                 (case deleteOnFail d ex machineName
                         (ErrorfW ''failed to resolve server [Name=%q] networks: %w''
                            [S machineName] err) w2 of
                    (e, w3) \<Rightarrow> (Inl e, w3))
             | (Inr serverNetworks, w2) \<Rightarrow>
                 (case deployServer ex machineName userData serverNetworks w2 of
                    (Inl err, w3) \<Rightarrow>
                      (case deleteOnFail d ex machineName
                              (ErrorfW ''failed to deploy server [Name=%q]: %w''
                                 [S machineName] err) w3 of
                         (e, w4) \<Rightarrow> (Inl e, w4))
                  | (Inr server, w3) \<Rightarrow> CreateMachine_converge d ex machineName server w3)))"

subsection \<open>A platform to run the executor on\<close>

text \<open>A small platform for concrete runs: the servers, volumes and ports it holds, the
  statuses the next polls of a server or a volume report before the stored status shows
  (\<open>sim_polls\<close>), and the names of the operations that are out of service (\<open>sim_down\<close>),
  which answer with a platform error. A new server is active at once and gets a port on
  every network it asks for; a new volume is available at once.\<close>

record sim =
  sim_servers :: "Server list"
  sim_volumes :: "Volume list"
  sim_ports :: "Port list"
  sim_polls :: "string list"
  sim_down :: "string list"

definition sim_boot :: "string \<Rightarrow> ServerCreateOpts \<Rightarrow> sim \<Rightarrow> (error + Server) \<times> sim" where
  "sim_boot opname opts s =
     (if opname \<in> set (sim_down s) then (Inl (ErrPlatform opname), s)
      else
        (let server = \<lparr>srv_ID = ''id-'' @ co_Name opts, srv_Name = co_Name opts,
                        srv_Status = ServerStatusActive, srv_Metadata = co_Metadata opts,
                        srv_Fault = ''''\<rparr>
         in (Inr server,
             s\<lparr>sim_servers := sim_servers s @ [server],
               sim_ports :=
                 map (\<lambda>p. if port_ID p \<in> set (map net_Port (co_Networks opts))
                           then p\<lparr>port_DeviceID := srv_ID server\<rparr> else p) (sim_ports s)
                 @ map (\<lambda>n. \<lparr>port_ID = ''port-'' @ net_UUID n, port_Name = '''',
                               port_NetworkID = net_UUID n, port_DeviceID = srv_ID server,
                               port_AllowedAddressPairs = []\<rparr>)
                     (filter (\<lambda>n. net_Port n = '''') (co_Networks opts))\<rparr>)))"

definition simCompute :: "sim Compute" where
  "simCompute =
     \<lparr>GetServer = (\<lambda>id s.
        if ''GetServer'' \<in> set (sim_down s) then (Inl (ErrPlatform ''GetServer''), s)
        else (case find (\<lambda>x. srv_ID x = id) (sim_servers s) of
                None \<Rightarrow> (Inl (Err404 id), s)
              | Some x \<Rightarrow>
                  (case sim_polls s of
                     [] \<Rightarrow> (Inr x, s)
                   | st # rest \<Rightarrow> (Inr (x\<lparr>srv_Status := st\<rparr>), s\<lparr>sim_polls := rest\<rparr>)))),
      ListServers = (\<lambda>name s.
        if ''ListServers'' \<in> set (sim_down s) then (Inl (ErrPlatform ''ListServers''), s)
        else (Inr (filter (\<lambda>x. name = '''' \<or> srv_Name x = name) (sim_servers s)), s)),
      CreateServer = sim_boot ''CreateServer'',
      BootFromVolume = sim_boot ''BootFromVolume'',
      DeleteServer = (\<lambda>id s.
        if ''DeleteServer'' \<in> set (sim_down s) then (Some (ErrPlatform ''DeleteServer''), s)
        else (None, s\<lparr>sim_servers := filter (\<lambda>x. srv_ID x \<noteq> id) (sim_servers s)\<rparr>)),
      ImageIDFromName = (\<lambda>name s.
        if ''ImageIDFromName'' \<in> set (sim_down s)
        then (Inl (ErrPlatform ''ImageIDFromName''), s) else (Inr (''image-'' @ name), s)),
      FlavorIDFromName = (\<lambda>name s.
        if ''FlavorIDFromName'' \<in> set (sim_down s)
        then (Inl (ErrPlatform ''FlavorIDFromName''), s) else (Inr (''flavor-'' @ name), s))\<rparr>"

definition simNetwork :: "sim Network" where
  "simNetwork =
     \<lparr>GetSubnet = (\<lambda>id s.
        if ''GetSubnet'' \<in> set (sim_down s) then (Some (ErrPlatform ''GetSubnet''), s)
        else (None, s)),
      PortIDFromName = (\<lambda>name s.
        if ''PortIDFromName'' \<in> set (sim_down s) then (Inl (ErrPlatform ''PortIDFromName''), s)
        else (case find (\<lambda>p. port_Name p = name) (sim_ports s) of
                None \<Rightarrow> (Inl (Err404 name), s)
              | Some p \<Rightarrow> (Inr (port_ID p), s))),
      CreatePort = (\<lambda>opts s.
        if ''CreatePort'' \<in> set (sim_down s) then (Inl (ErrPlatform ''CreatePort''), s)
        else (let port = \<lparr>port_ID = ''port-'' @ pco_Name opts, port_Name = pco_Name opts,
                           port_NetworkID = pco_NetworkID opts, port_DeviceID = '''',
                           port_AllowedAddressPairs = pco_AllowedAddressPairs opts\<rparr>
              in (Inr port, s\<lparr>sim_ports := sim_ports s @ [port]\<rparr>))),
      DeletePort = (\<lambda>id s.
        if ''DeletePort'' \<in> set (sim_down s) then (Some (ErrPlatform ''DeletePort''), s)
        else (None, s\<lparr>sim_ports := filter (\<lambda>p. port_ID p \<noteq> id) (sim_ports s)\<rparr>)),
      ListPorts = (\<lambda>deviceID s.
        if ''ListPorts'' \<in> set (sim_down s) then (Inl (ErrPlatform ''ListPorts''), s)
        else (Inr (filter (\<lambda>p. port_DeviceID p = deviceID) (sim_ports s)), s)),
      UpdatePort = (\<lambda>id pairs s.
        if ''UpdatePort'' \<in> set (sim_down s) then (Some (ErrPlatform ''UpdatePort''), s)
        else (None, s\<lparr>sim_ports :=
                map (\<lambda>p. if port_ID p = id then p\<lparr>port_AllowedAddressPairs := pairs\<rparr> else p)
                  (sim_ports s)\<rparr>)),
      NetworkIDFromName = (\<lambda>name s.
        if ''NetworkIDFromName'' \<in> set (sim_down s)
        then (Inl (ErrPlatform ''NetworkIDFromName''), s) else (Inr (''net-'' @ name), s)),
      GroupIDFromName = (\<lambda>name s.
        if ''GroupIDFromName'' \<in> set (sim_down s)
        then (Inl (ErrPlatform ''GroupIDFromName''), s) else (Inr (''sg-'' @ name), s))\<rparr>"

definition simStorage :: "sim Storage" where
  "simStorage =
     \<lparr>ListVolumes = (\<lambda>name s.
        if ''ListVolumes'' \<in> set (sim_down s) then (([], Some (ErrPlatform ''ListVolumes'')), s)
        else ((filter (\<lambda>v. vol_Name v = name) (sim_volumes s), None), s)),
      GetVolume = (\<lambda>id s.
        if ''GetVolume'' \<in> set (sim_down s) then (Inl (ErrPlatform ''GetVolume''), s)
        else (case find (\<lambda>v. vol_ID v = id) (sim_volumes s) of
                None \<Rightarrow> (Inl (Err404 id), s)
              | Some v \<Rightarrow>
                  (case sim_polls s of
                     [] \<Rightarrow> (Inr v, s)
                   | st # rest \<Rightarrow> (Inr (v\<lparr>vol_Status := st\<rparr>), s\<lparr>sim_polls := rest\<rparr>)))),
      CreateVolume = (\<lambda>opts s.
        if ''CreateVolume'' \<in> set (sim_down s) then (Inl (ErrPlatform ''CreateVolume''), s)
        else (let volume = \<lparr>vol_ID = ''vol-'' @ vco_Name opts, vol_Name = vco_Name opts,
                             vol_Status = VolumeStatusAvailable\<rparr>
              in (Inr volume, s\<lparr>sim_volumes := sim_volumes s @ [volume]\<rparr>))),
      DeleteVolume = (\<lambda>id cascade s.
        if ''DeleteVolume'' \<in> set (sim_down s) then (Some (ErrPlatform ''DeleteVolume''), s)
        else (None, s\<lparr>sim_volumes := filter (\<lambda>v. vol_ID v \<noteq> id) (sim_volumes s)\<rparr>))\<rparr>"

definition simExecutor :: "MachineProviderConfigSpec \<Rightarrow> sim Executor" where
  "simExecutor config =
     \<lparr>Storage = simStorage, Compute = simCompute, Network = simNetwork, Config = config\<rparr>"

text \<open>An instance of the declarations that are taken as parameters, and a configuration
  and an empty platform to vary in the runs; a run starts in a world with no request sent.\<close>

definition simDecls :: Decls where
  "simDecls =
     \<lparr>isEmptyString = (\<lambda>ptr. case ptr of None \<Rightarrow> True | Some s \<Rightarrow> s = ''''),
      encodeProviderID = (\<lambda>region machineID. ''openstack:///'' @ region @ ''/'' @ machineID),
      decodeProviderID = (\<lambda>id. last (strings_Split id CHR ''/'')),
      ServerTagClusterPrefix = ''kubernetes.io-cluster-'',
      ServerTagRolePrefix = ''kubernetes.io-role-''\<rparr>"

definition simConfig :: MachineProviderConfigSpec where
  "simConfig =
     \<lparr>Region = ''eu'', AvailabilityZone = ''eu-1'', ImageID = ''img'', ImageName = '''',
      FlavorName = ''m1'', KeyName = ''key'', SecurityGroups = [''default''],
      Tags = [(''kubernetes.io-cluster-shoot'', ''1''), (''kubernetes.io-role-node'', ''1'')],
      NetworkID = ''N'', SubnetID = None, SubnetIDs = [], PodNetworkCidr = ''10.0.0.0/8'',
      RootDiskSize = 0, UseConfigDrive = None, ServerGroupID = None, Networks = [],
      VolumeType = None\<rparr>"

definition simCloud :: sim where
  "simCloud =
     \<lparr>sim_servers = [], sim_volumes = [], sim_ports = [], sim_polls = [], sim_down = []\<rparr>"

definition simWorld :: "sim \<Rightarrow> sim world" where
  "simWorld s = \<lparr>cloud = s, calls = []\<rparr>"

text \<open>A server of the machine name \<open>m1\<close> that carries the tags of \<open>simConfig\<close>.\<close>

definition simServerA :: Server where
  "simServerA = \<lparr>srv_ID = ''a'', srv_Name = ''m1'', srv_Status = ServerStatusActive,
                  srv_Metadata = Tags simConfig, srv_Fault = ''''\<rparr>"

text \<open>A port of the server \<open>a\<close> on the network \<open>N\<close>, with the address pairs given, and a
  configuration with two pod CIDRs.\<close>

definition simPort :: "string \<Rightarrow> string list \<Rightarrow> Port" where
  "simPort portID pairs =
     \<lparr>port_ID = portID, port_Name = '''', port_NetworkID = ''N'', port_DeviceID = ''a'',
      port_AllowedAddressPairs = pairs\<rparr>"

definition simConfigTwoCidrs :: MachineProviderConfigSpec where
  "simConfigTwoCidrs = simConfig\<lparr>PodNetworkCidr := ''10.0.0.0/8,fd00::/8''\<rparr>"

text \<open>Configurations for the three network modes: a subnet beside the network ID, and a
  list of named networks with no network ID.\<close>

definition simConfigSubnet :: MachineProviderConfigSpec where
  "simConfigSubnet = simConfig\<lparr>SubnetIDs := [''S1'']\<rparr>"

definition simConfigNamed :: MachineProviderConfigSpec where
  "simConfigNamed =
     simConfig\<lparr>NetworkID := '''',
               Networks := [\<lparr>osn_Id = ''X'', osn_Name = ''ignored'', osn_PodNetwork = False\<rparr>,
                            \<lparr>osn_Id = '''', osn_Name = ''net1'', osn_PodNetwork = True\<rparr>]\<rparr>"

text \<open>The port that the executor creates for the machine \<open>m1\<close> in the user-managed mode,
  attached to the server \<open>a\<close>.\<close>

definition simPortM1 :: Port where
  "simPortM1 =
     \<lparr>port_ID = ''port-m1'', port_Name = ''m1'', port_NetworkID = ''N'', port_DeviceID = ''a'',
      port_AllowedAddressPairs = [''10.0.0.0/8'']\<rparr>"

subsection \<open>Kinds of requests\<close>

text \<open>The requests that only network resolution for a new server and its deployment
  send: subnet checks, security group lookups, image and flavor lookups, and the creation
  of a port, a volume or a server. (Port lookups and network lookups by name are also sent
  by the rollback and by the pod-network patch.)\<close>

fun provisioning :: "call \<Rightarrow> bool" where
  "provisioning (GetSubnet_call subnetID) = True"
| "provisioning (GroupIDFromName_call name) = True"
| "provisioning (CreatePort_call opts) = True"
| "provisioning (ImageIDFromName_call name) = True"
| "provisioning (FlavorIDFromName_call name) = True"
| "provisioning (CreateVolume_call opts) = True"
| "provisioning (CreateServer_call opts) = True"
| "provisioning (BootFromVolume_call opts) = True"
| "provisioning c = False"

text \<open>What the small platform holds after the machine \<open>m1\<close> was created from \<open>simConfig\<close>
  on the empty platform, and the requests of that run.\<close>

definition simServerM1 :: Server where
  "simServerM1 = \<lparr>srv_ID = ''id-m1'', srv_Name = ''m1'', srv_Status = ServerStatusActive,
                   srv_Metadata = Tags simConfig, srv_Fault = ''''\<rparr>"

definition simCreated :: sim where
  "simCreated =
     simCloud\<lparr>sim_servers := [simServerM1],
              sim_ports := [\<lparr>port_ID = ''port-N'', port_Name = '''', port_NetworkID = ''N'',
                              port_DeviceID = ''id-m1'',
                              port_AllowedAddressPairs = [''10.0.0.0/8'']\<rparr>]\<rparr>"

definition simCreateCalls :: "call list" where
  "simCreateCalls =
     [ListServers_call ''m1'', FlavorIDFromName_call ''m1'',
      CreateServer_call
        \<lparr>co_Name = ''m1'', co_FlavorRef = ''flavor-m1'', co_ImageRef = ''img'',
         co_Networks = [\<lparr>net_UUID = ''N'', net_Port = ''''\<rparr>],
         co_SecurityGroups = [''default''], co_Metadata = Tags simConfig,
         co_UserData = ''ud'', co_AvailabilityZone = ''eu-1'', co_ConfigDrive = None,
         co_KeyName = ''key'', co_SchedulerHints = None, co_BlockDevice = None\<rparr>,
      GetServer_call ''id-m1'', ListPorts_call ''id-m1'',
      UpdatePort_call ''port-N'' [''10.0.0.0/8'']]"

text \<open>A configuration that asks for a root disk of 50 GB on a volume of the type \<open>ssd\<close>,
  the options of the volume and of the server that the deployment of the machine \<open>m1\<close>
  sends under it, and a volume of the name \<open>m1\<close> in the status given.\<close>

definition simConfigVolume :: MachineProviderConfigSpec where
  "simConfigVolume = simConfig\<lparr>RootDiskSize := 50, VolumeType := Some ''ssd''\<rparr>"



definition simVolume :: "string \<Rightarrow> Volume" where
  "simVolume status = \<lparr>vol_ID = ''v1'', vol_Name = ''m1'', vol_Status = status\<rparr>"



section \<open>Properties\<close>

subsection \<open>Requests and runs on the small platform\<close>

lemma request_calls: "request c op w = (r, w') \<Longrightarrow> calls w' = calls w @ [c]"
  by (auto simp: request_def split: prod.splits)

lemma simTags:
  "searchTags simDecls (Tags simConfig)
     = (''kubernetes.io-cluster-shoot'', ''kubernetes.io-role-node'')"
  by (simp add: searchTags_def simDecls_def simConfig_def)

subsection \<open>The boot-volume check\<close>

lemma checkBootVolume_find_nil: "snd (checkBootVolume_find vols name) = None"
  by (induction vols) auto

lemma checkBootVolume_nil: "checkBootVolume ex name w = ((volume, err), w1) \<Longrightarrow> err = None"
  using checkBootVolume_find_nil
  by (auto simp: checkBootVolume_def split: prod.splits) (metis snd_conv)

text \<open>Claim C10. For every volume name, \<open>checkBootVolume\<close> returns a \<^verbatim>\<open>nil\<close> error, so its
  error never passes the not-found test. An error of the volume listing is dropped: when
  the listing returns no volume with its error, the result is the zero volume and \<^verbatim>\<open>nil\<close>.
  Hence the branches of its two callers that look at the error are dead. The volume step
  of \<open>DeleteMachine\<close> never returns an error and never asks for a volume to be deleted:
  it does nothing beyond the check. The volume step of \<open>deleteOnFail\<close> never returns the
  "error checking volume" error and never skips the deletion: after the check it always
  asks for the deletion of the volume the check returned.\<close>

theorem checkBootVolume_error_always_nil:
  "snd (fst (checkBootVolume ex name w)) = None
   \<and> \<not> IsNotFoundError (snd (fst (checkBootVolume ex name w)))
   \<and> (\<forall>lerr s. ListVolumes (Storage ex) name (cloud w) = (([], Some lerr), s)
         \<longrightarrow> fst (checkBootVolume ex name w) = (Volume_zero, None))
   \<and> DeleteMachine_volume d ex name w =
       (None, if isEmptyString d (VolumeType (Config ex)) then w
              else snd (checkBootVolume ex name w))
   \<and> deleteOnFail_volume d ex name err w =
       (if isEmptyString d (VolumeType (Config ex)) then (err, w)
        else (case checkBootVolume ex name w of
                ((volume, errChk), w1) \<Rightarrow>
                  (case request (DeleteVolume_call (vol_ID volume) True)
                          (DeleteVolume (Storage ex) (vol_ID volume) True) w1 of
                     (Some errDel, w2) \<Rightarrow>
                       (Errorf ''error deleting volume [ID=%q]: %v. Original error: %v''
                          [S name, E (Some errDel), E (Some err)], w2)
                   | (None, w2) \<Rightarrow> (err, w2))))"
proof -
  obtain volume cerr w1 where chk: "checkBootVolume ex name w = ((volume, cerr), w1)"
    by (metis surj_pair)
  have nil: "cerr = None" using checkBootVolume_nil [OF chk] .
  have a: "snd (fst (checkBootVolume ex name w)) = None" using chk nil by simp
  have b: "\<forall>lerr s. ListVolumes (Storage ex) name (cloud w) = (([], Some lerr), s)
         \<longrightarrow> fst (checkBootVolume ex name w) = (Volume_zero, None)"
    by (simp add: checkBootVolume_def request_def)
  have c: "DeleteMachine_volume d ex name w =
       (None, if isEmptyString d (VolumeType (Config ex)) then w
              else snd (checkBootVolume ex name w))"
    using chk nil by (simp add: DeleteMachine_volume_def)
  have e: "deleteOnFail_volume d ex name err w =
       (if isEmptyString d (VolumeType (Config ex)) then (err, w)
        else (case checkBootVolume ex name w of
                ((volume, errChk), w1) \<Rightarrow>
                  (case request (DeleteVolume_call (vol_ID volume) True)
                          (DeleteVolume (Storage ex) (vol_ID volume) True) w1 of
                     (Some errDel, w2) \<Rightarrow>
                       (Errorf ''error deleting volume [ID=%q]: %v. Original error: %v''
                          [S name, E (Some errDel), E (Some err)], w2)
                   | (None, w2) \<Rightarrow> (err, w2))))"
    using chk nil by (simp add: deleteOnFail_volume_def)
  show ?thesis using a b c e by simp
qed

text \<open>A run with a volume type configured and the volume listing out of service: the
  listing returns its error, the check returns the zero volume and no error, and the
  volume step of \<open>DeleteMachine\<close> returns \<^verbatim>\<open>nil\<close> after the one listing request.\<close>

theorem checkBootVolume_error_always_nil_witness:
  "ListVolumes (Storage (simExecutor (simConfig\<lparr>VolumeType := Some ''ssd''\<rparr>))) ''m1''
       (cloud (simWorld (simCloud\<lparr>sim_down := [''ListVolumes'']\<rparr>)))
     = (([], Some (ErrPlatform ''ListVolumes'')), simCloud\<lparr>sim_down := [''ListVolumes'']\<rparr>)
   \<and> fst (checkBootVolume (simExecutor (simConfig\<lparr>VolumeType := Some ''ssd''\<rparr>)) ''m1''
            (simWorld (simCloud\<lparr>sim_down := [''ListVolumes'']\<rparr>)))
     = (Volume_zero, None)
   \<and> DeleteMachine_volume simDecls (simExecutor (simConfig\<lparr>VolumeType := Some ''ssd''\<rparr>)) ''m1''
         (simWorld (simCloud\<lparr>sim_down := [''ListVolumes'']\<rparr>))
     = (None, \<lparr>cloud = simCloud\<lparr>sim_down := [''ListVolumes'']\<rparr>,
               calls = [ListVolumes_call ''m1'']\<rparr>)"
proof -
  let ?ex = "simExecutor (simConfig\<lparr>VolumeType := Some ''ssd''\<rparr>)"
  let ?w = "simWorld (simCloud\<lparr>sim_down := [''ListVolumes'']\<rparr>)"
  have l: "ListVolumes (Storage ?ex) ''m1'' (cloud ?w)
             = (([], Some (ErrPlatform ''ListVolumes'')), simCloud\<lparr>sim_down := [''ListVolumes'']\<rparr>)"
    by (simp add: simExecutor_def simStorage_def simWorld_def simCloud_def)
  have v: "\<not> isEmptyString simDecls (VolumeType (Config ?ex))"
    by (simp add: simExecutor_def simDecls_def)
  have w: "snd (checkBootVolume ?ex ''m1'' ?w)
             = \<lparr>cloud = simCloud\<lparr>sim_down := [''ListVolumes'']\<rparr>, calls = [ListVolumes_call ''m1'']\<rparr>"
    by (simp add: checkBootVolume_def request_def l) (simp add: simWorld_def)
  show ?thesis
    using checkBootVolume_error_always_nil [of ?ex "''m1''" ?w simDecls] l v w
    by simp
qed

subsection \<open>Lookup by name\<close>

text \<open>Claim C9. The lookup of an instance by name never resolves an ambiguity silently.
  When both tag keys are derived and the listing succeeds, the servers that match are those
  of the listing with the machine name whose metadata has both keys. With more than one
  match the lookup fails with the multiple-found error, with none it fails with the
  not-found error, and it returns a server exactly when that server is the only match.\<close>

theorem getMachineByName_ambiguous:
  assumes tags: "searchTags d (Tags (Config ex)) = (searchClusterName, searchNodeRole)"
    and derivable: "searchClusterName \<noteq> ''''" "searchNodeRole \<noteq> ''''"
    and listed: "ListServers (Compute ex) machineName (cloud w) = (Inr listedServers, s)"
    and matching: "matching = filter (\<lambda>server. srv_Name server = machineName
                                  \<and> hasKey (srv_Metadata server) searchClusterName
                                  \<and> hasKey (srv_Metadata server) searchNodeRole) listedServers"
  shows "fst (getMachineByName d ex machineName w) =
           (if length matching > 1
            then Inl (ErrorfW ''failed to find server [Name=%q]: %w'' [S machineName] ErrMultipleFound)
            else if length matching = 0
            then Inl (ErrorfW ''failed to find server [Name=%q]: %w'' [S machineName] ErrNotFound)
            else Inr (hd matching))
         \<and> (length matching > 1 \<longrightarrow>
              (\<exists>err. fst (getMachineByName d ex machineName w) = Inl err
                     \<and> errors_Is err ErrMultipleFound \<and> \<not> errors_Is err ErrNotFound))
         \<and> (length matching = 0 \<longrightarrow>
              (\<exists>err. fst (getMachineByName d ex machineName w) = Inl err
                     \<and> errors_Is err ErrNotFound \<and> \<not> errors_Is err ErrMultipleFound))
         \<and> (\<forall>server. fst (getMachineByName d ex machineName w) = Inr server
              \<longleftrightarrow> matching = [server])"
proof -
  have eq: "fst (getMachineByName d ex machineName w) =
           (if length matching > 1
            then Inl (ErrorfW ''failed to find server [Name=%q]: %w'' [S machineName] ErrMultipleFound)
            else if length matching = 0
            then Inl (ErrorfW ''failed to find server [Name=%q]: %w'' [S machineName] ErrNotFound)
            else Inr (hd matching))"
    using tags derivable matching
    by (simp add: getMachineByName_def request_def listed Let_def hd_conv_nth)
  have one: "\<forall>server. (\<not> length matching > 1 \<and> length matching \<noteq> 0 \<and> hd matching = server)
               \<longleftrightarrow> matching = [server]"
    by (cases matching) auto
  show ?thesis
    unfolding eq using one by auto
qed

text \<open>Two runs: two servers of the name with both tags make the lookup fail with the
  multiple-found error; with one of them under another name the lookup returns the
  other.\<close>

theorem getMachineByName_ambiguous_witness:
  "fst (getMachineByName simDecls (simExecutor simConfig) ''m1''
         (simWorld (simCloud\<lparr>sim_servers := [simServerA, simServerA\<lparr>srv_ID := ''b''\<rparr>]\<rparr>)))
     = Inl (ErrorfW ''failed to find server [Name=%q]: %w'' [S ''m1''] ErrMultipleFound)
   \<and> fst (getMachineByName simDecls (simExecutor simConfig) ''m1''
         (simWorld (simCloud\<lparr>sim_servers := [simServerA, simServerA\<lparr>srv_Name := ''m2''\<rparr>]\<rparr>)))
     = Inr simServerA"
proof -
  let ?w2 = "simWorld (simCloud\<lparr>sim_servers := [simServerA, simServerA\<lparr>srv_ID := ''b''\<rparr>]\<rparr>)"
  let ?w1 = "simWorld (simCloud\<lparr>sim_servers := [simServerA, simServerA\<lparr>srv_Name := ''m2''\<rparr>]\<rparr>)"
  have l2: "ListServers (Compute (simExecutor simConfig)) ''m1'' (cloud ?w2)
              = (Inr [simServerA, simServerA\<lparr>srv_ID := ''b''\<rparr>], cloud ?w2)"
    by (simp add: simExecutor_def simCompute_def simWorld_def simCloud_def simServerA_def)
  have l1: "ListServers (Compute (simExecutor simConfig)) ''m1'' (cloud ?w1)
              = (Inr [simServerA], cloud ?w1)"
    by (simp add: simExecutor_def simCompute_def simWorld_def simCloud_def simServerA_def)
  have t: "searchTags simDecls (Tags (Config (simExecutor simConfig)))
             = (''kubernetes.io-cluster-shoot'', ''kubernetes.io-role-node'')"
    using simTags by (simp add: simExecutor_def)
  have m2: "[simServerA, simServerA\<lparr>srv_ID := ''b''\<rparr>] =
     filter (\<lambda>server. srv_Name server = ''m1''
                \<and> hasKey (srv_Metadata server) ''kubernetes.io-cluster-shoot''
                \<and> hasKey (srv_Metadata server) ''kubernetes.io-role-node'')
        [simServerA, simServerA\<lparr>srv_ID := ''b''\<rparr>]"
    by (simp add: simServerA_def hasKey_def simConfig_def)
  have m1: "[simServerA] =
     filter (\<lambda>server. srv_Name server = ''m1''
                \<and> hasKey (srv_Metadata server) ''kubernetes.io-cluster-shoot''
                \<and> hasKey (srv_Metadata server) ''kubernetes.io-role-node'')
        [simServerA]"
    by (simp add: simServerA_def hasKey_def simConfig_def)
  show ?thesis
    using getMachineByName_ambiguous [OF t _ _ l2 m2] getMachineByName_ambiguous [OF t _ _ l1 m1]
    by simp
qed

subsection \<open>The status poller\<close>

lemma wait_Poll_loop_pos:
  "0 < n \<Longrightarrow> wait_Poll_loop n condition w =
     (case condition w of
        ((done, Some err), w1) \<Rightarrow> (Some err, w1)
      | ((done, None), w1) \<Rightarrow> if done then (None, w1) else wait_Poll_loop (n - 1) condition w1)"
  by (cases n) (auto split: prod.splits option.splits)

lemma status_distinct:
  "ServerStatusBuild \<noteq> ServerStatusActive" "ServerStatusError \<noteq> ServerStatusActive"
  "ServerStatusError \<noteq> ServerStatusBuild"
  by (simp_all add: ServerStatusBuild_def ServerStatusActive_def ServerStatusError_def)

lemma waitForStatus_condition_server:
  assumes "GetServer (Compute ex) serverID (cloud w) = (Inr current, s1)"
  shows "waitForStatus_condition ex serverID pending target w =
         ((if srv_Status current \<in> set target then (True, None)
           else if pending = [] \<or> srv_Status current \<in> set pending then (False, None)
           else if srv_Status current = ServerStatusError
           then (False, Some (Errorf ''%s, fault: %+v''
                   [E (Some (Errorf ''server [ID=%q] reached unexpected status %q''
                               [S serverID, S (srv_Status current)])),
                    F (srv_Fault current)]))
           else (False, Some (Errorf ''server [ID=%q] reached unexpected status %q''
                                [S serverID, S (srv_Status current)]))),
          \<lparr>cloud = s1, calls = calls w @ [GetServer_call serverID]\<rparr>)"
  using assms
  by (simp add: waitForStatus_condition_def request_def strSliceContains_def Let_def)

lemma waitForStatus_condition_error:
  assumes "GetServer (Compute ex) serverID (cloud w) = (Inl err, s1)"
  shows "waitForStatus_condition ex serverID pending target w =
         ((if IsNotFoundError (Some err) \<and> ServerStatusDeleted \<in> set target
           then (True, None) else (False, Some err)),
          \<lparr>cloud = s1, calls = calls w @ [GetServer_call serverID]\<rparr>)"
  using assms
  by (simp add: waitForStatus_condition_def request_def strSliceContains_def)

lemma waitForVolumeStatus_condition_volume:
  assumes "GetVolume (Storage ex) volumeID (cloud w) = (Inr current, s1)"
  shows "waitForVolumeStatus_condition ex volumeID pending target w =
         ((if vol_Status current \<in> set target then (True, None)
           else if pending = [] \<or> vol_Status current \<in> set pending then (False, None)
           else if vol_Status current = VolumeStatusError
           then (False, Some (Errorf ''%s''
                   [E (Some (Errorf ''volume [ID=%q] reached unexpected status %q''
                               [S volumeID, S (vol_Status current)]))]))
           else (False, Some (Errorf ''volume [ID=%q] reached unexpected status %q''
                                [S volumeID, S (vol_Status current)]))),
          \<lparr>cloud = s1, calls = calls w @ [GetVolume_call volumeID]\<rparr>)"
  using assms
  by (simp add: waitForVolumeStatus_condition_def request_def strSliceContains_def Let_def)

lemma waitForVolumeStatus_condition_error:
  assumes "GetVolume (Storage ex) volumeID (cloud w) = (Inl err, s1)"
  shows "waitForVolumeStatus_condition ex volumeID pending target w =
         ((if IsNotFoundError (Some err) \<and> VolumeStatusDeleting \<in> set target
           then (True, None) else (False, Some err)),
          \<lparr>cloud = s1, calls = calls w @ [GetVolume_call volumeID]\<rparr>)"
  using assms
  by (simp add: waitForVolumeStatus_condition_def request_def strSliceContains_def)

text \<open>Claim C3. The decision the two status pollers take at each poll, which sends one
  request. When the platform returns the server or the volume: success if its status is in
  the target list; otherwise another poll if the pending list is empty or holds the
  status; otherwise a failure. For a server in the error status the error of that failure
  carries the fault of the server; for a volume it never carries a fault detail, it names
  the volume ID and the status only. When the platform returns an error: success if it is
  a not-found error and the target list holds the status that stands for absence, deleted
  for a server and deleting for a volume; otherwise a failure with that error. In
  particular, with pending \<open>[building]\<close> and target \<open>[active]\<close>: a server seen building,
  building, active makes the wait succeed after exactly three polls, and a server seen
  building, then in the error status, makes it fail at the second poll with the fault in
  the error.\<close>

theorem status_poller_decision:
  "(\<forall>current s1. GetServer (Compute ex) serverID (cloud w) = (Inr current, s1) \<longrightarrow>
      fst (waitForStatus_condition ex serverID pending target w) =
        (if srv_Status current \<in> set target then (True, None)
         else if pending = [] \<or> srv_Status current \<in> set pending then (False, None)
         else if srv_Status current = ServerStatusError
         then (False, Some (Errorf ''%s, fault: %+v''
                 [E (Some (Errorf ''server [ID=%q] reached unexpected status %q''
                             [S serverID, S (srv_Status current)])),
                  F (srv_Fault current)]))
         else (False, Some (Errorf ''server [ID=%q] reached unexpected status %q''
                              [S serverID, S (srv_Status current)])))
      \<and> snd (waitForStatus_condition ex serverID pending target w) =
          \<lparr>cloud = s1, calls = calls w @ [GetServer_call serverID]\<rparr>)
   \<and> (\<forall>err s1. GetServer (Compute ex) serverID (cloud w) = (Inl err, s1) \<longrightarrow>
        fst (waitForStatus_condition ex serverID pending target w) =
          (if IsNotFoundError (Some err) \<and> ServerStatusDeleted \<in> set target
           then (True, None) else (False, Some err))
        \<and> snd (waitForStatus_condition ex serverID pending target w) =
            \<lparr>cloud = s1, calls = calls w @ [GetServer_call serverID]\<rparr>)
   \<and> (\<forall>current s1. GetServer (Compute ex) serverID (cloud w) = (Inr current, s1)
        \<and> srv_Status current = ServerStatusError \<and> ServerStatusError \<notin> set target
        \<and> pending \<noteq> [] \<and> ServerStatusError \<notin> set pending \<longrightarrow>
        (\<exists>err. fst (waitForStatus_condition ex serverID pending target w) = (False, Some err)
               \<and> fault_details err = [srv_Fault current]))
   \<and> (\<forall>current s1. GetVolume (Storage ex) volumeID (cloud w) = (Inr current, s1) \<longrightarrow>
        fst (waitForVolumeStatus_condition ex volumeID pending target w) =
          (if vol_Status current \<in> set target then (True, None)
           else if pending = [] \<or> vol_Status current \<in> set pending then (False, None)
           else if vol_Status current = VolumeStatusError
           then (False, Some (Errorf ''%s''
                   [E (Some (Errorf ''volume [ID=%q] reached unexpected status %q''
                               [S volumeID, S (vol_Status current)]))]))
           else (False, Some (Errorf ''volume [ID=%q] reached unexpected status %q''
                                [S volumeID, S (vol_Status current)])))
        \<and> snd (waitForVolumeStatus_condition ex volumeID pending target w) =
            \<lparr>cloud = s1, calls = calls w @ [GetVolume_call volumeID]\<rparr>
        \<and> (\<forall>done err. fst (waitForVolumeStatus_condition ex volumeID pending target w)
                          = (done, Some err) \<longrightarrow> fault_details err = []))
   \<and> (\<forall>err s1. GetVolume (Storage ex) volumeID (cloud w) = (Inl err, s1) \<longrightarrow>
        fst (waitForVolumeStatus_condition ex volumeID pending target w) =
          (if IsNotFoundError (Some err) \<and> VolumeStatusDeleting \<in> set target
           then (True, None) else (False, Some err))
        \<and> snd (waitForVolumeStatus_condition ex volumeID pending target w) =
            \<lparr>cloud = s1, calls = calls w @ [GetVolume_call volumeID]\<rparr>)
   \<and> (\<forall>c0 c1 c2 s1 s2 s3.
        GetServer (Compute ex) serverID (cloud w) = (Inr c0, s1)
        \<and> srv_Status c0 = ServerStatusBuild
        \<and> GetServer (Compute ex) serverID s1 = (Inr c1, s2)
        \<and> srv_Status c1 = ServerStatusBuild
        \<and> GetServer (Compute ex) serverID s2 = (Inr c2, s3)
        \<and> srv_Status c2 = ServerStatusActive \<longrightarrow>
        waitForStatus ex serverID [ServerStatusBuild] [ServerStatusActive] 600 w =
          (None, \<lparr>cloud = s3,
                  calls = calls w @ [GetServer_call serverID, GetServer_call serverID,
                                     GetServer_call serverID]\<rparr>))
   \<and> (\<forall>c0 c1 s1 s2.
        GetServer (Compute ex) serverID (cloud w) = (Inr c0, s1)
        \<and> srv_Status c0 = ServerStatusBuild
        \<and> GetServer (Compute ex) serverID s1 = (Inr c1, s2)
        \<and> srv_Status c1 = ServerStatusError \<longrightarrow>
        waitForStatus ex serverID [ServerStatusBuild] [ServerStatusActive] 600 w =
          (Some (Errorf ''%s, fault: %+v''
                   [E (Some (Errorf ''server [ID=%q] reached unexpected status %q''
                               [S serverID, S ServerStatusError])),
                    F (srv_Fault c1)]),
           \<lparr>cloud = s2,
             calls = calls w @ [GetServer_call serverID, GetServer_call serverID]\<rparr>))"
proof -
  have server: "\<forall>current s1. GetServer (Compute ex) serverID (cloud w) = (Inr current, s1) \<longrightarrow>
      fst (waitForStatus_condition ex serverID pending target w) =
        (if srv_Status current \<in> set target then (True, None)
         else if pending = [] \<or> srv_Status current \<in> set pending then (False, None)
         else if srv_Status current = ServerStatusError
         then (False, Some (Errorf ''%s, fault: %+v''
                 [E (Some (Errorf ''server [ID=%q] reached unexpected status %q''
                             [S serverID, S (srv_Status current)])),
                  F (srv_Fault current)]))
         else (False, Some (Errorf ''server [ID=%q] reached unexpected status %q''
                              [S serverID, S (srv_Status current)])))
      \<and> snd (waitForStatus_condition ex serverID pending target w) =
          \<lparr>cloud = s1, calls = calls w @ [GetServer_call serverID]\<rparr>"
    by (simp add: waitForStatus_condition_server)
  have server_error: "\<forall>err s1. GetServer (Compute ex) serverID (cloud w) = (Inl err, s1) \<longrightarrow>
        fst (waitForStatus_condition ex serverID pending target w) =
          (if IsNotFoundError (Some err) \<and> ServerStatusDeleted \<in> set target
           then (True, None) else (False, Some err))
        \<and> snd (waitForStatus_condition ex serverID pending target w) =
            \<lparr>cloud = s1, calls = calls w @ [GetServer_call serverID]\<rparr>"
    by (simp add: waitForStatus_condition_error)
  have server_fault: "\<forall>current s1. GetServer (Compute ex) serverID (cloud w) = (Inr current, s1)
        \<and> srv_Status current = ServerStatusError \<and> ServerStatusError \<notin> set target
        \<and> pending \<noteq> [] \<and> ServerStatusError \<notin> set pending \<longrightarrow>
        (\<exists>err. fst (waitForStatus_condition ex serverID pending target w) = (False, Some err)
               \<and> fault_details err = [srv_Fault current])"
    by (simp add: waitForStatus_condition_server)
  have volume: "\<forall>current s1. GetVolume (Storage ex) volumeID (cloud w) = (Inr current, s1) \<longrightarrow>
        fst (waitForVolumeStatus_condition ex volumeID pending target w) =
          (if vol_Status current \<in> set target then (True, None)
           else if pending = [] \<or> vol_Status current \<in> set pending then (False, None)
           else if vol_Status current = VolumeStatusError
           then (False, Some (Errorf ''%s''
                   [E (Some (Errorf ''volume [ID=%q] reached unexpected status %q''
                               [S volumeID, S (vol_Status current)]))]))
           else (False, Some (Errorf ''volume [ID=%q] reached unexpected status %q''
                                [S volumeID, S (vol_Status current)])))
        \<and> snd (waitForVolumeStatus_condition ex volumeID pending target w) =
            \<lparr>cloud = s1, calls = calls w @ [GetVolume_call volumeID]\<rparr>
        \<and> (\<forall>done err. fst (waitForVolumeStatus_condition ex volumeID pending target w)
                          = (done, Some err) \<longrightarrow> fault_details err = [])"
    by (auto simp: waitForVolumeStatus_condition_volume split: if_splits)
  have volume_error: "\<forall>err s1. GetVolume (Storage ex) volumeID (cloud w) = (Inl err, s1) \<longrightarrow>
        fst (waitForVolumeStatus_condition ex volumeID pending target w) =
          (if IsNotFoundError (Some err) \<and> VolumeStatusDeleting \<in> set target
           then (True, None) else (False, Some err))
        \<and> snd (waitForVolumeStatus_condition ex volumeID pending target w) =
            \<lparr>cloud = s1, calls = calls w @ [GetVolume_call volumeID]\<rparr>"
    by (simp add: waitForVolumeStatus_condition_error)
  have three: "\<forall>c0 c1 c2 s1 s2 s3.
        GetServer (Compute ex) serverID (cloud w) = (Inr c0, s1)
        \<and> srv_Status c0 = ServerStatusBuild
        \<and> GetServer (Compute ex) serverID s1 = (Inr c1, s2)
        \<and> srv_Status c1 = ServerStatusBuild
        \<and> GetServer (Compute ex) serverID s2 = (Inr c2, s3)
        \<and> srv_Status c2 = ServerStatusActive \<longrightarrow>
        waitForStatus ex serverID [ServerStatusBuild] [ServerStatusActive] 600 w =
          (None, \<lparr>cloud = s3,
                  calls = calls w @ [GetServer_call serverID, GetServer_call serverID,
                                     GetServer_call serverID]\<rparr>)"
  proof (intro allI impI)
    fix c0 c1 c2 s1 s2 s3
    assume h: "GetServer (Compute ex) serverID (cloud w) = (Inr c0, s1)
        \<and> srv_Status c0 = ServerStatusBuild
        \<and> GetServer (Compute ex) serverID s1 = (Inr c1, s2)
        \<and> srv_Status c1 = ServerStatusBuild
        \<and> GetServer (Compute ex) serverID s2 = (Inr c2, s3)
        \<and> srv_Status c2 = ServerStatusActive"
    let ?c = "waitForStatus_condition ex serverID [ServerStatusBuild] [ServerStatusActive]"
    let ?w1 = "\<lparr>cloud = s1, calls = calls w @ [GetServer_call serverID]\<rparr>"
    let ?w2 = "\<lparr>cloud = s2,
                 calls = calls w @ [GetServer_call serverID, GetServer_call serverID]\<rparr>"
    let ?w3 = "\<lparr>cloud = s3,
                 calls = calls w @ [GetServer_call serverID, GetServer_call serverID,
                                    GetServer_call serverID]\<rparr>"
    have p1: "?c w = ((False, None), ?w1)"
      using h waitForStatus_condition_server [of ex serverID w c0 s1] status_distinct by simp
    have p2: "?c ?w1 = ((False, None), ?w2)"
      using h waitForStatus_condition_server [of ex serverID ?w1 c1 s2] status_distinct by simp
    have p3: "?c ?w2 = ((True, None), ?w3)"
      using h waitForStatus_condition_server [of ex serverID ?w2 c2 s3] status_distinct by simp
    show "waitForStatus ex serverID [ServerStatusBuild] [ServerStatusActive] 600 w = (None, ?w3)"
      by (simp add: waitForStatus_def wait_Poll_def wait_Poll_loop_pos p1 p2 p3)
  qed
  have two: "\<forall>c0 c1 s1 s2.
        GetServer (Compute ex) serverID (cloud w) = (Inr c0, s1)
        \<and> srv_Status c0 = ServerStatusBuild
        \<and> GetServer (Compute ex) serverID s1 = (Inr c1, s2)
        \<and> srv_Status c1 = ServerStatusError \<longrightarrow>
        waitForStatus ex serverID [ServerStatusBuild] [ServerStatusActive] 600 w =
          (Some (Errorf ''%s, fault: %+v''
                   [E (Some (Errorf ''server [ID=%q] reached unexpected status %q''
                               [S serverID, S ServerStatusError])),
                    F (srv_Fault c1)]),
           \<lparr>cloud = s2,
             calls = calls w @ [GetServer_call serverID, GetServer_call serverID]\<rparr>)"
  proof (intro allI impI)
    fix c0 c1 s1 s2
    assume h: "GetServer (Compute ex) serverID (cloud w) = (Inr c0, s1)
        \<and> srv_Status c0 = ServerStatusBuild
        \<and> GetServer (Compute ex) serverID s1 = (Inr c1, s2)
        \<and> srv_Status c1 = ServerStatusError"
    let ?c = "waitForStatus_condition ex serverID [ServerStatusBuild] [ServerStatusActive]"
    let ?w1 = "\<lparr>cloud = s1, calls = calls w @ [GetServer_call serverID]\<rparr>"
    let ?w2 = "\<lparr>cloud = s2,
                 calls = calls w @ [GetServer_call serverID, GetServer_call serverID]\<rparr>"
    let ?e = "Errorf ''%s, fault: %+v''
                   [E (Some (Errorf ''server [ID=%q] reached unexpected status %q''
                               [S serverID, S ServerStatusError])),
                    F (srv_Fault c1)]"
    have p1: "?c w = ((False, None), ?w1)"
      using h waitForStatus_condition_server [of ex serverID w c0 s1] status_distinct by simp
    have p2: "?c ?w1 = ((False, Some ?e), ?w2)"
      using h waitForStatus_condition_server [of ex serverID ?w1 c1 s2] status_distinct by simp
    show "waitForStatus ex serverID [ServerStatusBuild] [ServerStatusActive] 600 w
            = (Some ?e, ?w2)"
      by (simp add: waitForStatus_def wait_Poll_def wait_Poll_loop_pos p1 p2)
  qed
  show ?thesis
    using server server_error server_fault volume volume_error three two by (intro conjI)
qed

text \<open>Runs on the small platform. A server whose next polls show building, building,
  active: three requests and success. A server whose next polls show building, error: two
  requests and the failure with the fault. A volume seen creating, with creating pending:
  another poll. A volume that is not there, with deleting in the target list: success.\<close>

theorem status_poller_decision_witness:
  "waitForStatus (simExecutor simConfig) ''a'' [ServerStatusBuild] [ServerStatusActive] 600
      (simWorld (simCloud\<lparr>sim_servers := [simServerA],
                           sim_polls := [ServerStatusBuild, ServerStatusBuild, ServerStatusActive]\<rparr>))
     = (None, \<lparr>cloud = simCloud\<lparr>sim_servers := [simServerA]\<rparr>,
               calls = [GetServer_call ''a'', GetServer_call ''a'', GetServer_call ''a'']\<rparr>)
   \<and> waitForStatus (simExecutor simConfig) ''a'' [ServerStatusBuild] [ServerStatusActive] 600
      (simWorld (simCloud\<lparr>sim_servers := [simServerA\<lparr>srv_Fault := ''No valid host''\<rparr>],
                           sim_polls := [ServerStatusBuild, ServerStatusError]\<rparr>))
     = (Some (Errorf ''%s, fault: %+v''
                [E (Some (Errorf ''server [ID=%q] reached unexpected status %q''
                            [S ''a'', S ServerStatusError])),
                 F ''No valid host'']),
        \<lparr>cloud = simCloud\<lparr>sim_servers := [simServerA\<lparr>srv_Fault := ''No valid host''\<rparr>]\<rparr>,
          calls = [GetServer_call ''a'', GetServer_call ''a'']\<rparr>)
   \<and> waitForVolumeStatus_condition (simExecutor simConfig) ''v1''
        [VolumeStatusDownloading, VolumeStatusCreating] [VolumeStatusAvailable]
        (simWorld (simCloud\<lparr>sim_volumes := [simVolume VolumeStatusCreating]\<rparr>))
     = ((False, None),
        \<lparr>cloud = simCloud\<lparr>sim_volumes := [simVolume VolumeStatusCreating]\<rparr>,
          calls = [GetVolume_call ''v1'']\<rparr>)
   \<and> waitForVolumeStatus_condition (simExecutor simConfig) ''v1'' [] [VolumeStatusDeleting]
        (simWorld simCloud)
     = ((True, None), \<lparr>cloud = simCloud, calls = [GetVolume_call ''v1'']\<rparr>)"
proof -
  let ?ex = "simExecutor simConfig"
  let ?get = "GetServer (Compute ?ex) ''a''"
  let ?s = "\<lambda>polls. simCloud\<lparr>sim_servers := [simServerA], sim_polls := polls\<rparr>"
  let ?t = "\<lambda>polls. simCloud\<lparr>sim_servers := [simServerA\<lparr>srv_Fault := ''No valid host''\<rparr>],
                             sim_polls := polls\<rparr>"
  let ?v = "simCloud\<lparr>sim_volumes := [simVolume VolumeStatusCreating]\<rparr>"
  let ?pending = "[VolumeStatusDownloading, VolumeStatusCreating]"
  have get: "\<And>st polls. ?get (?s (st # polls)) = (Inr (simServerA\<lparr>srv_Status := st\<rparr>), ?s polls)"
    by (simp add: simExecutor_def simCompute_def simCloud_def simServerA_def)
  have get': "\<And>st polls. ?get (?t (st # polls))
                = (Inr (simServerA\<lparr>srv_Fault := ''No valid host'', srv_Status := st\<rparr>), ?t polls)"
    by (simp add: simExecutor_def simCompute_def simCloud_def simServerA_def)
  have e: "?s [] = simCloud\<lparr>sim_servers := [simServerA]\<rparr>"
          "?t [] = simCloud\<lparr>sim_servers := [simServerA\<lparr>srv_Fault := ''No valid host''\<rparr>]\<rparr>"
    by (simp_all add: simCloud_def)
  have getv: "GetVolume (Storage ?ex) ''v1'' (cloud (simWorld ?v))
                = (Inr (simVolume VolumeStatusCreating), ?v)"
    by (simp add: simExecutor_def simStorage_def simWorld_def simCloud_def simVolume_def)
  have getn: "GetVolume (Storage ?ex) ''v1'' (cloud (simWorld simCloud))
                = (Inl (Err404 ''v1''), simCloud)"
    by (simp add: simExecutor_def simStorage_def simWorld_def simCloud_def)
  note d = status_poller_decision
    [of ?ex "''a''" "simWorld (?s [ServerStatusBuild, ServerStatusBuild, ServerStatusActive])"]
  note d' = status_poller_decision
    [of ?ex "''a''" "simWorld (?t [ServerStatusBuild, ServerStatusError])"]
  note dv = status_poller_decision [of ?ex _ "simWorld ?v" _ _ "''v1''", where pending = ?pending
      and target = "[VolumeStatusAvailable]"]
  note dn = status_poller_decision [of ?ex _ "simWorld simCloud" _ _ "''v1''", where pending = "[]"
      and target = "[VolumeStatusDeleting]"]
  have a: "waitForStatus ?ex ''a'' [ServerStatusBuild] [ServerStatusActive] 600
      (simWorld (?s [ServerStatusBuild, ServerStatusBuild, ServerStatusActive]))
     = (None, \<lparr>cloud = ?s [],
               calls = [GetServer_call ''a'', GetServer_call ''a'', GetServer_call ''a'']\<rparr>)"
    using conjunct1 [OF conjunct2 [OF conjunct2 [OF conjunct2 [OF conjunct2 [OF conjunct2 [OF d]]]]],
      rule_format,
      of "simServerA\<lparr>srv_Status := ServerStatusBuild\<rparr>" "?s [ServerStatusBuild, ServerStatusActive]"
         "simServerA\<lparr>srv_Status := ServerStatusBuild\<rparr>" "?s [ServerStatusActive]"
         "simServerA\<lparr>srv_Status := ServerStatusActive\<rparr>" "?s []"]
      get
    by (simp add: simWorld_def)
  have b: "waitForStatus ?ex ''a'' [ServerStatusBuild] [ServerStatusActive] 600
      (simWorld (?t [ServerStatusBuild, ServerStatusError]))
     = (Some (Errorf ''%s, fault: %+v''
                [E (Some (Errorf ''server [ID=%q] reached unexpected status %q''
                            [S ''a'', S ServerStatusError])),
                 F ''No valid host'']),
        \<lparr>cloud = ?t [], calls = [GetServer_call ''a'', GetServer_call ''a'']\<rparr>)"
    using conjunct2 [OF conjunct2 [OF conjunct2 [OF conjunct2 [OF conjunct2 [OF conjunct2 [OF d']]]]],
      rule_format,
      of "simServerA\<lparr>srv_Fault := ''No valid host'', srv_Status := ServerStatusBuild\<rparr>"
         "?t [ServerStatusError]"
         "simServerA\<lparr>srv_Fault := ''No valid host'', srv_Status := ServerStatusError\<rparr>" "?t []"]
      get'
    by (simp add: simWorld_def)
  have c: "waitForVolumeStatus_condition ?ex ''v1'' ?pending [VolumeStatusAvailable] (simWorld ?v)
     = ((False, None), \<lparr>cloud = ?v, calls = [GetVolume_call ''v1'']\<rparr>)"
    using mp [OF spec [OF spec [OF conjunct1 [OF conjunct2 [OF conjunct2 [OF conjunct2 [OF dv]]]]]]
                getv]
    by (simp add: prod_eq_iff simVolume_def simWorld_def VolumeStatusCreating_def
          VolumeStatusAvailable_def)
  have n: "waitForVolumeStatus_condition ?ex ''v1'' [] [VolumeStatusDeleting] (simWorld simCloud)
     = ((True, None), \<lparr>cloud = simCloud, calls = [GetVolume_call ''v1'']\<rparr>)"
    using mp [OF spec [OF spec [OF conjunct1 [OF conjunct2 [OF conjunct2 [OF conjunct2
                [OF conjunct2 [OF dn]]]]]]] getn]
    by (simp add: prod_eq_iff simWorld_def)
  show ?thesis using a b c n e by simp
qed

text \<open>The volume poller on a volume in the error status, with creating pending and
  available as target: the failure names the volume and the status, and no fault detail
  is in it. And on a volume that is not there, with the deleted status of servers as
  target: the not-found error is the failure.\<close>

theorem waitForVolumeStatus_error_without_fault:
  "fst (waitForVolumeStatus_condition (simExecutor simConfig) ''v1''
          [VolumeStatusCreating] [VolumeStatusAvailable]
          (simWorld (simCloud\<lparr>sim_volumes := [simVolume VolumeStatusError]\<rparr>)))
     = (False, Some (Errorf ''%s''
                       [E (Some (Errorf ''volume [ID=%q] reached unexpected status %q''
                                   [S ''v1'', S VolumeStatusError]))]))
   \<and> fault_details (Errorf ''%s''
                       [E (Some (Errorf ''volume [ID=%q] reached unexpected status %q''
                                   [S ''v1'', S VolumeStatusError]))]) = []
   \<and> fst (waitForVolumeStatus_condition (simExecutor simConfig) ''v1'' [] [ServerStatusDeleted]
            (simWorld simCloud))
     = (False, Some (Err404 ''v1''))"
  by (simp add: waitForVolumeStatus_condition_def request_def strSliceContains_def Let_def
        simExecutor_def simStorage_def simWorld_def simCloud_def simVolume_def
        VolumeStatusError_def
        VolumeStatusCreating_def VolumeStatusAvailable_def VolumeStatusDeleting_def
        ServerStatusDeleted_def)

subsection \<open>List\<close>

lemma searchTags_last:
  "searchTags d tags =
     (let clusterKeys = filter (\<lambda>key. strings_Contains key (ServerTagClusterPrefix d))
                          (map fst tags);
          roleKeys = filter (\<lambda>key. \<not> strings_Contains key (ServerTagClusterPrefix d)
                                    \<and> strings_Contains key (ServerTagRolePrefix d))
                       (map fst tags)
      in (if clusterKeys = [] then '''' else last clusterKeys,
          if roleKeys = [] then '''' else last roleKeys))"
  unfolding searchTags_def
  by (induction tags rule: rev_induct) (auto simp: Let_def)

lemma strings_Contains_nonempty:
  "strings_Contains key marker \<Longrightarrow> marker \<noteq> '''' \<Longrightarrow> key \<noteq> ''''"
  by (cases key) auto

lemma foldl_map_upd:
  "foldl (\<lambda>result x. result(k x \<mapsto> v x)) m xs = m ++ map_of (rev (map (\<lambda>x. (k x, v x)) xs))"
  by (induction xs arbitrary: m) (auto simp: map_add_def fun_eq_iff split: option.splits)

lemma listServers_tags_missing:
  "fst (searchTags d (Tags (Config ex))) = '''' \<or> snd (searchTags d (Tags (Config ex))) = ''''
   \<Longrightarrow> listServers d ex w =
         (Inl (Errorf ''operation can not proceed: cluster/role tags are missing'' []), w)"
  by (auto simp: listServers_def split: prod.splits)

lemma listServers_listed:
  "searchTags d (Tags (Config ex)) = (c, r) \<Longrightarrow> c \<noteq> '''' \<Longrightarrow> r \<noteq> ''''
   \<Longrightarrow> ListServers (Compute ex) '''' (cloud w) = (Inr allServers, s)
   \<Longrightarrow> listServers d ex w =
         (Inr (filter (\<lambda>server. hasKey (srv_Metadata server) c \<and> hasKey (srv_Metadata server) r)
                 allServers),
          \<lparr>cloud = s, calls = calls w @ [ListServers_call '''']\<rparr>)"
  by (simp add: listServers_def request_def)

text \<open>Claim C8, as amended. The two markers being non-empty strings, \<open>ListMachines\<close>
  fails at once, with no request sent, whenever no tag key contains the cluster marker or
  no tag key contains the role marker without containing the cluster marker: a key that
  contains both markers counts as a cluster key only. Otherwise the derived keys are the
  last such keys the loop visits, and when the listing of the servers succeeds the result
  holds exactly the servers whose metadata has both derived keys: its keys are their
  encoded provider IDs, each entry is the name of such a server under its provider ID,
  and when the provider IDs of these servers are distinct every one of them is mapped
  from its provider ID to its name.\<close>

theorem ListMachines_tags:
  assumes markers: "ServerTagClusterPrefix d \<noteq> ''''" "ServerTagRolePrefix d \<noteq> ''''"
    and clusterKeys: "clusterKeys = filter (\<lambda>key. strings_Contains key (ServerTagClusterPrefix d))
                          (map fst (Tags (Config ex)))"
    and roleKeys: "roleKeys = filter (\<lambda>key. \<not> strings_Contains key (ServerTagClusterPrefix d)
                                    \<and> strings_Contains key (ServerTagRolePrefix d))
                       (map fst (Tags (Config ex)))"
  shows "(clusterKeys = [] \<or> roleKeys = [] \<longrightarrow>
            ListMachines d ex w =
              (Inl (Errorf ''operation can not proceed: cluster/role tags are missing'' []), w))
       \<and> (clusterKeys \<noteq> [] \<and> roleKeys \<noteq> [] \<longrightarrow>
            (\<forall>allServers s kept.
               ListServers (Compute ex) '''' (cloud w) = (Inr allServers, s)
               \<and> kept = filter (\<lambda>server. hasKey (srv_Metadata server) (last clusterKeys)
                                     \<and> hasKey (srv_Metadata server) (last roleKeys)) allServers
               \<longrightarrow> (\<exists>result. fst (ListMachines d ex w) = Inr result
                     \<and> dom result =
                         (\<lambda>server. encodeProviderID d (Region (Config ex)) (srv_ID server)) ` set kept
                     \<and> (\<forall>providerID name. result providerID = Some name \<longrightarrow>
                           (\<exists>server \<in> set kept.
                              providerID = encodeProviderID d (Region (Config ex)) (srv_ID server)
                              \<and> name = srv_Name server))
                     \<and> (distinct (map (\<lambda>server. encodeProviderID d (Region (Config ex))
                                                  (srv_ID server)) kept) \<longrightarrow>
                           (\<forall>server \<in> set kept.
                              result (encodeProviderID d (Region (Config ex)) (srv_ID server))
                                = Some (srv_Name server))))))"
proof (intro conjI impI allI)
  assume "clusterKeys = [] \<or> roleKeys = []"
  then have "fst (searchTags d (Tags (Config ex))) = ''''
             \<or> snd (searchTags d (Tags (Config ex))) = ''''"
    using clusterKeys roleKeys by (auto simp: searchTags_last Let_def)
  then show "ListMachines d ex w =
              (Inl (Errorf ''operation can not proceed: cluster/role tags are missing'' []), w)"
    by (simp add: ListMachines_def listServers_tags_missing)
next
  fix allServers s kept
  assume ne: "clusterKeys \<noteq> [] \<and> roleKeys \<noteq> []"
    and h: "ListServers (Compute ex) '''' (cloud w) = (Inr allServers, s)
               \<and> kept = filter (\<lambda>server. hasKey (srv_Metadata server) (last clusterKeys)
                                     \<and> hasKey (srv_Metadata server) (last roleKeys)) allServers"
  let ?pid = "\<lambda>server. encodeProviderID d (Region (Config ex)) (srv_ID server)"
  let ?result = "map_of (rev (map (\<lambda>server. (?pid server, srv_Name server)) kept))"
  have tags: "searchTags d (Tags (Config ex)) = (last clusterKeys, last roleKeys)"
    using ne clusterKeys roleKeys by (simp add: searchTags_last Let_def)
  have "last clusterKeys \<in> set clusterKeys" "last roleKeys \<in> set roleKeys"
    using ne by simp_all
  then have "strings_Contains (last clusterKeys) (ServerTagClusterPrefix d)"
    "strings_Contains (last roleKeys) (ServerTagRolePrefix d)"
    using clusterKeys roleKeys by auto
  then have nonempty: "last clusterKeys \<noteq> ''''" "last roleKeys \<noteq> ''''"
    using markers strings_Contains_nonempty by blast+
  have res: "fst (ListMachines d ex w) = Inr ?result"
    using h listServers_listed [OF tags nonempty, of w allServers s]
    by (simp add: ListMachines_def foldl_map_upd)
  have dom: "dom ?result = ?pid ` set kept"
    by (force simp: dom_map_of_conv_image_fst)
  have entries: "\<forall>providerID name. ?result providerID = Some name \<longrightarrow>
                   (\<exists>server \<in> set kept. providerID = ?pid server \<and> name = srv_Name server)"
    by (auto dest!: map_of_SomeD)
  have each: "distinct (map ?pid kept) \<longrightarrow>
                (\<forall>server \<in> set kept. ?result (?pid server) = Some (srv_Name server))"
  proof (intro impI ballI)
    fix server
    assume dist: "distinct (map ?pid kept)" and mem: "server \<in> set kept"
    have "distinct (map fst (rev (map (\<lambda>server. (?pid server, srv_Name server)) kept)))"
      using dist by (simp add: rev_map [symmetric] comp_def)
    moreover have "(?pid server, srv_Name server)
                     \<in> set (rev (map (\<lambda>server. (?pid server, srv_Name server)) kept))"
      using mem by auto
    ultimately show "?result (?pid server) = Some (srv_Name server)"
      by (rule map_of_is_SomeI)
  qed
  show "\<exists>result. fst (ListMachines d ex w) = Inr result
                     \<and> dom result = ?pid ` set kept
                     \<and> (\<forall>providerID name. result providerID = Some name \<longrightarrow>
                           (\<exists>server \<in> set kept.
                              providerID = ?pid server \<and> name = srv_Name server))
                     \<and> (distinct (map ?pid kept) \<longrightarrow>
                           (\<forall>server \<in> set kept. result (?pid server) = Some (srv_Name server)))"
    using res dom entries each by blast
qed

text \<open>Two runs: with a cluster tag only the call fails and sends nothing; with both tags
  and two servers, one of which has no metadata, the result maps the provider ID of the
  tagged server to its name and has no other entry.\<close>

theorem ListMachines_tags_witness:
  "ListMachines simDecls
      (simExecutor (simConfig\<lparr>Tags := [(''kubernetes.io-cluster-shoot'', ''1'')]\<rparr>))
      (simWorld simCloud)
     = (Inl (Errorf ''operation can not proceed: cluster/role tags are missing'' []),
        simWorld simCloud)
   \<and> (\<exists>result.
         fst (ListMachines simDecls (simExecutor simConfig)
                (simWorld (simCloud\<lparr>sim_servers :=
                   [simServerA, simServerA\<lparr>srv_ID := ''b'', srv_Metadata := []\<rparr>]\<rparr>)))
           = Inr result
         \<and> dom result = {''openstack:///eu/a''}
         \<and> result ''openstack:///eu/a'' = Some ''m1'')"
proof -
  let ?ex1 = "simExecutor (simConfig\<lparr>Tags := [(''kubernetes.io-cluster-shoot'', ''1'')]\<rparr>)"
  let ?ex = "simExecutor simConfig"
  let ?w = "simWorld (simCloud\<lparr>sim_servers :=
                   [simServerA, simServerA\<lparr>srv_ID := ''b'', srv_Metadata := []\<rparr>]\<rparr>)"
  have markers: "ServerTagClusterPrefix simDecls \<noteq> ''''" "ServerTagRolePrefix simDecls \<noteq> ''''"
    by (simp_all add: simDecls_def)
  have c1: "[''kubernetes.io-cluster-shoot''] =
      filter (\<lambda>key. strings_Contains key (ServerTagClusterPrefix simDecls))
        (map fst (Tags (Config ?ex1)))"
    by (simp add: simExecutor_def simConfig_def simDecls_def)
  have r1: "[] =
      filter (\<lambda>key. \<not> strings_Contains key (ServerTagClusterPrefix simDecls)
                 \<and> strings_Contains key (ServerTagRolePrefix simDecls))
        (map fst (Tags (Config ?ex1)))"
    by (simp add: simExecutor_def simConfig_def simDecls_def)
  have c: "[''kubernetes.io-cluster-shoot''] =
      filter (\<lambda>key. strings_Contains key (ServerTagClusterPrefix simDecls))
        (map fst (Tags (Config ?ex)))"
    by (simp add: simExecutor_def simConfig_def simDecls_def)
  have r: "[''kubernetes.io-role-node''] =
      filter (\<lambda>key. \<not> strings_Contains key (ServerTagClusterPrefix simDecls)
                 \<and> strings_Contains key (ServerTagRolePrefix simDecls))
        (map fst (Tags (Config ?ex)))"
    by (simp add: simExecutor_def simConfig_def simDecls_def)
  have l: "ListServers (Compute ?ex) '''' (cloud ?w)
             = (Inr [simServerA, simServerA\<lparr>srv_ID := ''b'', srv_Metadata := []\<rparr>], cloud ?w)"
    by (simp add: simExecutor_def simCompute_def simWorld_def simCloud_def)
  have k: "[simServerA] =
      filter (\<lambda>server. hasKey (srv_Metadata server) (last [''kubernetes.io-cluster-shoot''])
                \<and> hasKey (srv_Metadata server) (last [''kubernetes.io-role-node'']))
        [simServerA, simServerA\<lparr>srv_ID := ''b'', srv_Metadata := []\<rparr>]"
    by (simp add: simServerA_def hasKey_def simConfig_def)
  have p: "encodeProviderID simDecls (Region (Config ?ex)) (srv_ID simServerA) = ''openstack:///eu/a''"
    "srv_Name simServerA = ''m1''"
    by (simp_all add: simDecls_def simExecutor_def simConfig_def simServerA_def)
  have a: "ListMachines simDecls ?ex1 (simWorld simCloud)
     = (Inl (Errorf ''operation can not proceed: cluster/role tags are missing'' []),
        simWorld simCloud)"
    using ListMachines_tags [OF markers c1 r1, of "simWorld simCloud"] by simp
  have "\<exists>result. fst (ListMachines simDecls ?ex ?w) = Inr result
         \<and> dom result = (\<lambda>server. encodeProviderID simDecls (Region (Config ?ex)) (srv_ID server))
                          ` set [simServerA]
         \<and> (\<forall>providerID name. result providerID = Some name \<longrightarrow>
               (\<exists>server \<in> set [simServerA].
                  providerID = encodeProviderID simDecls (Region (Config ?ex)) (srv_ID server)
                  \<and> name = srv_Name server))
         \<and> (distinct (map (\<lambda>server. encodeProviderID simDecls (Region (Config ?ex))
                                      (srv_ID server)) [simServerA]) \<longrightarrow>
               (\<forall>server \<in> set [simServerA].
                  result (encodeProviderID simDecls (Region (Config ?ex)) (srv_ID server))
                    = Some (srv_Name server)))"
    using conjunct2 [OF ListMachines_tags [OF markers c r, of ?w], rule_format,
            of "[simServerA, simServerA\<lparr>srv_ID := ''b'', srv_Metadata := []\<rparr>]" "cloud ?w"
               "[simServerA]"]
      l k c r by blast
  then obtain result where res: "fst (ListMachines simDecls ?ex ?w) = Inr result"
    and dom: "dom result = (\<lambda>server. encodeProviderID simDecls (Region (Config ?ex)) (srv_ID server))
                          ` set [simServerA]"
    and each: "distinct (map (\<lambda>server. encodeProviderID simDecls (Region (Config ?ex))
                                      (srv_ID server)) [simServerA]) \<longrightarrow>
               (\<forall>server \<in> set [simServerA].
                  result (encodeProviderID simDecls (Region (Config ?ex)) (srv_ID server))
                    = Some (srv_Name server))"
    by blast
  have "dom result = {''openstack:///eu/a''}" using dom p by simp
  moreover have "result ''openstack:///eu/a'' = Some ''m1''" using each p by simp
  ultimately have b: "\<exists>result. fst (ListMachines simDecls ?ex ?w) = Inr result
         \<and> dom result = {''openstack:///eu/a''}
         \<and> result ''openstack:///eu/a'' = Some ''m1''"
    using res by blast
  show ?thesis using a b by simp
qed


text \<open>Claim C8 as it was stated fails: here a tag key contains the cluster marker and a
  tag key contains the role marker (the same key contains both), the listing of the
  servers would succeed, and \<open>ListMachines\<close> fails all the same.\<close>

theorem ListMachines_key_with_both_markers:
  "(\<exists>key \<in> set (map fst [(''kubernetes.io-cluster-kubernetes.io-role-node'', ''1'')]).
      strings_Contains key (ServerTagClusterPrefix simDecls))
   \<and> (\<exists>key \<in> set (map fst [(''kubernetes.io-cluster-kubernetes.io-role-node'', ''1'')]).
      strings_Contains key (ServerTagRolePrefix simDecls))
   \<and> ListServers (Compute (simExecutor
          (simConfig\<lparr>Tags := [(''kubernetes.io-cluster-kubernetes.io-role-node'', ''1'')]\<rparr>)))
        '''' (cloud (simWorld simCloud)) = (Inr [], simCloud)
   \<and> ListMachines simDecls
        (simExecutor (simConfig\<lparr>Tags := [(''kubernetes.io-cluster-kubernetes.io-role-node'', ''1'')]\<rparr>))
        (simWorld simCloud)
     = (Inl (Errorf ''operation can not proceed: cluster/role tags are missing'' []),
        simWorld simCloud)"
  by (simp add: simDecls_def ListMachines_def listServers_def searchTags_def simExecutor_def
        simConfig_def simCompute_def simWorld_def simCloud_def)

subsection \<open>The pod-network patch\<close>

lemma strings_Split_nonempty: "strings_Split s sep \<noteq> []"
  by (induction s) (auto split: list.splits)

lemma addressPairFound_iff:
  "addressPairFound ex port \<longleftrightarrow>
     set (port_AllowedAddressPairs port)
       \<inter> set (strings_Split (PodNetworkCidr (Config ex)) CHR '','') \<noteq> {}"
  by (auto simp: addressPairFound_def list_ex_iff)

lemma patchServerPortsForPodNetwork_ports_calls:
  "patchServerPortsForPodNetwork_ports ex podNetworkIDs ports w = (res, w') \<Longrightarrow>
   \<exists>n. calls w' = calls w @
         map (\<lambda>port. UpdatePort_call (port_ID port)
                       (strings_Split (PodNetworkCidr (Config ex)) CHR '',''))
           (take n (filter (\<lambda>port. port_NetworkID port \<in> podNetworkIDs
                                    \<and> \<not> addressPairFound ex port) ports))
       \<and> (res = None \<longrightarrow>
            n = length (filter (\<lambda>port. port_NetworkID port \<in> podNetworkIDs
                                        \<and> \<not> addressPairFound ex port) ports))"
proof (induction ports arbitrary: w)
  case Nil
  then show ?case by simp
next
  case (Cons port rest)
  let ?needs = "\<lambda>port. port_NetworkID port \<in> podNetworkIDs \<and> \<not> addressPairFound ex port"
  let ?upd = "\<lambda>port. UpdatePort_call (port_ID port)
                       (strings_Split (PodNetworkCidr (Config ex)) CHR '','')"
  show ?case
  proof (cases "?needs port")
    case False
    then have "patchServerPortsForPodNetwork_ports ex podNetworkIDs rest w = (res, w')"
      using Cons.prems by (auto split: if_splits)
    moreover have "filter ?needs (port # rest) = filter ?needs rest"
      using False by simp
    ultimately show ?thesis using Cons.IH by presburger
  next
    case True
    obtain r w1 where req: "request (?upd port)
        (UpdatePort (Network ex) (port_ID port)
           (strings_Split (PodNetworkCidr (Config ex)) CHR '','')) w = (r, w1)"
      by (metis surj_pair)
    have c1: "calls w1 = calls w @ [?upd port]" using request_calls [OF req] .
    show ?thesis
    proof (cases r)
      case (Some err)
      then have "w' = w1" "res \<noteq> None" using Cons.prems True req by auto
      then have "calls w' = calls w @ map ?upd (take 1 (filter ?needs (port # rest)))
                 \<and> (res = None \<longrightarrow> 1 = length (filter ?needs (port # rest)))"
        using c1 True by auto
      then show ?thesis by blast
    next
      case None
      then have "patchServerPortsForPodNetwork_ports ex podNetworkIDs rest w1 = (res, w')"
        using Cons.prems True req by auto
      from Cons.IH [OF this] obtain n where
        n: "calls w' = calls w1 @ map ?upd (take n (filter ?needs rest))"
           "res = None \<longrightarrow> n = length (filter ?needs rest)"
        by blast
      have "calls w' = calls w @ map ?upd (take (Suc n) (filter ?needs (port # rest)))
            \<and> (res = None \<longrightarrow> Suc n = length (filter ?needs (port # rest)))"
        using n c1 True by simp
      then show ?thesis by blast
    qed
  qed
qed

text \<open>Claim C2, as amended. In the pod-network patch, after the ports of the server were
  listed and the pod-carrying networks resolved, the update requests go, in the order of
  the port list, to the ports that are on a pod-carrying network and whose allow-list
  holds none of the configured pod CIDRs, each request carrying the full list of the
  configured CIDRs; the requests stop at the first one that fails, and a patch that
  succeeds has sent one to each such port. A port whose allow-list holds at least one
  configured CIDR, in particular one that holds all of them, gets no request.\<close>

theorem patchServerPortsForPodNetwork_updates:
  assumes ports: "ListPorts (Network ex) serverID (cloud w) = (Inr allPorts, s1)"
    and nonempty: "allPorts \<noteq> []"
    and ids: "resolveNetworkIDsForPodNetwork d ex
                \<lparr>cloud = s1, calls = calls w @ [ListPorts_call serverID]\<rparr>
              = (Inr podNetworkIDs, w2)"
    and run: "patchServerPortsForPodNetwork d ex serverID w = (res, w')"
    and podCidrs: "podCidrs = strings_Split (PodNetworkCidr (Config ex)) CHR '',''"
    and toPatch: "toPatch = filter (\<lambda>port. port_NetworkID port \<in> podNetworkIDs
                      \<and> set (port_AllowedAddressPairs port) \<inter> set podCidrs = {}) allPorts"
  shows "(\<exists>n. calls w' = calls w2 @
                 map (\<lambda>port. UpdatePort_call (port_ID port) podCidrs) (take n toPatch)
              \<and> (res = None \<longrightarrow> n = length toPatch))
         \<and> (\<forall>port. set podCidrs \<subseteq> set (port_AllowedAddressPairs port) \<longrightarrow> port \<notin> set toPatch)
         \<and> (\<forall>port \<in> set allPorts.
               port_NetworkID port \<in> podNetworkIDs
               \<and> set (port_AllowedAddressPairs port) \<inter> set podCidrs = {}
               \<longrightarrow> port \<in> set toPatch)"
proof -
  have loop: "patchServerPortsForPodNetwork_ports ex podNetworkIDs allPorts w2 = (res, w')"
    using run nonempty by (simp add: patchServerPortsForPodNetwork_def request_def ports ids)
  have same: "(\<lambda>port. port_NetworkID port \<in> podNetworkIDs \<and> \<not> addressPairFound ex port)
              = (\<lambda>port. port_NetworkID port \<in> podNetworkIDs
                      \<and> set (port_AllowedAddressPairs port) \<inter> set podCidrs = {})"
    by (simp add: addressPairFound_iff podCidrs)
  have a: "\<exists>n. calls w' = calls w2 @
                 map (\<lambda>port. UpdatePort_call (port_ID port) podCidrs) (take n toPatch)
              \<and> (res = None \<longrightarrow> n = length toPatch)"
    using patchServerPortsForPodNetwork_ports_calls [OF loop]
    unfolding same toPatch podCidrs by simp
  have "podCidrs \<noteq> []" using strings_Split_nonempty podCidrs by simp
  then obtain podCidr where "podCidr \<in> set podCidrs" by (cases podCidrs) auto
  then have b: "\<forall>port. set podCidrs \<subseteq> set (port_AllowedAddressPairs port)
                  \<longrightarrow> port \<notin> set toPatch"
    unfolding toPatch by auto
  have c: "\<forall>port \<in> set allPorts.
               port_NetworkID port \<in> podNetworkIDs
               \<and> set (port_AllowedAddressPairs port) \<inter> set podCidrs = {}
               \<longrightarrow> port \<in> set toPatch"
    unfolding toPatch by simp
  show ?thesis using a b c by blast
qed
lemma simTwoCidrs:
  "strings_Split (PodNetworkCidr (Config (simExecutor simConfigTwoCidrs))) CHR '',''
     = [''10.0.0.0/8'', ''fd00::/8'']"
  by (simp add: simExecutor_def simConfigTwoCidrs_def simConfig_def)

text \<open>A run with two pod CIDRs configured and two ports on the pod network: the port that
  holds the first CIDR gets no request, the port that holds none gets one with both
  CIDRs.\<close>

theorem patchServerPortsForPodNetwork_updates_witness:
  "patchServerPortsForPodNetwork simDecls (simExecutor simConfigTwoCidrs) ''a''
      (simWorld (simCloud\<lparr>sim_ports := [simPort ''p1'' [''10.0.0.0/8''], simPort ''p2'' []]\<rparr>))
     = (None,
        \<lparr>cloud = simCloud\<lparr>sim_ports := [simPort ''p1'' [''10.0.0.0/8''],
                                         simPort ''p2'' [''10.0.0.0/8'', ''fd00::/8'']]\<rparr>,
          calls = [ListPorts_call ''a'',
                   UpdatePort_call ''p2'' [''10.0.0.0/8'', ''fd00::/8'']]\<rparr>)
   \<and> (\<exists>n. [ListPorts_call ''a'', UpdatePort_call ''p2'' [''10.0.0.0/8'', ''fd00::/8'']]
            = [ListPorts_call ''a'']
              @ map (\<lambda>port. UpdatePort_call (port_ID port) [''10.0.0.0/8'', ''fd00::/8''])
                  (take n [simPort ''p2'' []])
          \<and> n = length [simPort ''p2'' []])"
proof -
  let ?ex = "simExecutor simConfigTwoCidrs"
  let ?ports = "[simPort ''p1'' [''10.0.0.0/8''], simPort ''p2'' []]"
  let ?s = "simCloud\<lparr>sim_ports := ?ports\<rparr>"
  let ?w' = "\<lparr>cloud = simCloud\<lparr>sim_ports := [simPort ''p1'' [''10.0.0.0/8''],
                                         simPort ''p2'' [''10.0.0.0/8'', ''fd00::/8'']]\<rparr>,
          calls = [ListPorts_call ''a'',
                   UpdatePort_call ''p2'' [''10.0.0.0/8'', ''fd00::/8'']]\<rparr>"
  have ports: "ListPorts (Network ?ex) ''a'' (cloud (simWorld ?s)) = (Inr ?ports, ?s)"
    by (simp add: simExecutor_def simNetwork_def simWorld_def simCloud_def simPort_def)
  have ids: "resolveNetworkIDsForPodNetwork simDecls ?ex
               \<lparr>cloud = ?s, calls = calls (simWorld ?s) @ [ListPorts_call ''a'']\<rparr>
             = (Inr {''N''}, \<lparr>cloud = ?s, calls = [ListPorts_call ''a'']\<rparr>)"
    by (simp add: resolveNetworkIDsForPodNetwork_def simDecls_def simExecutor_def
          simConfigTwoCidrs_def simConfig_def simWorld_def)
  have loop: "patchServerPortsForPodNetwork_ports ?ex {''N''} ?ports
                \<lparr>cloud = ?s, calls = [ListPorts_call ''a'']\<rparr> = (None, ?w')"
    by (simp add: addressPairFound_def simTwoCidrs request_def simPort_def)
       (simp add: simExecutor_def simNetwork_def simCloud_def)
  have run: "patchServerPortsForPodNetwork simDecls ?ex ''a'' (simWorld ?s) = (None, ?w')"
    using ids loop
    by (simp add: patchServerPortsForPodNetwork_def request_def ports)
  have toPatch: "[simPort ''p2'' []] =
      filter (\<lambda>port. port_NetworkID port \<in> {''N''}
                \<and> set (port_AllowedAddressPairs port) \<inter> set [''10.0.0.0/8'', ''fd00::/8''] = {})
        ?ports"
    by (simp add: simPort_def)
  have "\<exists>n. calls ?w' = calls \<lparr>cloud = ?s, calls = [ListPorts_call ''a'']\<rparr> @
                 map (\<lambda>port. UpdatePort_call (port_ID port) [''10.0.0.0/8'', ''fd00::/8''])
                   (take n [simPort ''p2'' []])
              \<and> (None = (None :: error option) \<longrightarrow> n = length [simPort ''p2'' []])"
    using conjunct1 [OF patchServerPortsForPodNetwork_updates
                          [OF ports _ ids run simTwoCidrs [symmetric] toPatch]]
    by simp
  then show ?thesis using run by simp
qed

text \<open>Claim C2 as it was stated fails: the port is on the pod-carrying network and its
  allow-list misses the second of the two configured pod CIDRs, but the patch succeeds
  after the listing alone, with no update request, and leaves the port as it was.\<close>

theorem patchServerPortsForPodNetwork_one_of_two:
  "strings_Split (PodNetworkCidr (Config (simExecutor simConfigTwoCidrs))) CHR '',''
     = [''10.0.0.0/8'', ''fd00::/8'']
   \<and> port_NetworkID (simPort ''p1'' [''10.0.0.0/8'']) = NetworkID simConfigTwoCidrs
   \<and> ''fd00::/8'' \<notin> set (port_AllowedAddressPairs (simPort ''p1'' [''10.0.0.0/8'']))
   \<and> patchServerPortsForPodNetwork simDecls (simExecutor simConfigTwoCidrs) ''a''
        (simWorld (simCloud\<lparr>sim_ports := [simPort ''p1'' [''10.0.0.0/8'']]\<rparr>))
      = (None, \<lparr>cloud = simCloud\<lparr>sim_ports := [simPort ''p1'' [''10.0.0.0/8'']]\<rparr>,
                calls = [ListPorts_call ''a'']\<rparr>)"
proof -
  let ?ex = "simExecutor simConfigTwoCidrs"
  let ?s = "simCloud\<lparr>sim_ports := [simPort ''p1'' [''10.0.0.0/8'']]\<rparr>"
  have ports: "ListPorts (Network ?ex) ''a'' (cloud (simWorld ?s))
                 = (Inr [simPort ''p1'' [''10.0.0.0/8'']], ?s)"
    by (simp add: simExecutor_def simNetwork_def simWorld_def simCloud_def simPort_def)
  have ids: "resolveNetworkIDsForPodNetwork simDecls ?ex
               \<lparr>cloud = ?s, calls = calls (simWorld ?s) @ [ListPorts_call ''a'']\<rparr>
             = (Inr {''N''}, \<lparr>cloud = ?s, calls = [ListPorts_call ''a'']\<rparr>)"
    by (simp add: resolveNetworkIDsForPodNetwork_def simDecls_def simExecutor_def
          simConfigTwoCidrs_def simConfig_def simWorld_def)
  have loop: "patchServerPortsForPodNetwork_ports ?ex {''N''} [simPort ''p1'' [''10.0.0.0/8'']]
                \<lparr>cloud = ?s, calls = [ListPorts_call ''a'']\<rparr>
              = (None, \<lparr>cloud = ?s, calls = [ListPorts_call ''a'']\<rparr>)"
    by (simp add: addressPairFound_def simTwoCidrs simPort_def)
  have run: "patchServerPortsForPodNetwork simDecls ?ex ''a'' (simWorld ?s)
               = (None, \<lparr>cloud = ?s, calls = [ListPorts_call ''a'']\<rparr>)"
    using ids loop
    by (simp add: patchServerPortsForPodNetwork_def request_def ports)
  show ?thesis
    using run simTwoCidrs by (simp add: simPort_def simConfigTwoCidrs_def simConfig_def)
qed

subsection \<open>The operations of the small platform\<close>

lemma simExecutor_fields:
  "Storage (simExecutor config) = simStorage" "Compute (simExecutor config) = simCompute"
  "Network (simExecutor config) = simNetwork" "Config (simExecutor config) = config"
  by (simp_all add: simExecutor_def)

lemma simCompute_ops:
  "GetServer simCompute i s =
     (if ''GetServer'' \<in> set (sim_down s) then (Inl (ErrPlatform ''GetServer''), s)
      else (case find (\<lambda>x. srv_ID x = i) (sim_servers s) of
              None \<Rightarrow> (Inl (Err404 i), s)
            | Some x \<Rightarrow>
                (case sim_polls s of
                   [] \<Rightarrow> (Inr x, s)
                 | st # rest \<Rightarrow> (Inr (x\<lparr>srv_Status := st\<rparr>), s\<lparr>sim_polls := rest\<rparr>))))"
  "ListServers simCompute name s =
     (if ''ListServers'' \<in> set (sim_down s) then (Inl (ErrPlatform ''ListServers''), s)
      else (Inr (filter (\<lambda>x. name = '''' \<or> srv_Name x = name) (sim_servers s)), s))"
  "CreateServer simCompute = sim_boot ''CreateServer''"
  "BootFromVolume simCompute = sim_boot ''BootFromVolume''"
  "DeleteServer simCompute i s =
     (if ''DeleteServer'' \<in> set (sim_down s) then (Some (ErrPlatform ''DeleteServer''), s)
      else (None, s\<lparr>sim_servers := filter (\<lambda>x. srv_ID x \<noteq> i) (sim_servers s)\<rparr>))"
  "ImageIDFromName simCompute name s =
     (if ''ImageIDFromName'' \<in> set (sim_down s)
      then (Inl (ErrPlatform ''ImageIDFromName''), s) else (Inr (''image-'' @ name), s))"
  "FlavorIDFromName simCompute name s =
     (if ''FlavorIDFromName'' \<in> set (sim_down s)
      then (Inl (ErrPlatform ''FlavorIDFromName''), s) else (Inr (''flavor-'' @ name), s))"
  by (simp_all add: simCompute_def)

lemma simNetwork_ops:
  "GetSubnet simNetwork i s =
     (if ''GetSubnet'' \<in> set (sim_down s) then (Some (ErrPlatform ''GetSubnet''), s)
      else (None, s))"
  "PortIDFromName simNetwork name s =
     (if ''PortIDFromName'' \<in> set (sim_down s) then (Inl (ErrPlatform ''PortIDFromName''), s)
      else (case find (\<lambda>p. port_Name p = name) (sim_ports s) of
              None \<Rightarrow> (Inl (Err404 name), s)
            | Some p \<Rightarrow> (Inr (port_ID p), s)))"
  "CreatePort simNetwork opts s =
     (if ''CreatePort'' \<in> set (sim_down s) then (Inl (ErrPlatform ''CreatePort''), s)
      else (Inr \<lparr>port_ID = ''port-'' @ pco_Name opts, port_Name = pco_Name opts,
                 port_NetworkID = pco_NetworkID opts, port_DeviceID = '''',
                 port_AllowedAddressPairs = pco_AllowedAddressPairs opts\<rparr>,
            s\<lparr>sim_ports := sim_ports s @
                [\<lparr>port_ID = ''port-'' @ pco_Name opts, port_Name = pco_Name opts,
                  port_NetworkID = pco_NetworkID opts, port_DeviceID = '''',
                  port_AllowedAddressPairs = pco_AllowedAddressPairs opts\<rparr>]\<rparr>))"
  "DeletePort simNetwork i s =
     (if ''DeletePort'' \<in> set (sim_down s) then (Some (ErrPlatform ''DeletePort''), s)
      else (None, s\<lparr>sim_ports := filter (\<lambda>p. port_ID p \<noteq> i) (sim_ports s)\<rparr>))"
  "ListPorts simNetwork deviceID s =
     (if ''ListPorts'' \<in> set (sim_down s) then (Inl (ErrPlatform ''ListPorts''), s)
      else (Inr (filter (\<lambda>p. port_DeviceID p = deviceID) (sim_ports s)), s))"
  "UpdatePort simNetwork i pairs s =
     (if ''UpdatePort'' \<in> set (sim_down s) then (Some (ErrPlatform ''UpdatePort''), s)
      else (None, s\<lparr>sim_ports :=
              map (\<lambda>p. if port_ID p = i then p\<lparr>port_AllowedAddressPairs := pairs\<rparr> else p)
                (sim_ports s)\<rparr>))"
  "NetworkIDFromName simNetwork name s =
     (if ''NetworkIDFromName'' \<in> set (sim_down s)
      then (Inl (ErrPlatform ''NetworkIDFromName''), s) else (Inr (''net-'' @ name), s))"
  "GroupIDFromName simNetwork name s =
     (if ''GroupIDFromName'' \<in> set (sim_down s)
      then (Inl (ErrPlatform ''GroupIDFromName''), s) else (Inr (''sg-'' @ name), s))"
  by (simp_all add: simNetwork_def Let_def)

lemma simStorage_ops:
  "ListVolumes simStorage name s =
     (if ''ListVolumes'' \<in> set (sim_down s) then (([], Some (ErrPlatform ''ListVolumes'')), s)
      else ((filter (\<lambda>v. vol_Name v = name) (sim_volumes s), None), s))"
  "GetVolume simStorage i s =
     (if ''GetVolume'' \<in> set (sim_down s) then (Inl (ErrPlatform ''GetVolume''), s)
      else (case find (\<lambda>v. vol_ID v = i) (sim_volumes s) of
              None \<Rightarrow> (Inl (Err404 i), s)
            | Some v \<Rightarrow>
                (case sim_polls s of
                   [] \<Rightarrow> (Inr v, s)
                 | st # rest \<Rightarrow> (Inr (v\<lparr>vol_Status := st\<rparr>), s\<lparr>sim_polls := rest\<rparr>))))"
  "CreateVolume simStorage opts s =
     (if ''CreateVolume'' \<in> set (sim_down s) then (Inl (ErrPlatform ''CreateVolume''), s)
      else (Inr \<lparr>vol_ID = ''vol-'' @ vco_Name opts, vol_Name = vco_Name opts,
                 vol_Status = VolumeStatusAvailable\<rparr>,
            s\<lparr>sim_volumes := sim_volumes s @
                [\<lparr>vol_ID = ''vol-'' @ vco_Name opts, vol_Name = vco_Name opts,
                  vol_Status = VolumeStatusAvailable\<rparr>]\<rparr>))"
  "DeleteVolume simStorage i cascade s =
     (if ''DeleteVolume'' \<in> set (sim_down s) then (Some (ErrPlatform ''DeleteVolume''), s)
      else (None, s\<lparr>sim_volumes := filter (\<lambda>v. vol_ID v \<noteq> i) (sim_volumes s)\<rparr>))"
  by (simp_all add: simStorage_def Let_def)

lemma sim_getSubnetIDs:
  "getSubnetIDs (simExecutor config) =
     sort (remdups (SubnetIDs config @
                    (case SubnetID config of None \<Rightarrow> [] | Some subnetID \<Rightarrow> [subnetID])))"
  by (simp add: getSubnetIDs_def simExecutor_fields)

lemmas sim_ops = simExecutor_fields simCompute_ops simNetwork_ops simStorage_ops
  sim_getSubnetIDs

lemma simDecls_fields:
  "isEmptyString simDecls ptr = (case ptr of None \<Rightarrow> True | Some s \<Rightarrow> s = '''')"
  "encodeProviderID simDecls region machineID = ''openstack:///'' @ region @ ''/'' @ machineID"
  "ServerTagClusterPrefix simDecls = ''kubernetes.io-cluster-''"
  "ServerTagRolePrefix simDecls = ''kubernetes.io-role-''"
  by (simp_all add: simDecls_def)

subsection \<open>Network resolution\<close>

lemma resolveServerNetworks_subnets_calls:
  "resolveServerNetworks_subnets ex ids w = (res, w1) \<Longrightarrow>
   (res = None \<longrightarrow> calls w1 = calls w @ map GetSubnet_call ids)
   \<and> (\<forall>err. res = Some err \<longrightarrow>
         (\<exists>n < length ids. \<exists>s s'.
            GetSubnet (Network ex) (ids ! n) s = (Some err, s')
            \<and> calls w1 = calls w @ map GetSubnet_call (take (Suc n) ids)))"
proof (induction ids arbitrary: w)
  case Nil
  then show ?case by simp
next
  case (Cons subnetID rest)
  obtain r w' where req:
    "request (GetSubnet_call subnetID) (GetSubnet (Network ex) subnetID) w = (r, w')"
    by (metis surj_pair)
  have c: "calls w' = calls w @ [GetSubnet_call subnetID]" using request_calls [OF req] .
  show ?case
  proof (cases r)
    case (Some err)
    then have eq: "res = Some err" "w1 = w'" using Cons.prems req by auto
    have "GetSubnet (Network ex) subnetID (cloud w) = (Some err, cloud w')"
      using req Some by (auto simp: request_def split: prod.splits)
    then have "\<exists>s s'. GetSubnet (Network ex) ((subnetID # rest) ! 0) s = (Some err, s')
                \<and> calls w1 = calls w @ map GetSubnet_call (take (Suc 0) (subnetID # rest))"
      using c eq by auto
    then show ?thesis using eq by blast
  next
    case None
    then have rec: "resolveServerNetworks_subnets ex rest w' = (res, w1)"
      using Cons.prems req by auto
    note ih = Cons.IH [OF rec]
    have a: "res = None \<longrightarrow> calls w1 = calls w @ map GetSubnet_call (subnetID # rest)"
      using ih c by simp
    have b: "\<forall>err. res = Some err \<longrightarrow>
         (\<exists>n < length (subnetID # rest). \<exists>s s'.
            GetSubnet (Network ex) ((subnetID # rest) ! n) s = (Some err, s')
            \<and> calls w1 = calls w @ map GetSubnet_call (take (Suc n) (subnetID # rest)))"
    proof (intro allI impI)
      fix err assume "res = Some err"
      then obtain n s s' where n: "n < length rest"
        "GetSubnet (Network ex) (rest ! n) s = (Some err, s')"
        "calls w1 = calls w' @ map GetSubnet_call (take (Suc n) rest)"
        using ih by blast
      then have "Suc n < length (subnetID # rest)
          \<and> GetSubnet (Network ex) ((subnetID # rest) ! Suc n) s = (Some err, s')
          \<and> calls w1 = calls w @ map GetSubnet_call (take (Suc (Suc n)) (subnetID # rest))"
        using c by simp
      then show "\<exists>n < length (subnetID # rest). \<exists>s s'.
            GetSubnet (Network ex) ((subnetID # rest) ! n) s = (Some err, s')
            \<and> calls w1 = calls w @ map GetSubnet_call (take (Suc n) (subnetID # rest))"
        by blast
    qed
    show ?thesis using a b by blast
  qed
qed

lemma resolveServerNetworks_subnets_missing:
  "subnetID \<in> set ids \<Longrightarrow> \<forall>s. fst (GetSubnet (Network ex) subnetID s) \<noteq> None
   \<Longrightarrow> fst (resolveServerNetworks_subnets ex ids w) \<noteq> None"
proof (induction ids arbitrary: w)
  case Nil
  then show ?case by simp
next
  case (Cons a rest)
  obtain r s' where g: "GetSubnet (Network ex) a (cloud w) = (r, s')" by (metis surj_pair)
  show ?case
  proof (cases r)
    case (Some err)
    then show ?thesis using g by (simp add: request_def)
  next
    case None
    then have "a \<noteq> subnetID" using g Cons.prems(2) by (metis fst_conv)
    then have "subnetID \<in> set rest" using Cons.prems(1) by simp
    from Cons.IH [OF this Cons.prems(2)] show ?thesis using g None by (simp add: request_def)
  qed
qed

lemma resolveServerNetworks_networks_result:
  "resolveServerNetworks_networks d ex networks serverNetworks w = (Inr nets, w1) \<Longrightarrow>
   (\<exists>resolved. nets = serverNetworks @ resolved
      \<and> length resolved = length networks
      \<and> (\<forall>i < length networks.
            net_Port (resolved ! i) = ''''
            \<and> (\<not> isEmptyString d (Some (osn_Id (networks ! i)))
                 \<longrightarrow> net_UUID (resolved ! i) = osn_Id (networks ! i))))
   \<and> calls w1 = calls w @
        map (\<lambda>network. NetworkIDFromName_call (osn_Name network))
          (filter (\<lambda>network. isEmptyString d (Some (osn_Id network))) networks)"
proof (induction networks arbitrary: serverNetworks w)
  case Nil
  then show ?case by simp
next
  case (Cons network rest)
  show ?case
  proof (cases "isEmptyString d (Some (osn_Id network))")
    case False
    let ?n = "\<lparr>net_UUID = osn_Id network, net_Port = ''''\<rparr>"
    have rec: "resolveServerNetworks_networks d ex rest (serverNetworks @ [?n]) w = (Inr nets, w1)"
      using Cons.prems False by simp
    from Cons.IH [OF rec] obtain resolved where r:
      "nets = (serverNetworks @ [?n]) @ resolved" "length resolved = length rest"
      "\<forall>i < length rest. net_Port (resolved ! i) = ''''
            \<and> (\<not> isEmptyString d (Some (osn_Id (rest ! i)))
                 \<longrightarrow> net_UUID (resolved ! i) = osn_Id (rest ! i))"
      and c: "calls w1 = calls w @
        map (\<lambda>network. NetworkIDFromName_call (osn_Name network))
          (filter (\<lambda>network. isEmptyString d (Some (osn_Id network))) rest)"
      by blast
    have "nets = serverNetworks @ (?n # resolved) \<and> length (?n # resolved) = length (network # rest)
      \<and> (\<forall>i < length (network # rest).
            net_Port ((?n # resolved) ! i) = ''''
            \<and> (\<not> isEmptyString d (Some (osn_Id ((network # rest) ! i)))
                 \<longrightarrow> net_UUID ((?n # resolved) ! i) = osn_Id ((network # rest) ! i)))"
      using r by (auto simp: nth_Cons split: nat.splits)
    then show ?thesis using c False by (metis (no_types, lifting) filter.simps(2))
  next
    case True
    obtain r w' where req: "request (NetworkIDFromName_call (osn_Name network))
                    (NetworkIDFromName (Network ex) (osn_Name network)) w = (r, w')"
      by (metis surj_pair)
    have cw: "calls w' = calls w @ [NetworkIDFromName_call (osn_Name network)]"
      using request_calls [OF req] .
    obtain resolvedNetworkID where rid: "r = Inr resolvedNetworkID"
      using Cons.prems True req by (cases r) auto
    let ?n = "\<lparr>net_UUID = resolvedNetworkID, net_Port = ''''\<rparr>"
    have rec: "resolveServerNetworks_networks d ex rest (serverNetworks @ [?n]) w' = (Inr nets, w1)"
      using Cons.prems True req rid by simp
    from Cons.IH [OF rec] obtain resolved where r:
      "nets = (serverNetworks @ [?n]) @ resolved" "length resolved = length rest"
      "\<forall>i < length rest. net_Port (resolved ! i) = ''''
            \<and> (\<not> isEmptyString d (Some (osn_Id (rest ! i)))
                 \<longrightarrow> net_UUID (resolved ! i) = osn_Id (rest ! i))"
      and c: "calls w1 = calls w' @
        map (\<lambda>network. NetworkIDFromName_call (osn_Name network))
          (filter (\<lambda>network. isEmptyString d (Some (osn_Id network))) rest)"
      by blast
    have "nets = serverNetworks @ (?n # resolved) \<and> length (?n # resolved) = length (network # rest)
      \<and> (\<forall>i < length (network # rest).
            net_Port ((?n # resolved) ! i) = ''''
            \<and> (\<not> isEmptyString d (Some (osn_Id ((network # rest) ! i)))
                 \<longrightarrow> net_UUID ((?n # resolved) ! i) = osn_Id ((network # rest) ! i)))"
      using r True by (auto simp: nth_Cons split: nat.splits)
    moreover have "calls w1 = calls w @
        map (\<lambda>network. NetworkIDFromName_call (osn_Name network))
          (filter (\<lambda>network. isEmptyString d (Some (osn_Id network))) (network # rest))"
      using c cw True by simp
    ultimately show ?thesis by blast
  qed
qed

lemma resolveServerNetworks_networks_lookup:
  assumes "\<forall>network \<in> set networks.
             NetworkIDFromName (Network ex) (osn_Name network) (cloud w)
               = (Inr (lookup (osn_Name network)), cloud w)"
  shows "fst (resolveServerNetworks_networks d ex networks serverNetworks w) =
           Inr (serverNetworks @
                map (\<lambda>network.
                       \<lparr>net_UUID = (if isEmptyString d (Some (osn_Id network))
                                    then lookup (osn_Name network) else osn_Id network),
                        net_Port = ''''\<rparr>) networks)"
  using assms
proof (induction networks arbitrary: serverNetworks w)
  case Nil
  then show ?case by simp
next
  case (Cons network rest)
  show ?case
  proof (cases "isEmptyString d (Some (osn_Id network))")
    case False
    then show ?thesis using Cons by simp
  next
    case True
    let ?w1 = "\<lparr>cloud = cloud w,
                calls = calls w @ [NetworkIDFromName_call (osn_Name network)]\<rparr>"
    have "\<forall>network \<in> set rest.
             NetworkIDFromName (Network ex) (osn_Name network) (cloud ?w1)
               = (Inr (lookup (osn_Name network)), cloud ?w1)"
      using Cons.prems by simp
    from Cons.IH [OF this] show ?thesis using True Cons.prems by (simp add: request_def)
  qed
qed

lemma set_getSubnetIDs:
  "set (getSubnetIDs ex) = set (SubnetIDs (Config ex)) \<union> set_option (SubnetID (Config ex))"
  by (auto simp: getSubnetIDs_def split: option.splits)

lemma getOrCreatePort_found:
  "PortIDFromName (Network ex) machineName (cloud w) = (Inr portID, s) \<Longrightarrow>
   getOrCreatePort ex machineName w =
     (Inr portID, \<lparr>cloud = s, calls = calls w @ [PortIDFromName_call machineName]\<rparr>)"
  by (simp add: getOrCreatePort_def request_def)

lemma getOrCreatePort_created:
  "PortIDFromName (Network ex) machineName (cloud w) = (Inl err, s) \<Longrightarrow>
   IsNotFoundError (Some err) \<Longrightarrow>
   getOrCreatePort_groups ex (SecurityGroups (Config ex)) []
     \<lparr>cloud = s, calls = calls w @ [PortIDFromName_call machineName]\<rparr> = (Inr groupIDs, w2) \<Longrightarrow>
   opts = \<lparr>pco_Name = machineName, pco_NetworkID = NetworkID (Config ex),
           pco_FixedIPs = getSubnetIDs ex,
           pco_AllowedAddressPairs = strings_Split (PodNetworkCidr (Config ex)) CHR '','',
           pco_SecurityGroups = groupIDs\<rparr> \<Longrightarrow>
   CreatePort (Network ex) opts (cloud w2) = (Inr port, s3) \<Longrightarrow>
   getOrCreatePort ex machineName w =
     (Inr (port_ID port), \<lparr>cloud = s3, calls = calls w2 @ [CreatePort_call opts]\<rparr>)"
  by (simp add: getOrCreatePort_def request_def Let_def)

text \<open>Claim C7. \<open>resolveServerNetworks\<close> works in three modes, in this order.
  (a) With a network ID and at least one subnet ID configured (the configured subnet IDs,
  sorted and without repetition): one subnet request per subnet, in order; the first
  failing one ends the resolution with its error, before any port request, and a subnet
  that the platform never finds makes the resolution fail; with all subnets found, the
  port of the machine name is fetched or created and the result is the one attachment
  that carries the network ID and that port ID. Fetching or creating the port: a port
  found by name is returned with no creation; when the lookup answers not-found, a port
  is created on the configured network with the subnets as fixed IPs, and its ID is
  returned.
  (b) With a network ID and no subnet configured, the result is the one attachment by the
  bare network ID, and no request is sent at all.
  (c) With no network ID, the named networks are resolved in list order: the result has
  one attachment per entry, none with a port, an entry with an ID keeps that ID, and the
  name lookups are sent for exactly the entries without an ID, in list order; when the
  platform answers the lookups by a function of the name, the result is the list of the
  entries' IDs, the looked-up ID where the entry has none.\<close>

theorem resolveServerNetworks_priority:
  "(isUserManagedNetwork d ex \<longleftrightarrow>
      \<not> isEmptyString d (Some (NetworkID (Config ex)))
      \<and> set (SubnetIDs (Config ex)) \<union> set_option (SubnetID (Config ex)) \<noteq> {})
   \<and> (isUserManagedNetwork d ex \<longrightarrow>
        (\<forall>res w1. resolveServerNetworks_subnets ex (getSubnetIDs ex) w = (res, w1) \<longrightarrow>
           (\<forall>err. res = Some err \<longrightarrow>
              resolveServerNetworks d ex machineName w = (Inl err, w1)
              \<and> (\<exists>n. calls w1 = calls w @ map GetSubnet_call (take n (getSubnetIDs ex))))
           \<and> (res = None \<longrightarrow>
                calls w1 = calls w @ map GetSubnet_call (getSubnetIDs ex)
                \<and> resolveServerNetworks d ex machineName w =
                    (case getOrCreatePort ex machineName w1 of
                       (Inl err, w2) \<Rightarrow> (Inl err, w2)
                     | (Inr portID, w2) \<Rightarrow>
                         (Inr [\<lparr>net_UUID = NetworkID (Config ex), net_Port = portID\<rparr>], w2))))
        \<and> (\<forall>subnetID \<in> set (getSubnetIDs ex).
              (\<forall>s. fst (GetSubnet (Network ex) subnetID s) \<noteq> None) \<longrightarrow>
              (\<exists>err. fst (resolveServerNetworks d ex machineName w) = Inl err)))
   \<and> (\<forall>w1 portID s.
         PortIDFromName (Network ex) machineName (cloud w1) = (Inr portID, s) \<longrightarrow>
         getOrCreatePort ex machineName w1 =
           (Inr portID, \<lparr>cloud = s, calls = calls w1 @ [PortIDFromName_call machineName]\<rparr>))
   \<and> (\<forall>w1 err s groupIDs w2 port s3.
         PortIDFromName (Network ex) machineName (cloud w1) = (Inl err, s)
         \<and> IsNotFoundError (Some err)
         \<and> getOrCreatePort_groups ex (SecurityGroups (Config ex)) []
             \<lparr>cloud = s, calls = calls w1 @ [PortIDFromName_call machineName]\<rparr>
           = (Inr groupIDs, w2)
         \<and> CreatePort (Network ex)
             \<lparr>pco_Name = machineName, pco_NetworkID = NetworkID (Config ex),
              pco_FixedIPs = getSubnetIDs ex,
              pco_AllowedAddressPairs = strings_Split (PodNetworkCidr (Config ex)) CHR '','',
              pco_SecurityGroups = groupIDs\<rparr> (cloud w2) = (Inr port, s3)
         \<longrightarrow> getOrCreatePort ex machineName w1 =
               (Inr (port_ID port),
                \<lparr>cloud = s3,
                  calls = calls w2 @
                    [CreatePort_call
                       \<lparr>pco_Name = machineName, pco_NetworkID = NetworkID (Config ex),
                        pco_FixedIPs = getSubnetIDs ex,
                        pco_AllowedAddressPairs =
                          strings_Split (PodNetworkCidr (Config ex)) CHR '','',
                        pco_SecurityGroups = groupIDs\<rparr>]\<rparr>))
   \<and> (\<not> isEmptyString d (Some (NetworkID (Config ex)))
        \<and> SubnetIDs (Config ex) = [] \<and> SubnetID (Config ex) = None \<longrightarrow>
        resolveServerNetworks d ex machineName w =
          (Inr [\<lparr>net_UUID = NetworkID (Config ex), net_Port = ''''\<rparr>], w))
   \<and> (isEmptyString d (Some (NetworkID (Config ex))) \<longrightarrow>
        (\<forall>nets w1. resolveServerNetworks d ex machineName w = (Inr nets, w1) \<longrightarrow>
           length nets = length (Networks (Config ex))
           \<and> (\<forall>i < length (Networks (Config ex)).
                 net_Port (nets ! i) = ''''
                 \<and> (\<not> isEmptyString d (Some (osn_Id (Networks (Config ex) ! i)))
                      \<longrightarrow> net_UUID (nets ! i) = osn_Id (Networks (Config ex) ! i)))
           \<and> calls w1 = calls w @
                map (\<lambda>network. NetworkIDFromName_call (osn_Name network))
                  (filter (\<lambda>network. isEmptyString d (Some (osn_Id network)))
                     (Networks (Config ex))))
        \<and> (\<forall>lookup.
              (\<forall>network \<in> set (Networks (Config ex)).
                 NetworkIDFromName (Network ex) (osn_Name network) (cloud w)
                   = (Inr (lookup (osn_Name network)), cloud w))
              \<longrightarrow> fst (resolveServerNetworks d ex machineName w) =
                    Inr (map (\<lambda>network.
                                \<lparr>net_UUID = (if isEmptyString d (Some (osn_Id network))
                                             then lookup (osn_Name network)
                                             else osn_Id network),
                                 net_Port = ''''\<rparr>) (Networks (Config ex)))))"
proof (intro conjI)
  show "isUserManagedNetwork d ex \<longleftrightarrow>
      \<not> isEmptyString d (Some (NetworkID (Config ex)))
      \<and> set (SubnetIDs (Config ex)) \<union> set_option (SubnetID (Config ex)) \<noteq> {}"
  proof -
    have "getSubnetIDs ex \<noteq> [] \<longleftrightarrow> set (getSubnetIDs ex) \<noteq> {}" by simp
    then show ?thesis
      unfolding isUserManagedNetwork_def set_getSubnetIDs by simp
  qed
next
  show "isUserManagedNetwork d ex \<longrightarrow>
        (\<forall>res w1. resolveServerNetworks_subnets ex (getSubnetIDs ex) w = (res, w1) \<longrightarrow>
           (\<forall>err. res = Some err \<longrightarrow>
              resolveServerNetworks d ex machineName w = (Inl err, w1)
              \<and> (\<exists>n. calls w1 = calls w @ map GetSubnet_call (take n (getSubnetIDs ex))))
           \<and> (res = None \<longrightarrow>
                calls w1 = calls w @ map GetSubnet_call (getSubnetIDs ex)
                \<and> resolveServerNetworks d ex machineName w =
                    (case getOrCreatePort ex machineName w1 of
                       (Inl err, w2) \<Rightarrow> (Inl err, w2)
                     | (Inr portID, w2) \<Rightarrow>
                         (Inr [\<lparr>net_UUID = NetworkID (Config ex), net_Port = portID\<rparr>], w2))))
        \<and> (\<forall>subnetID \<in> set (getSubnetIDs ex).
              (\<forall>s. fst (GetSubnet (Network ex) subnetID s) \<noteq> None) \<longrightarrow>
              (\<exists>err. fst (resolveServerNetworks d ex machineName w) = Inl err))"
  proof (intro impI conjI allI ballI)
    fix res w1 err
    assume um: "isUserManagedNetwork d ex"
      and sub: "resolveServerNetworks_subnets ex (getSubnetIDs ex) w = (res, w1)"
      and res: "res = Some err"
    show "resolveServerNetworks d ex machineName w = (Inl err, w1)"
      using um sub res by (simp add: resolveServerNetworks_def)
    show "\<exists>n. calls w1 = calls w @ map GetSubnet_call (take n (getSubnetIDs ex))"
      using resolveServerNetworks_subnets_calls [OF sub] res by blast
  next
    fix res w1
    assume um: "isUserManagedNetwork d ex"
      and sub: "resolveServerNetworks_subnets ex (getSubnetIDs ex) w = (res, w1)"
      and res: "res = None"
    show "calls w1 = calls w @ map GetSubnet_call (getSubnetIDs ex)"
      using resolveServerNetworks_subnets_calls [OF sub] res by blast
    show "resolveServerNetworks d ex machineName w =
                    (case getOrCreatePort ex machineName w1 of
                       (Inl err, w2) \<Rightarrow> (Inl err, w2)
                     | (Inr portID, w2) \<Rightarrow>
                         (Inr [\<lparr>net_UUID = NetworkID (Config ex), net_Port = portID\<rparr>], w2))"
      using um sub res by (simp add: resolveServerNetworks_def split: prod.splits sum.splits)
  next
    fix subnetID
    assume um: "isUserManagedNetwork d ex"
      and mem: "subnetID \<in> set (getSubnetIDs ex)"
      and missing: "\<forall>s. fst (GetSubnet (Network ex) subnetID s) \<noteq> None"
    obtain err w1 where "resolveServerNetworks_subnets ex (getSubnetIDs ex) w = (Some err, w1)"
      using resolveServerNetworks_subnets_missing [OF mem missing, of w]
      by (metis fst_conv not_None_eq surj_pair)
    then show "\<exists>err. fst (resolveServerNetworks d ex machineName w) = Inl err"
      using um by (simp add: resolveServerNetworks_def)
  qed
next
  show "\<forall>w1 portID s.
         PortIDFromName (Network ex) machineName (cloud w1) = (Inr portID, s) \<longrightarrow>
         getOrCreatePort ex machineName w1 =
           (Inr portID, \<lparr>cloud = s, calls = calls w1 @ [PortIDFromName_call machineName]\<rparr>)"
    by (intro allI impI) (rule getOrCreatePort_found)
next
  show "\<forall>w1 err s groupIDs w2 port s3.
         PortIDFromName (Network ex) machineName (cloud w1) = (Inl err, s)
         \<and> IsNotFoundError (Some err)
         \<and> getOrCreatePort_groups ex (SecurityGroups (Config ex)) []
             \<lparr>cloud = s, calls = calls w1 @ [PortIDFromName_call machineName]\<rparr>
           = (Inr groupIDs, w2)
         \<and> CreatePort (Network ex)
             \<lparr>pco_Name = machineName, pco_NetworkID = NetworkID (Config ex),
              pco_FixedIPs = getSubnetIDs ex,
              pco_AllowedAddressPairs = strings_Split (PodNetworkCidr (Config ex)) CHR '','',
              pco_SecurityGroups = groupIDs\<rparr> (cloud w2) = (Inr port, s3)
         \<longrightarrow> getOrCreatePort ex machineName w1 =
               (Inr (port_ID port),
                \<lparr>cloud = s3,
                  calls = calls w2 @
                    [CreatePort_call
                       \<lparr>pco_Name = machineName, pco_NetworkID = NetworkID (Config ex),
                        pco_FixedIPs = getSubnetIDs ex,
                        pco_AllowedAddressPairs =
                          strings_Split (PodNetworkCidr (Config ex)) CHR '','',
                        pco_SecurityGroups = groupIDs\<rparr>]\<rparr>)"
    by (intro allI impI, elim conjE, rule getOrCreatePort_created) simp_all
next
  show "\<not> isEmptyString d (Some (NetworkID (Config ex)))
        \<and> SubnetIDs (Config ex) = [] \<and> SubnetID (Config ex) = None \<longrightarrow>
        resolveServerNetworks d ex machineName w =
          (Inr [\<lparr>net_UUID = NetworkID (Config ex), net_Port = ''''\<rparr>], w)"
    by (simp add: resolveServerNetworks_def isUserManagedNetwork_def getSubnetIDs_def)
next
  show "isEmptyString d (Some (NetworkID (Config ex))) \<longrightarrow>
        (\<forall>nets w1. resolveServerNetworks d ex machineName w = (Inr nets, w1) \<longrightarrow>
           length nets = length (Networks (Config ex))
           \<and> (\<forall>i < length (Networks (Config ex)).
                 net_Port (nets ! i) = ''''
                 \<and> (\<not> isEmptyString d (Some (osn_Id (Networks (Config ex) ! i)))
                      \<longrightarrow> net_UUID (nets ! i) = osn_Id (Networks (Config ex) ! i)))
           \<and> calls w1 = calls w @
                map (\<lambda>network. NetworkIDFromName_call (osn_Name network))
                  (filter (\<lambda>network. isEmptyString d (Some (osn_Id network)))
                     (Networks (Config ex))))
        \<and> (\<forall>lookup.
              (\<forall>network \<in> set (Networks (Config ex)).
                 NetworkIDFromName (Network ex) (osn_Name network) (cloud w)
                   = (Inr (lookup (osn_Name network)), cloud w))
              \<longrightarrow> fst (resolveServerNetworks d ex machineName w) =
                    Inr (map (\<lambda>network.
                                \<lparr>net_UUID = (if isEmptyString d (Some (osn_Id network))
                                             then lookup (osn_Name network)
                                             else osn_Id network),
                                 net_Port = ''''\<rparr>) (Networks (Config ex))))"
  proof (rule impI, rule conjI)
    assume e: "isEmptyString d (Some (NetworkID (Config ex)))"
    show "\<forall>nets w1. resolveServerNetworks d ex machineName w = (Inr nets, w1) \<longrightarrow>
           length nets = length (Networks (Config ex))
           \<and> (\<forall>i < length (Networks (Config ex)).
                 net_Port (nets ! i) = ''''
                 \<and> (\<not> isEmptyString d (Some (osn_Id (Networks (Config ex) ! i)))
                      \<longrightarrow> net_UUID (nets ! i) = osn_Id (Networks (Config ex) ! i)))
           \<and> calls w1 = calls w @
                map (\<lambda>network. NetworkIDFromName_call (osn_Name network))
                  (filter (\<lambda>network. isEmptyString d (Some (osn_Id network)))
                     (Networks (Config ex)))"
    proof (rule allI, rule allI, rule impI)
      fix nets w1
      assume r: "resolveServerNetworks d ex machineName w = (Inr nets, w1)"
      have "resolveServerNetworks_networks d ex (Networks (Config ex)) [] w = (Inr nets, w1)"
        using e r by (simp add: resolveServerNetworks_def isUserManagedNetwork_def)
      from resolveServerNetworks_networks_result [OF this]
      show "length nets = length (Networks (Config ex))
           \<and> (\<forall>i < length (Networks (Config ex)).
                 net_Port (nets ! i) = ''''
                 \<and> (\<not> isEmptyString d (Some (osn_Id (Networks (Config ex) ! i)))
                      \<longrightarrow> net_UUID (nets ! i) = osn_Id (Networks (Config ex) ! i)))
           \<and> calls w1 = calls w @
                map (\<lambda>network. NetworkIDFromName_call (osn_Name network))
                  (filter (\<lambda>network. isEmptyString d (Some (osn_Id network)))
                     (Networks (Config ex)))"
        by auto
    qed
  next
    assume e: "isEmptyString d (Some (NetworkID (Config ex)))"
    show "\<forall>lookup.
              (\<forall>network \<in> set (Networks (Config ex)).
                 NetworkIDFromName (Network ex) (osn_Name network) (cloud w)
                   = (Inr (lookup (osn_Name network)), cloud w))
              \<longrightarrow> fst (resolveServerNetworks d ex machineName w) =
                    Inr (map (\<lambda>network.
                                \<lparr>net_UUID = (if isEmptyString d (Some (osn_Id network))
                                             then lookup (osn_Name network)
                                             else osn_Id network),
                                 net_Port = ''''\<rparr>) (Networks (Config ex)))"
    proof (rule allI, rule impI)
      fix lookup
      assume l: "\<forall>network \<in> set (Networks (Config ex)).
                 NetworkIDFromName (Network ex) (osn_Name network) (cloud w)
                   = (Inr (lookup (osn_Name network)), cloud w)"
      show "fst (resolveServerNetworks d ex machineName w) =
                    Inr (map (\<lambda>network.
                                \<lparr>net_UUID = (if isEmptyString d (Some (osn_Id network))
                                             then lookup (osn_Name network)
                                             else osn_Id network),
                                 net_Port = ''''\<rparr>) (Networks (Config ex)))"
        using e resolveServerNetworks_networks_lookup [OF l, of d "[]"]
        by (simp add: resolveServerNetworks_def isUserManagedNetwork_def)
    qed
  qed
qed

text \<open>Three runs on the empty platform, one per mode: network ID with subnet \<open>S1\<close>
  (subnet check, port lookup, security group lookup, port creation, attachment by that
  port); network ID alone (bare attachment, the world unchanged); two named networks, the
  first with an ID and the second resolved by name.\<close>

theorem resolveServerNetworks_priority_witness:
  "resolveServerNetworks simDecls (simExecutor simConfigSubnet) ''m1'' (simWorld simCloud)
     = (Inr [\<lparr>net_UUID = ''N'', net_Port = ''port-m1''\<rparr>],
        \<lparr>cloud = simCloud\<lparr>sim_ports :=
                   [\<lparr>port_ID = ''port-m1'', port_Name = ''m1'', port_NetworkID = ''N'',
                     port_DeviceID = '''', port_AllowedAddressPairs = [''10.0.0.0/8'']\<rparr>]\<rparr>,
          calls = [GetSubnet_call ''S1'', PortIDFromName_call ''m1'',
                   GroupIDFromName_call ''default'',
                   CreatePort_call
                     \<lparr>pco_Name = ''m1'', pco_NetworkID = ''N'', pco_FixedIPs = [''S1''],
                      pco_AllowedAddressPairs = [''10.0.0.0/8''],
                      pco_SecurityGroups = [''sg-default'']\<rparr>]\<rparr>)
   \<and> resolveServerNetworks simDecls (simExecutor simConfig) ''m1'' (simWorld simCloud)
     = (Inr [\<lparr>net_UUID = ''N'', net_Port = ''''\<rparr>], simWorld simCloud)
   \<and> fst (resolveServerNetworks simDecls (simExecutor simConfigNamed) ''m1'' (simWorld simCloud))
     = Inr [\<lparr>net_UUID = ''X'', net_Port = ''''\<rparr>, \<lparr>net_UUID = ''net-net1'', net_Port = ''''\<rparr>]"
proof -
  let ?exS = "simExecutor simConfigSubnet"
  let ?w = "simWorld simCloud"
  let ?w1 = "\<lparr>cloud = simCloud, calls = [GetSubnet_call ''S1'']\<rparr>"
  let ?opts = "\<lparr>pco_Name = ''m1'', pco_NetworkID = ''N'', pco_FixedIPs = [''S1''],
                      pco_AllowedAddressPairs = [''10.0.0.0/8''],
                      pco_SecurityGroups = [''sg-default'']\<rparr>"
  let ?w2 = "\<lparr>cloud = simCloud\<lparr>sim_ports :=
                   [\<lparr>port_ID = ''port-m1'', port_Name = ''m1'', port_NetworkID = ''N'',
                     port_DeviceID = '''', port_AllowedAddressPairs = [''10.0.0.0/8'']\<rparr>]\<rparr>,
          calls = [GetSubnet_call ''S1'', PortIDFromName_call ''m1'',
                   GroupIDFromName_call ''default'', CreatePort_call ?opts]\<rparr>"
  have ids: "getSubnetIDs ?exS = [''S1'']"
    by (simp add: sim_ops simConfigSubnet_def simConfig_def)
  have um: "isUserManagedNetwork simDecls ?exS"
    unfolding isUserManagedNetwork_def ids
    by (simp add: sim_ops simDecls_fields simConfigSubnet_def simConfig_def)
  have sub: "resolveServerNetworks_subnets ?exS (getSubnetIDs ?exS) ?w = (None, ?w1)"
    by (simp add: request_def sim_ops simWorld_def simCloud_def simConfigSubnet_def
          simConfig_def)
  have cfg: "NetworkID (Config ?exS) = ''N''" "SecurityGroups (Config ?exS) = [''default'']"
    "strings_Split (PodNetworkCidr (Config ?exS)) CHR '','' = [''10.0.0.0/8'']"
    by (simp_all add: sim_ops simConfigSubnet_def simConfig_def)
  have port: "getOrCreatePort ?exS ''m1'' ?w1 = (Inr ''port-m1'', ?w2)"
    by (simp add: getOrCreatePort_def request_def ids Let_def sim_ops simCloud_def
          simConfigSubnet_def simConfig_def)
  note t = resolveServerNetworks_priority [of simDecls ?exS ?w "''m1''"]
  have a: "resolveServerNetworks simDecls ?exS ''m1'' ?w
             = (Inr [\<lparr>net_UUID = ''N'', net_Port = ''port-m1''\<rparr>], ?w2)"
    using conjunct1 [OF conjunct2 [OF t], rule_format, OF um,
                     THEN conjunct1, rule_format, OF sub, THEN conjunct2]
      port cfg
    by simp
  have b: "resolveServerNetworks simDecls (simExecutor simConfig) ''m1'' ?w
             = (Inr [\<lparr>net_UUID = ''N'', net_Port = ''''\<rparr>], ?w)"
    using resolveServerNetworks_priority [of simDecls "simExecutor simConfig" ?w "''m1''"]
    by (simp add: simDecls_fields sim_ops simConfig_def)
  let ?exN = "simExecutor simConfigNamed"
  have e: "isEmptyString simDecls (Some (NetworkID (Config ?exN)))"
    by (simp add: simDecls_fields sim_ops simConfigNamed_def)
  have l: "\<forall>network \<in> set (Networks (Config ?exN)).
             NetworkIDFromName (Network ?exN) (osn_Name network) (cloud ?w)
               = (Inr ((\<lambda>name. ''net-'' @ name) (osn_Name network)), cloud ?w)"
    by (simp add: sim_ops simWorld_def simCloud_def simConfigNamed_def)
  have c: "fst (resolveServerNetworks simDecls ?exN ''m1'' ?w)
     = Inr [\<lparr>net_UUID = ''X'', net_Port = ''''\<rparr>, \<lparr>net_UUID = ''net-net1'', net_Port = ''''\<rparr>]"
    using mp [OF spec [OF conjunct2 [OF mp [OF
                 resolveServerNetworks_priority [of simDecls ?exN ?w "''m1''",
                   THEN conjunct2, THEN conjunct2, THEN conjunct2, THEN conjunct2,
                   THEN conjunct2] e]], of "\<lambda>name. ''net-'' @ name"] l]
    by (simp add: simDecls_fields sim_ops simConfigNamed_def)
  show ?thesis using a b c by simp
qed

subsection \<open>Delete\<close>

lemma DeleteMachine_volume_nil:
  "DeleteMachine_volume d ex machineName w =
     (None, if isEmptyString d (VolumeType (Config ex)) then w
            else snd (checkBootVolume ex machineName w))"
proof -
  obtain volume cerr w1 where chk: "checkBootVolume ex machineName w = ((volume, cerr), w1)"
    by (metis surj_pair)
  then show ?thesis using checkBootVolume_nil [OF chk] by (simp add: DeleteMachine_volume_def)
qed

lemma DeleteMachine_cleanup_eq:
  "DeleteMachine_cleanup d ex machineName w =
     (if isUserManagedNetwork d ex
      then deletePort ex machineName
             (if isEmptyString d (VolumeType (Config ex)) then w
              else snd (checkBootVolume ex machineName w))
      else (None, if isEmptyString d (VolumeType (Config ex)) then w
                  else snd (checkBootVolume ex machineName w)))"
  by (simp add: DeleteMachine_cleanup_def DeleteMachine_volume_nil)

lemma deletePort_not_found:
  "PortIDFromName (Network ex) machineName (cloud w) = (Inl err, s) \<Longrightarrow>
   IsNotFoundError (Some err) \<Longrightarrow>
   deletePort ex machineName w =
     (None, \<lparr>cloud = s, calls = calls w @ [PortIDFromName_call machineName]\<rparr>)"
  by (simp add: deletePort_def request_def)

lemma DeleteMachine_lookup_not_found:
  "(if \<not> isEmptyString d (Some providerID)
    then getMachineByID d ex (decodeProviderID d providerID) w
    else getMachineByName d ex machineName w) = (Inl err, w1) \<Longrightarrow>
   errors_Is err ErrNotFound \<Longrightarrow>
   DeleteMachine d ex machineName providerID w = DeleteMachine_cleanup d ex machineName w1"
  by (simp add: DeleteMachine_def)

lemma getMachineByID_not_found:
  "GetServer (Compute ex) serverID (cloud w) = (Inl err, s) \<Longrightarrow> IsNotFoundError (Some err) \<Longrightarrow>
   getMachineByID d ex serverID w =
     (Inl (ErrorfW ''could not find server [ID=%q]: %w'' [S serverID] ErrNotFound),
      \<lparr>cloud = s, calls = calls w @ [GetServer_call serverID]\<rparr>)"
  by (simp add: getMachineByID_def request_def)

lemma getMachineByName_not_found:
  "searchTags d (Tags (Config ex)) = (searchClusterName, searchNodeRole) \<Longrightarrow>
   searchClusterName \<noteq> '''' \<Longrightarrow> searchNodeRole \<noteq> '''' \<Longrightarrow>
   ListServers (Compute ex) machineName (cloud w) = (Inr listedServers, s) \<Longrightarrow>
   filter (\<lambda>server. srv_Name server = machineName
              \<and> hasKey (srv_Metadata server) searchClusterName
              \<and> hasKey (srv_Metadata server) searchNodeRole) listedServers = [] \<Longrightarrow>
   getMachineByName d ex machineName w =
     (Inl (ErrorfW ''failed to find server [Name=%q]: %w'' [S machineName] ErrNotFound),
      \<lparr>cloud = s, calls = calls w @ [ListServers_call machineName]\<rparr>)"
  by (simp add: getMachineByName_def request_def Let_def)

text \<open>Claim C6. Delete is idempotent. When the lookup of the target, by the decoded
  provider ID if one is given and by name and tags otherwise, ends in an error that is
  the not-found error, \<open>DeleteMachine\<close> does not return it: it goes on to the cleanup in
  the world the lookup left, with no server deletion. This is so when the platform answers
  the fetch by ID with a not-found error, and when both tag keys are derived and no listed
  server of the name carries them. The cleanup never fails in its volume step; it ends
  with the port step when the network is user-managed and with \<^verbatim>\<open>nil\<close> otherwise. In
  the port step a not-found answer to the port lookup counts as deleted: \<^verbatim>\<open>nil\<close>, with
  no deletion request. So a Delete whose lookups find nothing succeeds, as the second of
  two Deletes does.\<close>

theorem DeleteMachine_idempotent:
  "(\<forall>err w1.
      (if \<not> isEmptyString d (Some providerID)
       then getMachineByID d ex (decodeProviderID d providerID) w
       else getMachineByName d ex machineName w) = (Inl err, w1)
      \<and> errors_Is err ErrNotFound \<longrightarrow>
      DeleteMachine d ex machineName providerID w = DeleteMachine_cleanup d ex machineName w1)
   \<and> (\<forall>err s.
        \<not> isEmptyString d (Some providerID)
        \<and> GetServer (Compute ex) (decodeProviderID d providerID) (cloud w) = (Inl err, s)
        \<and> IsNotFoundError (Some err) \<longrightarrow>
        DeleteMachine d ex machineName providerID w =
          DeleteMachine_cleanup d ex machineName
            \<lparr>cloud = s, calls = calls w @ [GetServer_call (decodeProviderID d providerID)]\<rparr>)
   \<and> (\<forall>searchClusterName searchNodeRole listedServers s.
        isEmptyString d (Some providerID)
        \<and> searchTags d (Tags (Config ex)) = (searchClusterName, searchNodeRole)
        \<and> searchClusterName \<noteq> '''' \<and> searchNodeRole \<noteq> ''''
        \<and> ListServers (Compute ex) machineName (cloud w) = (Inr listedServers, s)
        \<and> filter (\<lambda>server. srv_Name server = machineName
                      \<and> hasKey (srv_Metadata server) searchClusterName
                      \<and> hasKey (srv_Metadata server) searchNodeRole) listedServers = []
        \<longrightarrow> DeleteMachine d ex machineName providerID w =
              DeleteMachine_cleanup d ex machineName
                \<lparr>cloud = s, calls = calls w @ [ListServers_call machineName]\<rparr>)
   \<and> (\<forall>w1. DeleteMachine_cleanup d ex machineName w1 =
         (if isUserManagedNetwork d ex
          then deletePort ex machineName
                 (if isEmptyString d (VolumeType (Config ex)) then w1
                  else snd (checkBootVolume ex machineName w1))
          else (None, if isEmptyString d (VolumeType (Config ex)) then w1
                      else snd (checkBootVolume ex machineName w1))))
   \<and> (\<forall>w2 err s.
         PortIDFromName (Network ex) machineName (cloud w2) = (Inl err, s)
         \<and> IsNotFoundError (Some err) \<longrightarrow>
         deletePort ex machineName w2 =
           (None, \<lparr>cloud = s, calls = calls w2 @ [PortIDFromName_call machineName]\<rparr>))"
proof (intro conjI allI impI)
  fix err w1
  assume h: "(if \<not> isEmptyString d (Some providerID)
       then getMachineByID d ex (decodeProviderID d providerID) w
       else getMachineByName d ex machineName w) = (Inl err, w1)
      \<and> errors_Is err ErrNotFound"
  show "DeleteMachine d ex machineName providerID w = DeleteMachine_cleanup d ex machineName w1"
    by (rule DeleteMachine_lookup_not_found [OF conjunct1 [OF h] conjunct2 [OF h]])
next
  fix err s
  assume h: "\<not> isEmptyString d (Some providerID)
        \<and> GetServer (Compute ex) (decodeProviderID d providerID) (cloud w) = (Inl err, s)
        \<and> IsNotFoundError (Some err)"
  have "getMachineByID d ex (decodeProviderID d providerID) w =
     (Inl (ErrorfW ''could not find server [ID=%q]: %w'' [S (decodeProviderID d providerID)]
             ErrNotFound),
      \<lparr>cloud = s, calls = calls w @ [GetServer_call (decodeProviderID d providerID)]\<rparr>)"
    by (rule getMachineByID_not_found
          [OF conjunct1 [OF conjunct2 [OF h]] conjunct2 [OF conjunct2 [OF h]]])
  then show "DeleteMachine d ex machineName providerID w =
          DeleteMachine_cleanup d ex machineName
            \<lparr>cloud = s, calls = calls w @ [GetServer_call (decodeProviderID d providerID)]\<rparr>"
    using h by (simp add: DeleteMachine_def)
next
  fix searchClusterName searchNodeRole listedServers s
  assume h: "isEmptyString d (Some providerID)
        \<and> searchTags d (Tags (Config ex)) = (searchClusterName, searchNodeRole)
        \<and> searchClusterName \<noteq> '''' \<and> searchNodeRole \<noteq> ''''
        \<and> ListServers (Compute ex) machineName (cloud w) = (Inr listedServers, s)
        \<and> filter (\<lambda>server. srv_Name server = machineName
                      \<and> hasKey (srv_Metadata server) searchClusterName
                      \<and> hasKey (srv_Metadata server) searchNodeRole) listedServers = []"
  from h have h2: "searchTags d (Tags (Config ex)) = (searchClusterName, searchNodeRole)"
    by (elim conjE)
  from h have h3: "searchClusterName \<noteq> ''''" by (elim conjE)
  from h have h4: "searchNodeRole \<noteq> ''''" by (elim conjE)
  from h have h5: "ListServers (Compute ex) machineName (cloud w) = (Inr listedServers, s)"
    by (elim conjE)
  from h have h6: "filter (\<lambda>server. srv_Name server = machineName
                      \<and> hasKey (srv_Metadata server) searchClusterName
                      \<and> hasKey (srv_Metadata server) searchNodeRole) listedServers = []"
    by (elim conjE)
  have "getMachineByName d ex machineName w =
     (Inl (ErrorfW ''failed to find server [Name=%q]: %w'' [S machineName] ErrNotFound),
      \<lparr>cloud = s, calls = calls w @ [ListServers_call machineName]\<rparr>)"
    by (rule getMachineByName_not_found [OF h2 h3 h4 h5 h6])
  then show "DeleteMachine d ex machineName providerID w =
              DeleteMachine_cleanup d ex machineName
                \<lparr>cloud = s, calls = calls w @ [ListServers_call machineName]\<rparr>"
    using h by (simp add: DeleteMachine_def)
next
  fix w1
  show "DeleteMachine_cleanup d ex machineName w1 =
         (if isUserManagedNetwork d ex
          then deletePort ex machineName
                 (if isEmptyString d (VolumeType (Config ex)) then w1
                  else snd (checkBootVolume ex machineName w1))
          else (None, if isEmptyString d (VolumeType (Config ex)) then w1
                      else snd (checkBootVolume ex machineName w1)))"
    by (rule DeleteMachine_cleanup_eq)
next
  fix w2 :: "'a world" and err s
  assume h: "PortIDFromName (Network ex) machineName (cloud w2) = (Inl err, s)
         \<and> IsNotFoundError (Some err)"
  show "deletePort ex machineName w2 =
           (None, \<lparr>cloud = s, calls = calls w2 @ [PortIDFromName_call machineName]\<rparr>)"
    by (rule deletePort_not_found [OF conjunct1 [OF h] conjunct2 [OF h]])
qed
lemma simConfigSubnet_fields:
  "searchTags simDecls (Tags simConfigSubnet)
     = (''kubernetes.io-cluster-shoot'', ''kubernetes.io-role-node'')"
  "NetworkID simConfigSubnet = ''N''" "VolumeType simConfigSubnet = None"
  "SubnetIDs simConfigSubnet = [''S1'']" "SubnetID simConfigSubnet = None"
  "Region simConfigSubnet = ''eu''" "PodNetworkCidr simConfigSubnet = ''10.0.0.0/8''"
  "Networks simConfigSubnet = []"
  using simTags by (simp_all add: simConfigSubnet_def) (simp_all add: simConfig_def)

lemma wait_Poll_loop_numeral:
  "wait_Poll_loop (numeral k) condition w =
     (case condition w of
        ((done, Some err), w1) \<Rightarrow> (Some err, w1)
      | ((done, None), w1) \<Rightarrow>
          if done then (None, w1) else wait_Poll_loop (pred_numeral k) condition w1)"
  by (simp add: numeral_eq_Suc)

text \<open>Delete called twice for the machine \<open>m1\<close> in the user-managed mode, on a platform
  that holds its server and its port: the first call deletes both and succeeds, the
  second finds neither and succeeds after the two lookups.\<close>

theorem DeleteMachine_idempotent_witness:
  "DeleteMachine simDecls (simExecutor simConfigSubnet) ''m1'' ''''
      (simWorld (simCloud\<lparr>sim_servers := [simServerA], sim_ports := [simPortM1]\<rparr>))
     = (None, \<lparr>cloud = simCloud,
               calls = [ListServers_call ''m1'', DeleteServer_call ''a'', GetServer_call ''a'',
                        PortIDFromName_call ''m1'', DeletePort_call ''port-m1'']\<rparr>)
   \<and> DeleteMachine simDecls (simExecutor simConfigSubnet) ''m1'' ''''
       \<lparr>cloud = simCloud,
         calls = [ListServers_call ''m1'', DeleteServer_call ''a'', GetServer_call ''a'',
                  PortIDFromName_call ''m1'', DeletePort_call ''port-m1'']\<rparr>
     = (None, \<lparr>cloud = simCloud,
               calls = [ListServers_call ''m1'', DeleteServer_call ''a'', GetServer_call ''a'',
                        PortIDFromName_call ''m1'', DeletePort_call ''port-m1'',
                        ListServers_call ''m1'', PortIDFromName_call ''m1'']\<rparr>)"
proof -
  let ?ex = "simExecutor simConfigSubnet"
  let ?cs = "[ListServers_call ''m1'', DeleteServer_call ''a'', GetServer_call ''a'',
              PortIDFromName_call ''m1'', DeletePort_call ''port-m1'']"
  let ?w1 = "\<lparr>cloud = simCloud, calls = ?cs\<rparr>"
  have um: "isUserManagedNetwork simDecls ?ex"
    by (simp add: isUserManagedNetwork_def sim_ops simDecls_fields simConfigSubnet_fields)
  have first: "DeleteMachine simDecls ?ex ''m1'' ''''
      (simWorld (simCloud\<lparr>sim_servers := [simServerA], sim_ports := [simPortM1]\<rparr>)) = (None, ?w1)"
    by (simp add: DeleteMachine_def getMachineByName_def request_def Let_def sim_ops
          simDecls_fields simConfigSubnet_fields simWorld_def simCloud_def simServerA_def
          simPortM1_def hasKey_def simConfig_def waitForStatus_def wait_Poll_def
          wait_Poll_loop_numeral waitForStatus_condition_def strSliceContains_def
          DeleteMachine_cleanup_def DeleteMachine_volume_def um deletePort_def)
  have e: "isEmptyString simDecls (Some '''')" "isEmptyString simDecls (VolumeType (Config ?ex))"
    by (simp_all add: simDecls_fields sim_ops simConfigSubnet_fields)
  have t: "searchTags simDecls (Tags (Config ?ex))
     = (''kubernetes.io-cluster-shoot'', ''kubernetes.io-role-node'')"
    by (simp add: sim_ops simConfigSubnet_fields)
  have l: "ListServers (Compute ?ex) ''m1'' (cloud ?w1) = (Inr [], simCloud)"
    by (simp add: sim_ops simCloud_def)
  have p: "PortIDFromName (Network ?ex) ''m1''
             (cloud \<lparr>cloud = simCloud, calls = calls ?w1 @ [ListServers_call ''m1'']\<rparr>)
           = (Inl (Err404 ''m1''), simCloud)"
    by (simp add: sim_ops simCloud_def)
  note d = DeleteMachine_idempotent [of simDecls "''''" ?ex ?w1 "''m1''"]
  have s1: "DeleteMachine simDecls ?ex ''m1'' '''' ?w1 =
              DeleteMachine_cleanup simDecls ?ex ''m1''
                \<lparr>cloud = simCloud, calls = calls ?w1 @ [ListServers_call ''m1'']\<rparr>"
    using conjunct1 [OF conjunct2 [OF conjunct2 [OF d]], rule_format,
            of "''kubernetes.io-cluster-shoot''" "''kubernetes.io-role-node''" "[]" simCloud]
      e t l by simp
  have s2: "DeleteMachine_cleanup simDecls ?ex ''m1''
                \<lparr>cloud = simCloud, calls = calls ?w1 @ [ListServers_call ''m1'']\<rparr>
            = deletePort ?ex ''m1''
                \<lparr>cloud = simCloud, calls = calls ?w1 @ [ListServers_call ''m1'']\<rparr>"
    using conjunct1 [OF conjunct2 [OF conjunct2 [OF conjunct2 [OF d]]], rule_format,
            of "\<lparr>cloud = simCloud, calls = calls ?w1 @ [ListServers_call ''m1'']\<rparr>"]
      um e by simp
  have s3: "deletePort ?ex ''m1''
                \<lparr>cloud = simCloud, calls = calls ?w1 @ [ListServers_call ''m1'']\<rparr>
            = (None, \<lparr>cloud = simCloud,
                      calls = ?cs @ [ListServers_call ''m1'', PortIDFromName_call ''m1'']\<rparr>)"
    using conjunct2 [OF conjunct2 [OF conjunct2 [OF conjunct2 [OF d]]], rule_format,
            of "\<lparr>cloud = simCloud, calls = calls ?w1 @ [ListServers_call ''m1'']\<rparr>"
               "Err404 ''m1''" simCloud]
      p by simp
  show ?thesis using first s1 s2 s3 by simp
qed

subsection \<open>Requests that a run does not send\<close>

lemma wait_Poll_loop_quiet:
  assumes "\<And>w r w'. condition w = (r, w') \<Longrightarrow>
             \<exists>cs. calls w' = calls w @ cs \<and> list_all (\<lambda>c. \<not> provisioning c) cs"
  shows "wait_Poll_loop n condition w = (r, w') \<Longrightarrow>
         \<exists>cs. calls w' = calls w @ cs \<and> list_all (\<lambda>c. \<not> provisioning c) cs"
proof (induction n arbitrary: w)
  case 0
  then show ?case by simp
next
  case (Suc n)
  obtain d e w1 where c: "condition w = ((d, e), w1)" by (metis surj_pair)
  from assms [OF c] obtain cs where cs: "calls w1 = calls w @ cs"
    "list_all (\<lambda>c. \<not> provisioning c) cs" by blast
  show ?case
  proof (cases "e = None \<and> \<not> d")
    case True
    then have "wait_Poll_loop n condition w1 = (r, w')" using Suc.prems c by auto
    from Suc.IH [OF this] obtain cs' where "calls w' = calls w1 @ cs'"
      "list_all (\<lambda>c. \<not> provisioning c) cs'" by blast
    then have "calls w' = calls w @ (cs @ cs') \<and> list_all (\<lambda>c. \<not> provisioning c) (cs @ cs')"
      using cs by simp
    then show ?thesis by blast
  next
    case False
    then have "w' = w1" using Suc.prems c by (auto split: option.splits if_splits)
    then show ?thesis using cs by blast
  qed
qed

lemma waitForStatus_quiet:
  "waitForStatus ex serverID pending target secs w = (r, w') \<Longrightarrow>
   \<exists>cs. calls w' = calls w @ cs \<and> list_all (\<lambda>c. \<not> provisioning c) cs"
  unfolding waitForStatus_def wait_Poll_def
  by (erule wait_Poll_loop_quiet [rotated])
     (auto simp: waitForStatus_condition_def Let_def split: prod.splits sum.splits if_splits
           dest!: request_calls)

lemma resolveNetworkIDsForPodNetwork_networks_quiet:
  "resolveNetworkIDsForPodNetwork_networks d ex networks podNetworkIDs w = (r, w') \<Longrightarrow>
   \<exists>cs. calls w' = calls w @ cs \<and> list_all (\<lambda>c. \<not> provisioning c) cs"
proof (induction networks arbitrary: podNetworkIDs w)
  case Nil
  then show ?case by simp
next
  case (Cons network rest)
  show ?case
  proof (cases "isEmptyString d (Some (osn_Id network))")
    case False
    then show ?thesis using Cons.prems Cons.IH by simp
  next
    case True
    obtain r1 w1 where req: "request (NetworkIDFromName_call (osn_Name network))
                   (NetworkIDFromName (Network ex) (osn_Name network)) w = (r1, w1)"
      by (metis surj_pair)
    have c1: "calls w1 = calls w @ [NetworkIDFromName_call (osn_Name network)]"
      using request_calls [OF req] .
    show ?thesis
    proof (cases r1)
      case (Inl err)
      then have "w' = w1" using Cons.prems True req by simp
      then have "calls w' = calls w @ [NetworkIDFromName_call (osn_Name network)]
                 \<and> list_all (\<lambda>c. \<not> provisioning c) [NetworkIDFromName_call (osn_Name network)]"
        using c1 by simp
      then show ?thesis by blast
    next
      case (Inr resolvedNetworkID)
      then have "resolveNetworkIDsForPodNetwork_networks d ex rest
            (if osn_PodNetwork network then insert resolvedNetworkID podNetworkIDs
             else podNetworkIDs) w1 = (r, w')"
        using Cons.prems True req by simp
      from Cons.IH [OF this] obtain cs where "calls w' = calls w1 @ cs"
        "list_all (\<lambda>c. \<not> provisioning c) cs" by blast
      then have "calls w' = calls w @ (NetworkIDFromName_call (osn_Name network) # cs)
         \<and> list_all (\<lambda>c. \<not> provisioning c) (NetworkIDFromName_call (osn_Name network) # cs)"
        using c1 by simp
      then show ?thesis by blast
    qed
  qed
qed

lemma patchServerPortsForPodNetwork_ports_quiet:
  "patchServerPortsForPodNetwork_ports ex podNetworkIDs ports w = (r, w') \<Longrightarrow>
   \<exists>cs. calls w' = calls w @ cs \<and> list_all (\<lambda>c. \<not> provisioning c) cs"
  by (drule patchServerPortsForPodNetwork_ports_calls) (auto simp: list_all_iff)

lemma patchServerPortsForPodNetwork_quiet:
  "patchServerPortsForPodNetwork d ex serverID w = (r, w') \<Longrightarrow>
   \<exists>cs. calls w' = calls w @ cs \<and> list_all (\<lambda>c. \<not> provisioning c) cs"
  by (auto simp: patchServerPortsForPodNetwork_def resolveNetworkIDsForPodNetwork_def
        split: prod.splits sum.splits if_splits
        dest!: request_calls resolveNetworkIDsForPodNetwork_networks_quiet
               patchServerPortsForPodNetwork_ports_quiet)

lemma checkBootVolume_calls:
  "checkBootVolume ex name w = (r, w') \<Longrightarrow> calls w' = calls w @ [ListVolumes_call name]"
  by (auto simp: checkBootVolume_def split: prod.splits dest!: request_calls)

lemma deletePort_quiet:
  "deletePort ex machineName w = (r, w') \<Longrightarrow>
   \<exists>cs. calls w' = calls w @ cs \<and> list_all (\<lambda>c. \<not> provisioning c) cs"
  by (auto simp: deletePort_def split: prod.splits sum.splits if_splits dest!: request_calls)

lemma DeleteMachine_cleanup_quiet:
  "DeleteMachine_cleanup d ex machineName w = (r, w') \<Longrightarrow>
   \<exists>cs. calls w' = calls w @ cs \<and> list_all (\<lambda>c. \<not> provisioning c) cs"
  by (auto simp: DeleteMachine_cleanup_def DeleteMachine_volume_def
        split: prod.splits option.splits if_splits
        dest!: request_calls checkBootVolume_calls deletePort_quiet)

lemma getMachineByName_quiet:
  "getMachineByName d ex machineName w = (r, w') \<Longrightarrow>
   \<exists>cs. calls w' = calls w @ cs \<and> list_all (\<lambda>c. \<not> provisioning c) cs"
  by (auto simp: getMachineByName_def Let_def split: prod.splits sum.splits if_splits
        dest!: request_calls)

lemma getMachineByID_quiet:
  "getMachineByID d ex serverID w = (r, w') \<Longrightarrow>
   \<exists>cs. calls w' = calls w @ cs \<and> list_all (\<lambda>c. \<not> provisioning c) cs"
  by (auto simp: getMachineByID_def split: prod.splits sum.splits if_splits
        dest!: request_calls)

lemma DeleteMachine_quiet:
  "DeleteMachine d ex machineName providerID w = (r, w') \<Longrightarrow>
   \<exists>cs. calls w' = calls w @ cs \<and> list_all (\<lambda>c. \<not> provisioning c) cs"
  by (auto simp: DeleteMachine_def split: prod.splits sum.splits option.splits if_splits
        dest!: request_calls getMachineByName_quiet getMachineByID_quiet waitForStatus_quiet
               DeleteMachine_cleanup_quiet)

lemma deleteOnFail_quiet:
  "deleteOnFail d ex machineName err w = (r, w') \<Longrightarrow>
   \<exists>cs. calls w' = calls w @ cs \<and> list_all (\<lambda>c. \<not> provisioning c) cs"
  by (auto simp: deleteOnFail_def deleteOnFail_volume_def
        split: prod.splits option.splits if_splits
        dest!: request_calls DeleteMachine_quiet checkBootVolume_calls)

lemma CreateMachine_converge_quiet:
  "CreateMachine_converge d ex machineName server w = (r, w') \<Longrightarrow>
   \<exists>cs. calls w' = calls w @ cs \<and> list_all (\<lambda>c. \<not> provisioning c) cs"
  by (auto simp: CreateMachine_converge_def split: prod.splits option.splits
        dest!: waitForStatus_quiet patchServerPortsForPodNetwork_quiet deleteOnFail_quiet)

lemma CreateMachine_converge_result:
  "CreateMachine_converge d ex machineName server w = (Inr providerID, w') \<Longrightarrow>
   providerID = encodeProviderID d (Region (Config ex)) (srv_ID server)"
  by (auto simp: CreateMachine_converge_def split: prod.splits option.splits)

subsection \<open>Create on an existing instance\<close>

text \<open>Claim C5. Create is idempotent. When the lookup by name and tags returns a server,
  \<open>CreateMachine\<close> goes straight on with that server, in the world the lookup left, to
  wait for it and to patch its ports: neither the network resolution nor the deployment
  runs. Whatever the outcome, the run sends no request of network resolution or
  deployment: no subnet check, no security group, image or flavor lookup, and no creation
  of a port, a volume or a server. Every success returns the provider ID that encodes the
  configured region and the ID of the server found, and the call succeeds with it when
  the wait and the patch succeed. A second Create after a successful first therefore
  returns the same provider ID, the lookup finding the instance of the first.\<close>

theorem CreateMachine_idempotent:
  assumes found: "getMachineByName d ex machineName w = (Inr server, w1)"
  shows "CreateMachine d ex machineName userData w
           = CreateMachine_converge d ex machineName server w1
         \<and> (\<forall>r w'. CreateMachine d ex machineName userData w = (r, w') \<longrightarrow>
               (\<exists>cs. calls w' = calls w @ cs \<and> list_all (\<lambda>c. \<not> provisioning c) cs)
               \<and> (\<forall>providerID. r = Inr providerID \<longrightarrow>
                     providerID = encodeProviderID d (Region (Config ex)) (srv_ID server)))
         \<and> (\<forall>w2 w3.
               waitForStatus ex (srv_ID server) [ServerStatusBuild] [ServerStatusActive] 600 w1
                 = (None, w2)
               \<and> patchServerPortsForPodNetwork d ex (srv_ID server) w2 = (None, w3) \<longrightarrow>
               CreateMachine d ex machineName userData w
                 = (Inr (encodeProviderID d (Region (Config ex)) (srv_ID server)), w3))"
proof -
  have eq: "CreateMachine d ex machineName userData w
           = CreateMachine_converge d ex machineName server w1"
    using found by (simp add: CreateMachine_def)
  have tr: "\<forall>r w'. CreateMachine d ex machineName userData w = (r, w') \<longrightarrow>
               (\<exists>cs. calls w' = calls w @ cs \<and> list_all (\<lambda>c. \<not> provisioning c) cs)
               \<and> (\<forall>providerID. r = Inr providerID \<longrightarrow>
                     providerID = encodeProviderID d (Region (Config ex)) (srv_ID server))"
  proof (intro allI impI)
    fix r w'
    assume run: "CreateMachine d ex machineName userData w = (r, w')"
    then have conv: "CreateMachine_converge d ex machineName server w1 = (r, w')"
      using eq by simp
    from getMachineByName_quiet [OF found] obtain cs1 where
      cs1: "calls w1 = calls w @ cs1" "list_all (\<lambda>c. \<not> provisioning c) cs1" by blast
    from CreateMachine_converge_quiet [OF conv] obtain cs2 where
      cs2: "calls w' = calls w1 @ cs2" "list_all (\<lambda>c. \<not> provisioning c) cs2" by blast
    have "calls w' = calls w @ (cs1 @ cs2) \<and> list_all (\<lambda>c. \<not> provisioning c) (cs1 @ cs2)"
      using cs1 cs2 by simp
    then have a: "\<exists>cs. calls w' = calls w @ cs \<and> list_all (\<lambda>c. \<not> provisioning c) cs"
      by blast
    have b: "\<forall>providerID. r = Inr providerID \<longrightarrow>
                     providerID = encodeProviderID d (Region (Config ex)) (srv_ID server)"
      using conv CreateMachine_converge_result by blast
    show "(\<exists>cs. calls w' = calls w @ cs \<and> list_all (\<lambda>c. \<not> provisioning c) cs)
               \<and> (\<forall>providerID. r = Inr providerID \<longrightarrow>
                     providerID = encodeProviderID d (Region (Config ex)) (srv_ID server))"
      using a b by (rule conjI)
  qed
  have ok: "\<forall>w2 w3.
               waitForStatus ex (srv_ID server) [ServerStatusBuild] [ServerStatusActive] 600 w1
                 = (None, w2)
               \<and> patchServerPortsForPodNetwork d ex (srv_ID server) w2 = (None, w3) \<longrightarrow>
               CreateMachine d ex machineName userData w
                 = (Inr (encodeProviderID d (Region (Config ex)) (srv_ID server)), w3)"
    unfolding eq by (simp add: CreateMachine_converge_def)
  show ?thesis using eq tr ok by (intro conjI)
qed

lemma simConfig_fields:
  "NetworkID simConfig = ''N''" "VolumeType simConfig = None" "SubnetIDs simConfig = []"
  "SubnetID simConfig = None" "Region simConfig = ''eu''"
  "PodNetworkCidr simConfig = ''10.0.0.0/8''" "Networks simConfig = []"
  "ImageID simConfig = ''img''" "FlavorName simConfig = ''m1''" "RootDiskSize simConfig = 0"
  "SecurityGroups simConfig = [''default'']" "AvailabilityZone simConfig = ''eu-1''"
  "UseConfigDrive simConfig = None" "KeyName simConfig = ''key''"
  "ServerGroupID simConfig = None" "ImageName simConfig = ''''"
  by (simp_all add: simConfig_def)

lemma simConfig_hasKeys:
  "hasKey (Tags simConfig) ''kubernetes.io-cluster-shoot''"
  "hasKey (Tags simConfig) ''kubernetes.io-role-node''"
  by (simp_all add: hasKey_def simConfig_def)

text \<open>Create called twice for the machine \<open>m1\<close> on the empty platform: the first call
  creates the server, the second finds it, sends the lookup, one poll and the port
  listing, creates nothing, and returns the same provider ID.\<close>

theorem CreateMachine_idempotent_witness:
  "CreateMachine simDecls (simExecutor simConfig) ''m1'' ''ud'' (simWorld simCloud)
     = (Inr ''openstack:///eu/id-m1'', \<lparr>cloud = simCreated, calls = simCreateCalls\<rparr>)
   \<and> CreateMachine simDecls (simExecutor simConfig) ''m1'' ''ud''
        \<lparr>cloud = simCreated, calls = simCreateCalls\<rparr>
     = (Inr ''openstack:///eu/id-m1'',
        \<lparr>cloud = simCreated,
          calls = simCreateCalls @
            [ListServers_call ''m1'', GetServer_call ''id-m1'', ListPorts_call ''id-m1'']\<rparr>)"
proof -
  let ?ex = "simExecutor simConfig"
  let ?w1 = "\<lparr>cloud = simCreated, calls = simCreateCalls\<rparr>"
  have first: "CreateMachine simDecls ?ex ''m1'' ''ud'' (simWorld simCloud)
     = (Inr ''openstack:///eu/id-m1'', ?w1)"
    by (simp add: CreateMachine_def getMachineByName_def request_def Let_def sim_ops
          simDecls_fields simConfig_fields simTags simConfig_hasKeys simWorld_def simCloud_def
          resolveServerNetworks_def isUserManagedNetwork_def deployServer_def
          deployServer_imageRef_def deployServer_createOpts_def sim_boot_def
          CreateMachine_converge_def waitForStatus_def wait_Poll_def wait_Poll_loop_numeral
          waitForStatus_condition_def strSliceContains_def
          patchServerPortsForPodNetwork_def resolveNetworkIDsForPodNetwork_def
          addressPairFound_def simCreated_def simCreateCalls_def simServerM1_def)
  have found: "getMachineByName simDecls ?ex ''m1'' ?w1
     = (Inr simServerM1, \<lparr>cloud = simCreated, calls = simCreateCalls @ [ListServers_call ''m1'']\<rparr>)"
    by (simp add: getMachineByName_def request_def Let_def sim_ops simTags simCreated_def
          simCloud_def simServerM1_def simConfig_hasKeys)
  have wait: "waitForStatus ?ex (srv_ID simServerM1) [ServerStatusBuild] [ServerStatusActive] 600
                \<lparr>cloud = simCreated, calls = simCreateCalls @ [ListServers_call ''m1'']\<rparr>
     = (None, \<lparr>cloud = simCreated,
               calls = simCreateCalls @ [ListServers_call ''m1'', GetServer_call ''id-m1'']\<rparr>)"
    by (simp add: waitForStatus_def wait_Poll_def wait_Poll_loop_numeral
          waitForStatus_condition_def strSliceContains_def request_def sim_ops simCreated_def
          simCloud_def simServerM1_def)
  have patch: "patchServerPortsForPodNetwork simDecls ?ex (srv_ID simServerM1)
       \<lparr>cloud = simCreated,
         calls = simCreateCalls @ [ListServers_call ''m1'', GetServer_call ''id-m1'']\<rparr>
     = (None, \<lparr>cloud = simCreated,
               calls = simCreateCalls @
                 [ListServers_call ''m1'', GetServer_call ''id-m1'', ListPorts_call ''id-m1'']\<rparr>)"
    by (simp add: patchServerPortsForPodNetwork_def resolveNetworkIDsForPodNetwork_def
          request_def sim_ops simDecls_fields simConfig_fields addressPairFound_def
          simCreated_def simCloud_def simServerM1_def)
  have pid: "encodeProviderID simDecls (Region (Config ?ex)) (srv_ID simServerM1)
               = ''openstack:///eu/id-m1''"
    by (simp add: simDecls_fields sim_ops simConfig_fields simServerM1_def)
  have second: "CreateMachine simDecls ?ex ''m1'' ''ud'' ?w1
     = (Inr ''openstack:///eu/id-m1'',
        \<lparr>cloud = simCreated,
          calls = simCreateCalls @
            [ListServers_call ''m1'', GetServer_call ''id-m1'', ListPorts_call ''id-m1'']\<rparr>)"
    using conjunct2 [OF conjunct2 [OF CreateMachine_idempotent [OF found, of "''ud''"]],
            rule_format, OF conjI [OF wait patch]] pid
    by simp
  show ?thesis using first second by (rule conjI)
qed

subsection \<open>Deployment from a boot volume\<close>


























lemma simConfigVolume_fields:
  "RootDiskSize simConfigVolume = 50" "VolumeType simConfigVolume = Some ''ssd''"
  "ImageID simConfigVolume = ''img''" "FlavorName simConfigVolume = ''m1''"
  "AvailabilityZone simConfigVolume = ''eu-1''" "KeyName simConfigVolume = ''key''"
  "SecurityGroups simConfigVolume = [''default'']" "Tags simConfigVolume = Tags simConfig"
  "UseConfigDrive simConfigVolume = None" "ServerGroupID simConfigVolume = None"
  "NetworkID simConfigVolume = ''N''" "SubnetIDs simConfigVolume = []"
  "SubnetID simConfigVolume = None"
  by (simp_all add: simConfigVolume_def simConfig_def)








subsection \<open>Delete and the boot volume\<close>

text \<open>Claim C1 reads: with the volume type configured, Delete deletes any volume of the
  machine's name, whether the instance was found or not. The run below is Delete for the
  machine \<open>m1\<close>, with no provider ID, under a configuration with the volume type \<open>ssd\<close>, on
  a platform that holds no server and one volume of the name \<open>m1\<close>. \<open>DeleteMachine\<close>
  returns \<^verbatim>\<open>nil\<close> after the server listing and the volume listing: it sends no request to
  delete the volume, and the volume is still there. (\<open>DeleteMachine\<close> asks for the deletion
  only when the error of \<open>checkBootVolume\<close> is a not-found error, and that error is always
  \<^verbatim>\<open>nil\<close>.) The rollback of Create, \<open>deleteOnFail\<close>, run on the same platform, tests the
  negation, and does delete the volume.\<close>

theorem DeleteMachine_leaves_volume:
  "DeleteMachine simDecls (simExecutor simConfigVolume) ''m1'' ''''
       \<lparr>cloud = simCloud\<lparr>sim_volumes := [simVolume VolumeStatusAvailable]\<rparr>, calls = []\<rparr>
     = (None,
        \<lparr>cloud = simCloud\<lparr>sim_volumes := [simVolume VolumeStatusAvailable]\<rparr>,
          calls = [ListServers_call ''m1'', ListVolumes_call ''m1'']\<rparr>)
   \<and> deleteOnFail simDecls (simExecutor simConfigVolume) ''m1'' (ErrPlatform ''BootFromVolume'')
       \<lparr>cloud = simCloud\<lparr>sim_volumes := [simVolume VolumeStatusAvailable]\<rparr>, calls = []\<rparr>
     = (ErrPlatform ''BootFromVolume'',
        \<lparr>cloud = simCloud,
          calls = [ListServers_call ''m1'', ListVolumes_call ''m1'', ListVolumes_call ''m1'',
                   DeleteVolume_call ''v1'' True]\<rparr>)"
proof -
  let ?ex = "simExecutor simConfigVolume"
  let ?w = "\<lparr>cloud = simCloud\<lparr>sim_volumes := [simVolume VolumeStatusAvailable]\<rparr>,
              calls = []\<rparr>"
  let ?w1 = "\<lparr>cloud = simCloud\<lparr>sim_volumes := [simVolume VolumeStatusAvailable]\<rparr>,
               calls = [ListServers_call ''m1'', ListVolumes_call ''m1'']\<rparr>"
  have del: "DeleteMachine simDecls ?ex ''m1'' '''' ?w = (None, ?w1)"
    by (simp add: DeleteMachine_def getMachineByName_def request_def Let_def sim_ops
          simDecls_fields simConfigVolume_fields simTags simCloud_def
          DeleteMachine_cleanup_def DeleteMachine_volume_def checkBootVolume_def
          isUserManagedNetwork_def simVolume_def)
  have roll: "deleteOnFail_volume simDecls ?ex ''m1'' (ErrPlatform ''BootFromVolume'') ?w1
     = (ErrPlatform ''BootFromVolume'',
        \<lparr>cloud = simCloud,
          calls = [ListServers_call ''m1'', ListVolumes_call ''m1'', ListVolumes_call ''m1'',
                   DeleteVolume_call ''v1'' True]\<rparr>)"
    by (simp add: deleteOnFail_volume_def checkBootVolume_def request_def sim_ops
          simDecls_fields simConfigVolume_fields simCloud_def simVolume_def)
  have "deleteOnFail simDecls ?ex ''m1'' (ErrPlatform ''BootFromVolume'') ?w
     = (ErrPlatform ''BootFromVolume'',
        \<lparr>cloud = simCloud,
          calls = [ListServers_call ''m1'', ListVolumes_call ''m1'', ListVolumes_call ''m1'',
                   DeleteVolume_call ''v1'' True]\<rparr>)"
    unfolding deleteOnFail_def del using roll by simp
  with del show ?thesis by (rule conjI)
qed

end
